(* ===== verification/Prelude.thy ===== *)
theory Prelude
  imports Complex_Main "HOL-Library.AList"
begin

text \<open>
  Shared vocabulary of the quiz-app model. The sources are TypeScript, so this theory
  fixes how the JavaScript values they compute are represented:
  \<^item> timestamps (\<open>Date.now()\<close>), question ids and positions are \<open>int\<close>: they are
    integral JS numbers far below \<open>2^53\<close>, where doubles are exact;
  \<^item> fractions (\<open>correct / total\<close>, progress) are \<open>rat\<close>, wrapped in \<open>jsnum\<close>, which
    adds the two non-finite results of a JS division (\<open>NaN\<close>, \<open>\<plusminus>Infinity\<close>);
    on the values the program divides (counts up to the question count, times 100) the
    double result compares with the thresholds 0.6, 25, \<dots>, 80 exactly as the rational;
  \<^item> \<open>Math.round\<close> is \<open>js_round\<close>, rounding half up;
  \<^item> a JS object used as a dictionary with numeric keys is a map \<open>int \<rightharpoonup> 'v\<close>;
    one whose insertion order is observed (\<open>Object.entries\<close>) is an association
    list, new keys appended at the end;
  \<^item> \<open>xs[i]\<close> on an array is \<open>js_index\<close>, \<open>None\<close> standing for \<open>undefined\<close>.
\<close>

named_theorems quiz_defs "definitions of the quiz model unfolded by the component proofs"

type_synonym timestamp = int
type_synonym qid = int
type_synonym token = string
type_synonym answer_map = "qid \<rightharpoonup> token"

subsection \<open>JavaScript numbers\<close>

datatype jsnum = JNum rat | JNaN | JInf bool

text \<open>\<open>a / b\<close> on JS numbers whose divisor is a non-negative count (\<open>+0\<close> when zero).\<close>

definition js_divide :: "rat \<Rightarrow> rat \<Rightarrow> jsnum" where
  "js_divide a b =
     (if b \<noteq> 0 then JNum (a / b) else if a = 0 then JNaN else JInf (0 < a))"

fun js_scale :: "jsnum \<Rightarrow> rat \<Rightarrow> jsnum" where
  "js_scale (JNum x) c = JNum (x * c)"
| "js_scale JNaN c = JNaN"
| "js_scale (JInf s) c = (if c = 0 then JNaN else JInf (s = (0 < c)))"

text \<open>\<open>x >= c\<close> and \<open>x < c\<close> against a finite constant: every comparison with
  \<open>NaN\<close> is false.\<close>

fun js_ge :: "jsnum \<Rightarrow> rat \<Rightarrow> bool" where
  "js_ge (JNum x) c = (c \<le> x)"
| "js_ge JNaN c = False"
| "js_ge (JInf s) c = s"

fun js_lt :: "jsnum \<Rightarrow> rat \<Rightarrow> bool" where
  "js_lt (JNum x) c = (x < c)"
| "js_lt JNaN c = False"
| "js_lt (JInf s) c = (\<not> s)"

definition js_round :: "rat \<Rightarrow> int" where
  "js_round x = \<lfloor>x + 1 / 2\<rfloor>"

text \<open>Truthiness of a \<open>number | null\<close> value: \<open>null\<close> and \<open>0\<close> are falsy.\<close>

fun js_truthy :: "int option \<Rightarrow> bool" where
  "js_truthy None = False"
| "js_truthy (Some n) = (n \<noteq> 0)"

definition js_index :: "'a list \<Rightarrow> int \<Rightarrow> 'a option" where
  "js_index xs i = (if 0 \<le> i \<and> i < int (length xs) then Some (xs ! nat i) else None)"

fun js_join :: "'a list \<Rightarrow> 'a list list \<Rightarrow> 'a list" where
  "js_join sep [] = []"
| "js_join sep [x] = x"
| "js_join sep (x # y # zs) = x @ sep @ js_join sep (y # zs)"

text \<open>\<open>a % b\<close>: the remainder takes the sign of the dividend.\<close>

definition js_rem :: "int \<Rightarrow> int \<Rightarrow> int" where
  "js_rem a b = sgn a * (\<bar>a\<bar> mod \<bar>b\<bar>)"

text \<open>\<open>String(n)\<close> (template interpolation) of an integral number.\<close>

fun string_of_nat :: "nat \<Rightarrow> string" where
  "string_of_nat n =
     (if n < 10 then [char_of (48 + n)]
      else string_of_nat (n div 10) @ [char_of (48 + n mod 10)])"

definition js_string_of_int :: "int \<Rightarrow> string" where
  "js_string_of_int i =
     (if i < 0 then ''-'' @ string_of_nat (nat (- i)) else string_of_nat (nat i))"

text \<open>The distinct elements of a list in the order of their first occurrence: the
  order in which a JS object acquires its (non-numeric) keys.\<close>

definition first_occurrences :: "'a list \<Rightarrow> 'a list" where
  "first_occurrences xs = rev (remdups (rev xs))"

subsection \<open>Generic lemmas\<close>

lemma js_divide_pos [simp]: "b \<noteq> 0 \<Longrightarrow> js_divide a b = JNum (a / b)"
  by (simp add: js_divide_def)

lemma js_divide_zero [simp]: "js_divide 0 0 = JNaN"
  by (simp add: js_divide_def)

lemma js_round_div_int:
  assumes "0 < k"
  shows "js_round (of_int d / of_int k) = (2 * d + k) div (2 * k)"
proof -
  have "of_int d / of_int k + 1 / 2 = (of_int (2 * d + k) / of_int (2 * k) :: rat)"
    using assms by (simp add: field_simps)
  then have "js_round (of_int d / of_int k) = \<lfloor>of_int (2 * d + k) / of_int (2 * k) :: rat\<rfloor>"
    by (simp only: js_round_def)
  also have "\<dots> = (2 * d + k) div (2 * k)"
    by (rule floor_divide_of_int_eq)
  finally show ?thesis .
qed

lemma js_index_Some [simp]:
  "0 \<le> i \<Longrightarrow> i < int (length xs) \<Longrightarrow> js_index xs i = Some (xs ! nat i)"
  by (simp add: js_index_def)

lemma js_index_None [simp]:
  "i < 0 \<or> int (length xs) \<le> i \<Longrightarrow> js_index xs i = None"
  by (auto simp: js_index_def)

lemma map_entry_map_of:
  "map_of (AList.map_entry k f al) k' =
     (if k' = k then map_option f (map_of al k) else map_of al k')"
  by (induction al) auto

lemma map_entry_keys [simp]: "map fst (AList.map_entry k f al) = map fst al"
  by (induction al) auto

lemma length_filter_conj_le:
  "length (filter (\<lambda>x. P x \<and> Q x) xs) \<le> length (filter Q xs)"
  by (induction xs) auto

lemma foldl_count:
  "foldl (\<lambda>c x. if P x then c + 1 else c) n xs = n + length (filter P xs)"
  by (induction xs arbitrary: n) auto

lemma foldl_add_indicator:
  "foldl (\<lambda>acc x. acc + (if P x then 1 else 0)) n xs = n + int (length (filter P xs))"
  by (induction xs arbitrary: n) auto

lemma map_entry_map_pair:
  "distinct L \<Longrightarrow>
   AList.map_entry k g (map (\<lambda>t. (t, f t)) L) =
   map (\<lambda>t. (t, if t = k then g (f t) else f t)) L"
  by (induction L) auto

lemma map_of_map_pair:
  "map_of (map (\<lambda>t. (t, f t)) L) k = (if k \<in> set L then Some (f k) else None)"
  by (induction L) auto

lemma js_join_Cons: "js_join sep (x # xs) = x @ concat (map (\<lambda>y. sep @ y) xs)"
  by (induction sep "x # xs" arbitrary: x xs rule: js_join.induct) auto

lemma append_singleton_fun [simp]: "(@) [x] = Cons x"
  by (rule ext) simp

lemma map_of_rev_distinct: "distinct (map fst xs) \<Longrightarrow> map_of (rev xs) = map_of xs"
proof (induction xs)
  case (Cons x xs)
  then have "map_of xs (fst x) = None" by (simp add: map_of_eq_None_iff)
  with Cons show ?case by (auto simp: map_add_def fun_eq_iff split: option.splits)
qed simp

lemma map_of_map_inj:
  "inj f \<Longrightarrow> map_of (map (\<lambda>k. (f k, g k)) ks) (f i) = (if i \<in> set ks then Some (g i) else None)"
  by (induction ks) (auto dest: injD)

text \<open>Evaluation of \<open>char_of\<close> on numerals, for the printed digits of numbers.\<close>

lemmas char_eval = char_of_def bit_simps

lemma first_occurrences_snoc [simp]:
  "first_occurrences (xs @ [x]) =
     (if x \<in> set xs then first_occurrences xs else first_occurrences xs @ [x])"
  by (simp add: first_occurrences_def)

lemma first_occurrences_set [simp]: "set (first_occurrences xs) = set xs"
  by (simp add: first_occurrences_def)

lemma first_occurrences_distinct [simp]: "distinct (first_occurrences xs)"
  by (simp add: first_occurrences_def)

lemma sum_list_indicator:
  "distinct L \<Longrightarrow> sum_list (map (\<lambda>t. if t = a then 1 else 0) L) = (if a \<in> set L then 1 else (0::nat))"
  by (induction L) auto

text \<open>Counting the elements of a list by their class under \<open>f\<close>, summed over the
  distinct classes, counts the list.\<close>

lemma sum_list_count_classes:
  "distinct L \<Longrightarrow> set (map f xs) \<subseteq> set L \<Longrightarrow>
   sum_list (map (\<lambda>t. length (filter (\<lambda>x. f x = t \<and> P x) xs)) L) = length (filter P xs)"
proof (induction xs)
  case Nil
  then show ?case by (simp add: sum_list_triv)
next
  case (Cons x xs)
  have split: "(\<lambda>t. length (filter (\<lambda>y. f y = t \<and> P y) (x # xs))) =
      (\<lambda>t. (if t = f x \<and> P x then 1 else 0) + length (filter (\<lambda>y. f y = t \<and> P y) xs))"
    by auto
  have ind: "sum_list (map (\<lambda>t. if t = f x \<and> P x then 1 else 0) L) = (if P x then 1 else (0::nat))"
    using sum_list_indicator [OF Cons.prems(1), of "f x"] Cons.prems(2)
    by (cases "P x") (simp_all add: sum_list_triv)
  show ?case
    using Cons ind by (simp only: split sum_list_addf) simp
qed

end
