(* ===== verification/Json.thy ===== *)
theory Json
  imports Prelude
begin

text \<open>
  The two JSON functions of the JavaScript runtime the program calls on its storage
  (\<open>JSON.stringify\<close> in the save effects, \<open>JSON.parse\<close> in the load effects of
  \<^verbatim>\<open>useQuizState.ts\<close>, \<^verbatim>\<open>App.tsx\<close> and \<^verbatim>\<open>useAnalytics.ts\<close>), modelled from ECMA-262
  and RFC 8259 on byte strings:
  \<^item> \<open>'n json\<close> is the JSON value, polymorphic in its numbers; objects are association
    lists in text order, duplicates kept;
  \<^item> \<open>json_print\<close> prints a value without white space, escaping strings as
    QuoteJSONString does, given the printer of its numbers; \<open>json_stringify\<close> is the
    printer of values whose numbers are integers (the only numbers the program stores);
  \<^item> \<open>json_parse\<close> is a lexer (\<open>json_lex\<close>, a \<open>function\<close> whose termination rests
    on the consumption lemmas of its string and number loops) followed by a
    shift-reduce parser over tokens (\<open>parse_value\<close>/\<open>after_value\<close> with an explicit
    stack of open arrays and objects); \<open>None\<close> is the \<open>SyntaxError\<close> it throws.
    Numbers denote their exact rational value (JS rounds them to doubles, which is exact
    for the integers below \<open>2^53\<close> the program stores); \<open>\\u\<close> escapes are decoded to
    UTF-8, surrogate pairs combined.
  The main result is the round trip \<open>json_parse (json_stringify v) = Some v\<close>, through
  \<open>json_tokens\<close>, the token stream of a printed value.
\<close>

datatype 'n json = JNull | JBool bool | JNumber 'n | JString string
  | JArray "'n json list" | JObject "(string \<times> 'n json) list"

definition hex_digit :: "nat \<Rightarrow> char" where
  "hex_digit d = (if d < 10 then char_of (48 + d) else char_of (87 + d))"

definition quote_char :: "char \<Rightarrow> string" where
  "quote_char c =
     (if c = CHR 0x22 then [CHR 0x5C, CHR 0x22]
      else if c = CHR 0x5C then [CHR 0x5C, CHR 0x5C]
      else if c = CHR 0x08 then [CHR 0x5C, CHR ''b'']
      else if c = CHR 0x09 then [CHR 0x5C, CHR ''t'']
      else if c = CHR 0x0A then [CHR 0x5C, CHR ''n'']
      else if c = CHR 0x0C then [CHR 0x5C, CHR ''f'']
      else if c = CHR 0x0D then [CHR 0x5C, CHR ''r'']
      else if of_char c < (32::nat)
      then [CHR 0x5C, CHR ''u'', CHR ''0'', CHR ''0'',
            hex_digit (of_char c div 16), hex_digit (of_char c mod 16)]
      else [c])"

definition quote_json :: "string \<Rightarrow> string" where
  "quote_json s = CHR 0x22 # concat (map quote_char s) @ [CHR 0x22]"

fun json_print :: "('n \<Rightarrow> string) \<Rightarrow> 'n json \<Rightarrow> string" where
  "json_print num JNull = ''null''"
| "json_print num (JBool b) = (if b then ''true'' else ''false'')"
| "json_print num (JNumber n) = num n"
| "json_print num (JString s) = quote_json s"
| "json_print num (JArray vs) = ''['' @ js_join '','' (map (json_print num) vs) @ '']''"
| "json_print num (JObject kvs) =
     ''{'' @ js_join '','' (map (\<lambda>kv. quote_json (fst kv) @ '':'' @ json_print num (snd kv)) kvs)
     @ ''}''"

abbreviation json_stringify :: "int json \<Rightarrow> string" where
  "json_stringify \<equiv> json_print js_string_of_int"

datatype jtoken = TLBrace | TRBrace | TLBrack | TRBrack | TColon | TComma
  | TStr string | TNum rat | TTrue | TFalse | TNull

definition is_digit :: "char \<Rightarrow> bool" where
  "is_digit c = (48 \<le> (of_char c :: nat) \<and> (of_char c :: nat) \<le> 57)"

definition is_ws :: "char \<Rightarrow> bool" where
  "is_ws c = (c = CHR '' '' \<or> c = CHR 0x09 \<or> c = CHR 0x0A \<or> c = CHR 0x0D)"

definition digits_nat :: "string \<Rightarrow> nat" where
  "digits_nat ds = foldl (\<lambda>n c. 10 * n + (of_char c - 48)) 0 ds"

definition hex_value :: "char \<Rightarrow> nat option" where
  "hex_value c =
     (if is_digit c then Some (of_char c - 48)
      else if 97 \<le> (of_char c :: nat) \<and> (of_char c :: nat) \<le> 102 then Some (of_char c - 87)
      else if 65 \<le> (of_char c :: nat) \<and> (of_char c :: nat) \<le> 70 then Some (of_char c - 55)
      else None)"

fun hex4 :: "string \<Rightarrow> (nat \<times> string) option" where
  "hex4 (a # b # c # d # r) =
     (case (hex_value a, hex_value b, hex_value c, hex_value d) of
        (Some x1, Some x2, Some x3, Some x4) \<Rightarrow> Some (((x1 * 16 + x2) * 16 + x3) * 16 + x4, r)
      | _ \<Rightarrow> None)"
| "hex4 _ = None"

definition utf8_bytes :: "nat \<Rightarrow> string" where
  "utf8_bytes cp =
     (if cp < 128 then [char_of cp]
      else if cp < 2048 then [char_of (192 + cp div 64), char_of (128 + cp mod 64)]
      else if cp < 65536 then
        [char_of (224 + cp div 4096), char_of (128 + cp div 64 mod 64), char_of (128 + cp mod 64)]
      else [char_of (240 + cp div 262144), char_of (128 + cp div 4096 mod 64),
            char_of (128 + cp div 64 mod 64), char_of (128 + cp mod 64)])"

definition simple_escape :: "char \<Rightarrow> char option" where
  "simple_escape e =
     (if e = CHR 0x22 \<or> e = CHR 0x5C \<or> e = CHR ''/'' then Some e
      else if e = CHR ''b'' then Some (CHR 0x08)
      else if e = CHR ''f'' then Some (CHR 0x0C)
      else if e = CHR ''n'' then Some (CHR 0x0A)
      else if e = CHR ''r'' then Some (CHR 0x0D)
      else if e = CHR ''t'' then Some (CHR 0x09)
      else None)"

definition surrogate_pair :: "nat \<Rightarrow> string \<Rightarrow> (nat \<times> string) option" where
  "surrogate_pair u r =
     (if 55296 \<le> u \<and> u < 56320 then
        (case r of
           b # v # rest \<Rightarrow>
             (if b = CHR 0x5C \<and> v = CHR ''u'' then
                (case hex4 rest of
                   Some (w, r') \<Rightarrow>
                     (if 56320 \<le> w \<and> w < 57344
                      then Some (65536 + (u - 55296) * 1024 + (w - 56320), r') else None)
                 | None \<Rightarrow> None)
              else None)
         | _ \<Rightarrow> None)
      else None)"

lemma hex4_shorter: "hex4 s = Some (u, r) \<Longrightarrow> length r < length s"
  by (induction s rule: hex4.induct) (auto split: option.splits)

lemma surrogate_pair_shorter: "surrogate_pair u s = Some (w, r) \<Longrightarrow> length r < length s"
  by (auto simp: surrogate_pair_def split: if_splits list.splits option.splits dest!: hex4_shorter)

function lex_string :: "string \<Rightarrow> (string \<times> string) option" where
  "lex_string [] = None"
| "lex_string (c # cs) =
     (if c = CHR 0x22 then Some ([], cs)
      else if c = CHR 0x5C then
        (case cs of
           [] \<Rightarrow> None
         | e # r \<Rightarrow>
             (case simple_escape e of
                Some d \<Rightarrow> map_option (apfst (Cons d)) (lex_string r)
              | None \<Rightarrow>
                  (if e = CHR ''u'' then
                     (case hex4 r of
                        None \<Rightarrow> None
                      | Some (u, r') \<Rightarrow>
                          (case surrogate_pair u r' of
                             Some (cp, r'') \<Rightarrow> map_option (apfst ((@) (utf8_bytes cp))) (lex_string r'')
                           | None \<Rightarrow> map_option (apfst ((@) (utf8_bytes u))) (lex_string r')))
                   else None)))
      else if of_char c < (32::nat) then None
      else map_option (apfst (Cons c)) (lex_string cs))"
  by pat_completeness auto

termination lex_string
  by (relation "measure length") (auto dest!: hex4_shorter surrogate_pair_shorter)

definition lex_frac :: "string \<Rightarrow> (string \<times> string) option" where
  "lex_frac s =
     (case s of
        c # r \<Rightarrow>
          (if c = CHR ''.'' then
             (if takeWhile is_digit r = [] then None
              else Some (takeWhile is_digit r, dropWhile is_digit r))
           else Some ([], s))
      | [] \<Rightarrow> Some ([], []))"

definition lex_exp :: "string \<Rightarrow> (int \<times> string) option" where
  "lex_exp s =
     (case s of
        c # r \<Rightarrow>
          (if c = CHR ''e'' \<or> c = CHR ''E'' then
             (let (neg, r1) = (case r of
                                 d # r' \<Rightarrow> (if d = CHR ''-'' then (True, r')
                                            else if d = CHR ''+'' then (False, r') else (False, r))
                               | [] \<Rightarrow> (False, r));
                  ds = takeWhile is_digit r1
              in if ds = [] then None
                 else Some (if neg then - int (digits_nat ds) else int (digits_nat ds),
                            dropWhile is_digit r1))
           else Some (0, s))
      | [] \<Rightarrow> Some (0, []))"

definition decimal_value :: "bool \<Rightarrow> string \<Rightarrow> string \<Rightarrow> int \<Rightarrow> rat" where
  "decimal_value neg ip fd e =
     (if neg then -1 else 1) * of_nat (digits_nat (ip @ fd)) / of_nat (10 ^ length fd) *
     (if 0 \<le> e then 10 ^ nat e else 1 / 10 ^ nat (- e))"

definition lex_sign :: "string \<Rightarrow> bool \<times> string" where
  "lex_sign s = (case s of c # r \<Rightarrow> (if c = CHR ''-'' then (True, r) else (False, s)) | [] \<Rightarrow> (False, []))"

definition lex_number :: "string \<Rightarrow> (rat \<times> string) option" where
  "lex_number s =
     (let (neg, s1) = lex_sign s;
          ip = takeWhile is_digit s1
      in if ip = [] \<or> (hd ip = CHR ''0'' \<and> 1 < length ip) then None
         else
           (case lex_frac (dropWhile is_digit s1) of
              None \<Rightarrow> None
            | Some (fd, s2) \<Rightarrow>
                (case lex_exp s2 of
                   None \<Rightarrow> None
                 | Some (e, s3) \<Rightarrow> Some (decimal_value neg ip fd e, s3))))"

lemma lex_frac_le: "lex_frac s = Some (fd, r) \<Longrightarrow> length r \<le> length s"
  by (auto simp: lex_frac_def split: list.splits if_splits
           intro: le_SucI order.trans [OF length_dropWhile_le])

lemma lex_exp_le: "lex_exp s = Some (e, r) \<Longrightarrow> length r \<le> length s"
  by (auto simp: lex_exp_def Let_def split: list.splits if_splits prod.splits
           intro: le_SucI order.trans [OF length_dropWhile_le])

lemma lex_sign_le: "lex_sign s = (neg, s1) \<Longrightarrow> length s1 \<le> length s"
  by (auto simp: lex_sign_def split: list.splits if_splits)

lemma dropWhile_shorter: "takeWhile P xs \<noteq> [] \<Longrightarrow> length (dropWhile P xs) < length xs"
  by (cases xs) (auto split: if_splits intro: le_imp_less_Suc length_dropWhile_le)

lemma lex_number_shorter: "lex_number s = Some (q, r) \<Longrightarrow> length r < length s"
proof -
  assume a: "lex_number s = Some (q, r)"
  obtain neg s1 where sg: "lex_sign s = (neg, s1)" by fastforce
  then have ip: "takeWhile is_digit s1 \<noteq> []" and
    "\<exists>fd s2 e. lex_frac (dropWhile is_digit s1) = Some (fd, s2) \<and> lex_exp s2 = Some (e, r)"
    using a by (auto simp: lex_number_def Let_def split: if_splits option.splits)
  then have "length r \<le> length (dropWhile is_digit s1)"
    by (auto dest!: lex_frac_le lex_exp_le)
  also have "\<dots> < length s1" using dropWhile_shorter [OF ip] .
  also have "\<dots> \<le> length s" using lex_sign_le [OF sg] .
  finally show ?thesis .
qed

function json_lex :: "string \<Rightarrow> jtoken list option" where
  "json_lex [] = Some []"
| "json_lex (c # cs) =
     (if is_ws c then json_lex cs
      else if c = CHR ''{'' then map_option (Cons TLBrace) (json_lex cs)
      else if c = CHR ''}'' then map_option (Cons TRBrace) (json_lex cs)
      else if c = CHR ''['' then map_option (Cons TLBrack) (json_lex cs)
      else if c = CHR '']'' then map_option (Cons TRBrack) (json_lex cs)
      else if c = CHR '':'' then map_option (Cons TColon) (json_lex cs)
      else if c = CHR '','' then map_option (Cons TComma) (json_lex cs)
      else if c = CHR 0x22 then
        (case lex_string cs of
           None \<Rightarrow> None
         | Some (str, r) \<Rightarrow> map_option (Cons (TStr str)) (json_lex r))
      else if c = CHR ''-'' \<or> is_digit c then
        (case lex_number (c # cs) of
           None \<Rightarrow> None
         | Some (q, r) \<Rightarrow> map_option (Cons (TNum q)) (json_lex r))
      else if take 4 (c # cs) = ''true'' then map_option (Cons TTrue) (json_lex (drop 3 cs))
      else if take 5 (c # cs) = ''false'' then map_option (Cons TFalse) (json_lex (drop 4 cs))
      else if take 4 (c # cs) = ''null'' then map_option (Cons TNull) (json_lex (drop 3 cs))
      else None)"
  by pat_completeness auto

lemma lex_string_le: "lex_string s = Some (str, r) \<Longrightarrow> length r \<le> length s"
proof (induction s arbitrary: str rule: lex_string.induct)
  case (2 c cs)
  then show ?case
    by (fastforce split: if_splits list.splits option.splits
        dest: hex4_shorter surrogate_pair_shorter)
qed simp

termination json_lex
proof (relation "measure length")
  fix c cs x2 x y
  assume "lex_string cs = Some x2" "(x, y) = x2"
  then show "(y, c # cs) \<in> measure length" by (auto dest!: lex_string_le)
next
  fix c cs x2 x y
  assume "lex_number (c # cs) = Some x2" "(x, y) = x2"
  then show "(y, c # cs) \<in> measure length" by (auto dest!: lex_number_shorter)
qed simp_all

declare json_lex.simps(2) [simp del]

datatype frame = FArr "rat json list" | FObj "(string \<times> rat json) list" string

function (sequential) parse_value :: "frame list \<Rightarrow> jtoken list \<Rightarrow> rat json option"
and after_value :: "frame list \<Rightarrow> rat json \<Rightarrow> jtoken list \<Rightarrow> rat json option" where
  "parse_value st [] = None"
| "parse_value st (TNull # ts) = after_value st JNull ts"
| "parse_value st (TTrue # ts) = after_value st (JBool True) ts"
| "parse_value st (TFalse # ts) = after_value st (JBool False) ts"
| "parse_value st (TNum q # ts) = after_value st (JNumber q) ts"
| "parse_value st (TStr s # ts) = after_value st (JString s) ts"
| "parse_value st (TLBrack # ts) =
     (case ts of
        TRBrack # ts' \<Rightarrow> after_value st (JArray []) ts'
      | _ \<Rightarrow> parse_value (FArr [] # st) ts)"
| "parse_value st (TLBrace # ts) =
     (case ts of
        TRBrace # ts' \<Rightarrow> after_value st (JObject []) ts'
      | TStr k # TColon # ts' \<Rightarrow> parse_value (FObj [] k # st) ts'
      | _ \<Rightarrow> None)"
| "parse_value st (TRBrace # ts) = None"
| "parse_value st (TRBrack # ts) = None"
| "parse_value st (TColon # ts) = None"
| "parse_value st (TComma # ts) = None"
| "after_value [] v ts = (if ts = [] then Some v else None)"
| "after_value (FArr acc # st) v ts =
     (case ts of
        TComma # ts' \<Rightarrow> parse_value (FArr (v # acc) # st) ts'
      | TRBrack # ts' \<Rightarrow> after_value st (JArray (rev (v # acc))) ts'
      | _ \<Rightarrow> None)"
| "after_value (FObj acc k # st) v ts =
     (case ts of
        TComma # TStr k' # TColon # ts' \<Rightarrow> parse_value (FObj ((k, v) # acc) k' # st) ts'
      | TRBrace # ts' \<Rightarrow> after_value st (JObject (rev ((k, v) # acc))) ts'
      | _ \<Rightarrow> None)"
  by pat_completeness auto

termination
  by (relation "measure (case_sum (\<lambda>(st, ts). length ts) (\<lambda>(st, v, ts). length ts))")
     (auto split: list.splits jtoken.splits)

definition json_parse :: "string \<Rightarrow> rat json option" where
  "json_parse s = (case json_lex s of None \<Rightarrow> None | Some ts \<Rightarrow> parse_value [] ts)"

text \<open>The tokens of a printed value, and the characters that may follow a number
  in printed text.\<close>

fun json_tokens :: "int json \<Rightarrow> jtoken list" where
  "json_tokens JNull = [TNull]"
| "json_tokens (JBool b) = [if b then TTrue else TFalse]"
| "json_tokens (JNumber n) = [TNum (of_int n)]"
| "json_tokens (JString s) = [TStr s]"
| "json_tokens (JArray vs) = TLBrack # js_join [TComma] (map json_tokens vs) @ [TRBrack]"
| "json_tokens (JObject kvs) =
     TLBrace # js_join [TComma] (map (\<lambda>kv. TStr (fst kv) # TColon # json_tokens (snd kv)) kvs)
     @ [TRBrace]"

definition num_delim :: "string \<Rightarrow> bool" where
  "num_delim s = (s = [] \<or> hd s \<in> set '',]}'')"

subsection \<open>Round trip\<close>

lemma string_of_nat_step:
  "string_of_nat n = (if n < 10 then [char_of (48 + n)]
                      else string_of_nat (n div 10) @ [char_of (48 + n mod 10)])"
  by (rule string_of_nat.simps)

lemma string_of_nat_ne: "string_of_nat n \<noteq> []"
  by (simp del: string_of_nat.simps add: string_of_nat_step [of n])

lemma digits_nat_snoc: "digits_nat (xs @ [c]) = 10 * digits_nat xs + (of_char c - 48)"
  by (simp add: digits_nat_def)

lemma string_of_nat_digits: "c \<in> set (string_of_nat n) \<Longrightarrow> is_digit c"
proof (induction n rule: string_of_nat.induct)
  case (1 n)
  show ?case
  proof (cases "n < 10")
    case True
    with 1(2) have "c = char_of (48 + n)" by (simp del: string_of_nat.simps add: string_of_nat_step [of n])
    then show ?thesis using True by (simp add: is_digit_def)
  next
    case False
    with 1(2) have "c = char_of (48 + n mod 10) \<or> c \<in> set (string_of_nat (n div 10))"
      by (simp del: string_of_nat.simps add: string_of_nat_step [of n])
    then show ?thesis
    proof
      assume "c = char_of (48 + n mod 10)"
      then show ?thesis by (simp add: is_digit_def)
    next
      assume "c \<in> set (string_of_nat (n div 10))"
      then show ?thesis by (rule 1(1) [OF False])
    qed
  qed
qed

lemma digits_nat_string_of_nat: "digits_nat (string_of_nat n) = n"
proof (induction n rule: string_of_nat.induct)
  case (1 n)
  show ?case
  proof (cases "n < 10")
    case True
    then show ?thesis by (simp del: string_of_nat.simps add: string_of_nat_step [of n] digits_nat_def)
  next
    case False
    then have "digits_nat (string_of_nat n) = 10 * (n div 10) + n mod 10"
      using 1 by (simp del: string_of_nat.simps add: string_of_nat_step [of n] digits_nat_def)
    then show ?thesis by simp
  qed
qed

lemma takeWhile_digits_append:
  "(\<forall>c\<in>set ds. is_digit c) \<Longrightarrow> (s = [] \<or> \<not> is_digit (hd s)) \<Longrightarrow>
   takeWhile is_digit (ds @ s) = ds \<and> dropWhile is_digit (ds @ s) = s"
proof (induction ds)
  case Nil
  then show ?case by (cases s) auto
qed auto

lemma num_delim_not_digit: "num_delim s \<Longrightarrow> s = [] \<or> \<not> is_digit (hd s)"
  by (auto simp: num_delim_def is_digit_def)

lemma lex_frac_delim: "num_delim s \<Longrightarrow> lex_frac s = Some ([], s)"
  by (cases s) (auto simp: num_delim_def lex_frac_def)

lemma lex_exp_delim: "num_delim s \<Longrightarrow> lex_exp s = Some (0, s)"
  by (cases s) (auto simp: num_delim_def lex_exp_def)

lemma string_of_nat_hd_zero: "hd (string_of_nat n) = CHR ''0'' \<Longrightarrow> n = 0"
proof (induction n rule: string_of_nat.induct)
  case (1 n)
  show ?case
  proof (cases "n < 10")
    case True
    then have "char_of (48 + n) = CHR ''0''"
      using 1(2) by (simp del: string_of_nat.simps add: string_of_nat_step [of n])
    then have "(of_char (char_of (48 + n) :: char) :: nat) = of_char (CHR ''0'')" by simp
    then show ?thesis using True by simp
  next
    case False
    then have "hd (string_of_nat (n div 10)) = CHR ''0''"
      using 1(2) string_of_nat_ne [of "n div 10"]
      by (simp del: string_of_nat.simps add: string_of_nat_step [of n])
    then show ?thesis using 1(1) [OF False] False by simp
  qed
qed

lemma lex_number_digits:
  assumes "num_delim s"
  shows "lex_number ((if neg then ''-'' else []) @ string_of_nat m @ s) =
           Some ((if neg then -1 else 1) * of_nat m, s)"
proof -
  let ?ds = "string_of_nat m"
  obtain c r where cr: "?ds = c # r" using string_of_nat_ne [of m] by (cases ?ds) auto
  have dig: "\<forall>c\<in>set ?ds. is_digit c" using string_of_nat_digits by blast
  then have "is_digit c" using cr by simp
  then have "c \<noteq> CHR ''-''" by (auto simp: is_digit_def)
  then have sg: "lex_sign ((if neg then ''-'' else []) @ ?ds @ s) = (neg, ?ds @ s)"
    using cr by (simp del: string_of_nat.simps add: lex_sign_def)
  have tw: "takeWhile is_digit (?ds @ s) = ?ds" "dropWhile is_digit (?ds @ s) = s"
    using takeWhile_digits_append [OF dig num_delim_not_digit [OF assms]] by (simp_all del: string_of_nat.simps)
  have nz: "\<not> (hd ?ds = CHR ''0'' \<and> 1 < length ?ds)"
  proof
    assume "hd ?ds = CHR ''0'' \<and> 1 < length ?ds"
    then have "m = 0" "1 < length ?ds" using string_of_nat_hd_zero by blast+
    then show False by (simp del: string_of_nat.simps add: string_of_nat_step [of 0])
  qed
  show ?thesis
    using sg tw nz lex_frac_delim [OF assms] lex_exp_delim [OF assms]
    by (simp del: string_of_nat.simps add: lex_number_def Let_def decimal_value_def
                  digits_nat_string_of_nat string_of_nat_ne)
qed

lemma lex_number_int:
  "num_delim s \<Longrightarrow> lex_number (js_string_of_int n @ s) = Some (of_int n, s)"
  using lex_number_digits [of s "n < 0" "nat \<bar>n\<bar>"]
  by (auto simp del: string_of_nat.simps simp: js_string_of_int_def)

lemma js_string_of_int_inj: "inj js_string_of_int"
proof (rule injI)
  fix a b
  assume "js_string_of_int a = js_string_of_int b"
  then have "lex_number (js_string_of_int a @ []) = lex_number (js_string_of_int b @ [])" by simp
  then show "a = b" using lex_number_int [of "[]" a] lex_number_int [of "[]" b]
    by (simp add: num_delim_def)
qed

lemma hex_value_hex_digit: "d < 16 \<Longrightarrow> hex_value (hex_digit d) = Some d"
  by (auto simp: hex_value_def hex_digit_def is_digit_def)

lemma lex_string_unicode_escape:
  assumes "of_char c < (32::nat)"
  shows "lex_string ([CHR 0x5C, CHR ''u'', CHR ''0'', CHR ''0'',
            hex_digit (of_char c div 16), hex_digit (of_char c mod 16)] @ rest) =
         map_option (apfst (Cons c)) (lex_string rest)"
proof -
  have "hex4 (CHR ''0'' # CHR ''0'' # hex_digit (of_char c div 16) # hex_digit (of_char c mod 16) # rest) =
        Some (of_char c, rest)"
    using assms by (simp add: hex_value_hex_digit) (simp add: hex_value_def is_digit_def)
  moreover have "surrogate_pair (of_char c) rest = None"
    using assms by (simp add: surrogate_pair_def)
  moreover have "utf8_bytes (of_char c) = [c]"
    using assms by (simp add: utf8_bytes_def)
  moreover have "((@) [c]) = Cons c" by (rule ext) simp
  ultimately show ?thesis by (simp add: simple_escape_def)
qed

lemma lex_string_simple_escape:
  "simple_escape e = Some d \<Longrightarrow>
   lex_string (CHR 0x5C # e # rest) = map_option (apfst (Cons d)) (lex_string rest)"
  by simp

lemma lex_string_quote_char:
  "lex_string (quote_char c @ rest) = map_option (apfst (Cons c)) (lex_string rest)"
proof -
  let ?named = "{CHR 0x22, CHR 0x5C, CHR 0x08, CHR 0x09, CHR 0x0A, CHR 0x0C, CHR 0x0D}"
  consider (named) "c \<in> ?named" | (ctrl) "c \<notin> ?named" "of_char c < (32::nat)"
    | (plain) "c \<notin> ?named" "\<not> of_char c < (32::nat)" by blast
  then show ?thesis
  proof cases
    case named
    then show ?thesis
      by (auto simp: quote_char_def simple_escape_def)
  next
    case ctrl
    then show ?thesis using lex_string_unicode_escape [of c rest] by (simp add: quote_char_def)
  next
    case plain
    then show ?thesis by (simp add: quote_char_def)
  qed
qed

lemma lex_string_quoted:
  "lex_string (concat (map quote_char str) @ CHR 0x22 # s) = Some (str, s)"
  by (induction str) (simp_all add: lex_string_quote_char)

lemma js_string_of_int_start:
  "\<exists>c r. js_string_of_int n = c # r \<and> (c = CHR ''-'' \<or> is_digit c)"
proof -
  obtain c r where cr: "string_of_nat (nat \<bar>n\<bar>) = c # r"
    using string_of_nat_ne by (cases "string_of_nat (nat \<bar>n\<bar>)") auto
  then have "c \<in> set (string_of_nat (nat \<bar>n\<bar>))" by (simp del: string_of_nat.simps)
  then have "is_digit c" by (rule string_of_nat_digits)
  with cr show ?thesis by (auto simp del: string_of_nat.simps simp: js_string_of_int_def)
qed

lemma lex_number_start:
  assumes "c = CHR ''-'' \<or> is_digit c"
  shows "json_lex (c # r) = (case lex_number (c # r) of None \<Rightarrow> None
                  | Some (q, r') \<Rightarrow> map_option (Cons (TNum q)) (json_lex r'))"
proof -
  have "\<not> is_ws c" "c \<noteq> CHR ''{''" "c \<noteq> CHR ''}''" "c \<noteq> CHR ''[''" "c \<noteq> CHR '']''"
    "c \<noteq> CHR '':''" "c \<noteq> CHR '',''" "c \<noteq> CHR 0x22"
    using assms by (auto simp: is_digit_def is_ws_def)
  then show ?thesis using assms by (simp add: json_lex.simps(2))
qed

lemma json_lex_punct [simp]:
  "json_lex (CHR ''{'' # r) = map_option (Cons TLBrace) (json_lex r)"
  "json_lex (CHR ''}'' # r) = map_option (Cons TRBrace) (json_lex r)"
  "json_lex (CHR ''['' # r) = map_option (Cons TLBrack) (json_lex r)"
  "json_lex (CHR '']'' # r) = map_option (Cons TRBrack) (json_lex r)"
  "json_lex (CHR '':'' # r) = map_option (Cons TColon) (json_lex r)"
  "json_lex (CHR '','' # r) = map_option (Cons TComma) (json_lex r)"
  by (simp_all add: json_lex.simps(2) is_ws_def)

lemma json_lex_literal [simp]:
  "json_lex (CHR ''n'' # CHR ''u'' # CHR ''l'' # CHR ''l'' # r) = map_option (Cons TNull) (json_lex r)"
  "json_lex (CHR ''t'' # CHR ''r'' # CHR ''u'' # CHR ''e'' # r) = map_option (Cons TTrue) (json_lex r)"
  "json_lex (CHR ''f'' # CHR ''a'' # CHR ''l'' # CHR ''s'' # CHR ''e'' # r) =
     map_option (Cons TFalse) (json_lex r)"
  by (simp_all add: json_lex.simps(2) is_ws_def is_digit_def)

lemma json_lex_string:
  "json_lex (quote_json str @ r) = map_option (Cons (TStr str)) (json_lex r)"
  by (simp add: json_lex.simps(2) quote_json_def is_ws_def lex_string_quoted)

lemma lex_join:
  assumes "\<And>x s. x \<in> set xs \<Longrightarrow> num_delim s \<Longrightarrow> json_lex (f x @ s) = map_option ((@) (g x)) (json_lex s)"
    and "num_delim s"
  shows "json_lex (js_join '','' (map f xs) @ s) = map_option ((@) (js_join [TComma] (map g xs))) (json_lex s)"
  using assms
proof (induction xs)
  case Nil
  have "((@) []) = (\<lambda>x::jtoken list. x)" by (rule ext) simp
  with Nil show ?case by (simp add: option.map_ident)
next
  case (Cons a xs)
  show ?case
  proof (cases xs)
    case Nil
    with Cons show ?thesis by simp
  next
    case (Cons b cs)
    have d: "num_delim ('','' @ js_join '','' (map f xs) @ s)" by (simp add: num_delim_def)
    have "json_lex (js_join '','' (map f xs) @ s) =
          map_option ((@) (js_join [TComma] (map g xs))) (json_lex s)"
      using Cons.IH Cons.prems by simp
    then show ?thesis
      using Cons.prems(1) [of a, OF _ d] \<open>xs = b # cs\<close>
      by (simp add: option.map_comp comp_def)
  qed
qed

lemma json_lex_stringify:
  "num_delim s \<Longrightarrow> json_lex (json_stringify v @ s) = map_option ((@) (json_tokens v)) (json_lex s)"
proof (induction v arbitrary: s)
  case (JNumber n)
  obtain c r where cr: "js_string_of_int n = c # r" "c = CHR ''-'' \<or> is_digit c"
    using js_string_of_int_start by blast
  have "json_lex (c # r @ s) = map_option (Cons (TNum (of_int n))) (json_lex s)"
    using lex_number_start [OF cr(2), of "r @ s"] lex_number_int [OF JNumber.prems, of n] cr(1)
    by simp
  then show ?case using cr(1) by simp
next
  case (JString str)
  then show ?case by (simp add: json_lex_string)
next
  case (JArray vs)
  have "json_lex (js_join '','' (map json_stringify vs) @ CHR '']'' # s) =
        map_option ((@) (js_join [TComma] (map json_tokens vs))) (json_lex (CHR '']'' # s))"
    by (rule lex_join) (auto simp: num_delim_def intro: JArray.IH)
  then show ?case by (simp add: option.map_comp comp_def)
next
  case (JObject kvs)
  have "json_lex (js_join '',''
          (map (\<lambda>kv. quote_json (fst kv) @ '':'' @ json_stringify (snd kv)) kvs) @ CHR ''}'' # s) =
        map_option ((@) (js_join [TComma]
          (map (\<lambda>kv. TStr (fst kv) # TColon # json_tokens (snd kv)) kvs))) (json_lex (CHR ''}'' # s))"
  proof (rule lex_join)
    fix kv s'
    assume kv: "kv \<in> set kvs" and d: "num_delim s'"
    have "snd kv \<in> Basic_BNFs.snds kv" by (cases kv) simp
    then have "json_lex (json_stringify (snd kv) @ s') =
               map_option ((@) (json_tokens (snd kv))) (json_lex s')"
      using JObject.IH [OF kv _ d] by blast
    then show "json_lex ((quote_json (fst kv) @ '':'' @ json_stringify (snd kv)) @ s') =
               map_option ((@) (TStr (fst kv) # TColon # json_tokens (snd kv))) (json_lex s')"
      by (cases "json_lex s'") (simp_all add: json_lex_string)
  qed (simp add: num_delim_def)
  then show ?case by (simp add: option.map_comp comp_def)
qed (auto simp: option.map_comp comp_def)

lemma json_tokens_start: "\<exists>t r. json_tokens v = t # r \<and> t \<notin> {TRBrack, TRBrace, TComma, TColon}"
  by (cases v) auto

lemma parse_array_tail:
  assumes "\<And>v st ts. v \<in> set ws \<Longrightarrow> parse_value st (json_tokens v @ ts) = after_value st (map_json of_int v) ts"
  shows "after_value (FArr acc # st) w (concat (map (\<lambda>y. TComma # json_tokens y) ws) @ TRBrack # ts) =
         after_value st (JArray (rev (w # acc) @ map (map_json of_int) ws)) ts"
  using assms
proof (induction ws arbitrary: acc w)
  case (Cons v ws)
  let ?rest = "concat (map (\<lambda>y. TComma # json_tokens y) ws) @ TRBrack # ts"
  have "after_value (FArr acc # st) w (concat (map (\<lambda>y. TComma # json_tokens y) (v # ws)) @ TRBrack # ts) =
        after_value (FArr (w # acc) # st) (map_json of_int v) ?rest"
    using Cons.prems [of v] by simp
  also have "\<dots> = after_value st (JArray (rev (map_json of_int v # w # acc) @ map (map_json of_int) ws)) ts"
    using Cons.IH [of "w # acc" "map_json of_int v"] Cons.prems by simp
  finally show ?case by simp
qed simp

lemma parse_object_tail:
  assumes "\<And>kv st ts. kv \<in> set kvs \<Longrightarrow>
             parse_value st (json_tokens (snd kv) @ ts) = after_value st (map_json of_int (snd kv)) ts"
  shows "after_value (FObj acc k # st) w
           (concat (map (\<lambda>kv. TComma # TStr (fst kv) # TColon # json_tokens (snd kv)) kvs) @ TRBrace # ts) =
         after_value st (JObject (rev ((k, w) # acc) @ map (map_prod id (map_json of_int)) kvs)) ts"
  using assms
proof (induction kvs arbitrary: acc k w)
  case (Cons kv kvs)
  obtain a b where kv: "kv = (a, b)" by fastforce
  let ?rest = "concat (map (\<lambda>kv. TComma # TStr (fst kv) # TColon # json_tokens (snd kv)) kvs) @ TRBrace # ts"
  have "after_value (FObj acc k # st) w
          (concat (map (\<lambda>kv. TComma # TStr (fst kv) # TColon # json_tokens (snd kv)) (kv # kvs)) @ TRBrace # ts) =
        after_value (FObj ((k, w) # acc) a # st) (map_json of_int b) ?rest"
    using Cons.prems [of kv] kv by simp
  also have "\<dots> = after_value st
      (JObject (rev ((a, map_json of_int b) # (k, w) # acc) @ map (map_prod id (map_json of_int)) kvs)) ts"
    using Cons.IH [of "(k, w) # acc" a "map_json of_int b"] Cons.prems by (simp del: after_value.simps add: id_def)
  finally show ?case using kv by (simp del: after_value.simps parse_value.simps add: id_def)
qed simp

lemma json_tokens_array:
  "json_tokens (JArray (v # ws)) =
     TLBrack # json_tokens v @ concat (map (\<lambda>y. TComma # json_tokens y) ws) @ [TRBrack]"
  by (simp add: js_join_Cons comp_def)

lemma json_tokens_object:
  "json_tokens (JObject ((k, v) # kvs)) =
     TLBrace # TStr k # TColon # json_tokens v @
     concat (map (\<lambda>kv. TComma # TStr (fst kv) # TColon # json_tokens (snd kv)) kvs) @ [TRBrace]"
  by (simp add: js_join_Cons comp_def)

lemma parse_open_array:
  "t \<noteq> TRBrack \<Longrightarrow> parse_value st (TLBrack # t # r) = parse_value (FArr [] # st) (t # r)"
  by (cases t) simp_all

lemma parse_tokens:
  "parse_value st (json_tokens v @ ts) = after_value st (map_json of_int v) ts"
proof (induction v arbitrary: st ts)
  case (JArray vs)
  show ?case
  proof (cases vs)
    case (Cons v1 ws)
    obtain t r where tr: "json_tokens v1 = t # r" "t \<notin> {TRBrack, TRBrace, TComma, TColon}"
      using json_tokens_start by blast
    let ?rest = "concat (map (\<lambda>y. TComma # json_tokens y) ws) @ TRBrack # ts"
    have "parse_value st (json_tokens (JArray vs) @ ts) = parse_value st (TLBrack # t # r @ ?rest)"
      using tr Cons by (simp add: json_tokens_array del: json_tokens.simps)
    also have "\<dots> = parse_value (FArr [] # st) (json_tokens v1 @ ?rest)"
      using tr by (simp add: parse_open_array del: parse_value.simps)
    also have "\<dots> = after_value (FArr [] # st) (map_json of_int v1) ?rest"
      using JArray.IH Cons by simp
    also have "\<dots> = after_value st (map_json of_int (JArray vs)) ts"
      using parse_array_tail [of ws] JArray.IH Cons by simp
    finally show ?thesis .
  qed simp
next
  case (JObject kvs)
  show ?case
  proof (cases kvs)
    case (Cons kv ws)
    obtain k v1 where kv: "kv = (k, v1)" by fastforce
    let ?rest = "concat (map (\<lambda>kv. TComma # TStr (fst kv) # TColon # json_tokens (snd kv)) ws) @ TRBrace # ts"
    have "parse_value st (json_tokens (JObject kvs) @ ts) = parse_value (FObj [] k # st) (json_tokens v1 @ ?rest)"
      using kv Cons by (simp add: json_tokens_object del: json_tokens.simps)
    also have "\<dots> = after_value (FObj [] k # st) (map_json of_int v1) ?rest"
      using JObject.IH [of kv v1] kv Cons by simp
    also have "\<dots> = after_value st (map_json of_int (JObject kvs)) ts"
    proof -
      have "\<And>kv' st ts. kv' \<in> set ws \<Longrightarrow>
              parse_value st (json_tokens (snd kv') @ ts) = after_value st (map_json of_int (snd kv')) ts"
        using JObject.IH Cons by (metis list.set_intros(2) prod.collapse snds.intros)
      then show ?thesis using parse_object_tail [of ws "[]" k st "map_json of_int v1" ts] kv Cons
        by (simp del: after_value.simps)
    qed
    finally show ?thesis .
  qed simp
qed simp_all

lemma json_parse_stringify: "json_parse (json_stringify v) = Some (map_json of_int v)"
proof -
  have "json_lex (json_stringify v @ []) = map_option ((@) (json_tokens v)) (json_lex [])"
    by (rule json_lex_stringify) (simp add: num_delim_def)
  then have "json_lex (json_stringify v) = Some (json_tokens v)" by simp
  moreover have "parse_value [] (json_tokens v @ []) = after_value [] (map_json of_int v) []"
    by (rule parse_tokens)
  ultimately show ?thesis by (simp add: json_parse_def)
qed

end
