(* ===== verification/JsonValue.thy ===== *)
theory JsonValue
  imports Json
begin

text \<open>
  What \<open>JSON.stringify\<close> prints for a value \<open>JSON.parse\<close> built, as
  \<^verbatim>\<open>useAnalytics.ts\<close> does when it appends to the parsed log and writes it back
  (lines 29-31). Two rules of ECMA-262 come in that \<open>Json\<close> does not need for the
  integers the program writes:
  \<^item> a number is printed by \<open>Number::toString\<close> (\<open>js_number_text\<close>): the shortest
    digit string \<open>s\<close> with exponent \<open>n\<close>, written plainly when \<open>-6 < n \<le> 21\<close> and
    in exponent form otherwise. A parsed number is the exact decimal of its text, so its
    shortest digits are its decimal digits with trailing zeros removed
    (\<open>decimal_digits\<close>);
  \<^item> an object's keys are printed in the order of OrdinaryOwnPropertyKeys: the array
    indices ascending, then the other keys in the order they were created; a key repeated
    in the text keeps its first position and its last value (\<open>js_object\<close>,
    \<open>js_value\<close>).
  The main lemmas: \<open>js_number_text\<close> agrees with \<open>String(n)\<close> on the integers below
  \<open>10^21\<close>, and \<open>js_value\<close> leaves alone a value whose objects have distinct keys
  none of which is an array index.
\<close>

subsection \<open>\<open>Number::toString\<close>\<close>

function count_factor :: "nat \<Rightarrow> nat \<Rightarrow> nat" where
  "count_factor p b =
     (if 1 < p \<and> 0 < b \<and> b mod p = 0 then Suc (count_factor p (b div p)) else 0)"
  by auto
termination by (relation "measure snd") auto

function strip_zeros :: "nat \<Rightarrow> nat \<times> nat" where
  "strip_zeros m =
     (if 0 < m \<and> m mod 10 = 0 then (case strip_zeros (m div 10) of (s, z) \<Rightarrow> (s, Suc z))
      else (m, 0))"
  by auto
termination by (relation "measure id") auto

declare count_factor.simps [simp del] strip_zeros.simps [simp del]

text \<open>For a positive rational \<open>a / b\<close> whose decimal expansion ends (every number a JSON
  text denotes), \<open>10^t\<close> with \<open>t\<close> the larger multiplicity of 2 and 5 in \<open>b\<close> makes it
  integral; \<open>(s, n)\<close> are the digits without trailing zeros and the position of the
  decimal point, the \<open>s\<close> and \<open>n\<close> of ECMA-262 6.1.6.1.20.\<close>

definition decimal_digits :: "rat \<Rightarrow> nat \<times> int" where
  "decimal_digits r =
     (case quotient_of r of (a, b) \<Rightarrow>
        let t = max (count_factor 2 (nat b)) (count_factor 5 (nat b))
        in case strip_zeros (nat a * 10 ^ t div nat b) of
             (s, z) \<Rightarrow> (s, int (length (string_of_nat s)) + int z - int t))"

definition exponent_text :: "int \<Rightarrow> string" where
  "exponent_text e = (if e < 0 then ''e-'' else ''e+'') @ string_of_nat (nat \<bar>e\<bar>)"

definition positive_number_text :: "nat \<Rightarrow> int \<Rightarrow> string" where
  "positive_number_text s n =
     (let ds = string_of_nat s; k = int (length ds)
      in if k \<le> n \<and> n \<le> 21 then ds @ replicate (nat (n - k)) (CHR ''0'')
         else if 0 < n \<and> n \<le> 21 then take (nat n) ds @ ''.'' @ drop (nat n) ds
         else if -6 < n \<and> n \<le> 0 then ''0.'' @ replicate (nat (- n)) (CHR ''0'') @ ds
         else if k = 1 then ds @ exponent_text (n - 1)
         else take 1 ds @ ''.'' @ drop 1 ds @ exponent_text (n - 1))"

definition js_number_text :: "rat \<Rightarrow> string" where
  "js_number_text r =
     (if r = 0 then ''0''
      else if r < 0 then ''-'' @ case_prod positive_number_text (decimal_digits (- r))
      else case_prod positive_number_text (decimal_digits r))"

subsection \<open>Objects as \<open>JSON.parse\<close> builds them\<close>

definition is_array_index :: "string \<Rightarrow> bool" where
  "is_array_index k \<longleftrightarrow>
     k \<noteq> [] \<and> list_all is_digit k \<and> (k = ''0'' \<or> hd k \<noteq> CHR ''0'') \<and>
     digits_nat k < 4294967295"

definition js_object :: "(string \<times> 'a) list \<Rightarrow> (string \<times> 'a) list" where
  "js_object kvs =
     (let ks = first_occurrences (map fst kvs)
      in map (\<lambda>k. (k, the (map_of (rev kvs) k)))
           (sort_key digits_nat (filter is_array_index ks) @ filter (Not \<circ> is_array_index) ks))"

fun js_value :: "'n json \<Rightarrow> 'n json" where
  "js_value (JArray vs) = JArray (map js_value vs)"
| "js_value (JObject kvs) = JObject (js_object (map (\<lambda>kv. (fst kv, js_value (snd kv))) kvs))"
| "js_value v = v"

text \<open>\<open>JSON.stringify\<close> of a value \<open>JSON.parse\<close> returned.\<close>

definition json_reprint :: "rat json \<Rightarrow> string" where
  "json_reprint v = json_print js_number_text (js_value v)"

text \<open>Reading a parsed value: a property of an object (the last of duplicate keys, as
  \<open>JSON.parse\<close> keeps it), an integral number, a string.\<close>

definition obj_get :: "string \<Rightarrow> (string \<times> 'n json) list \<Rightarrow> 'n json option" where
  "obj_get k kvs = map_of (rev kvs) k"

fun json_int :: "rat json \<Rightarrow> int option" where
  "json_int (JNumber q) = (if q = of_int \<lfloor>q\<rfloor> then Some \<lfloor>q\<rfloor> else None)"
| "json_int _ = None"

fun json_string :: "rat json \<Rightarrow> string option" where
  "json_string (JString t) = Some t"
| "json_string _ = None"

subsection \<open>Reading properties of parsed values\<close>

text \<open>The errors the program can meet on stored text: \<open>JSON.parse\<close> throws a
  \<open>SyntaxError\<close>, a property read on \<open>null\<close> or \<open>undefined\<close> (or a call of
  something that is not a function) a \<open>TypeError\<close>.\<close>

datatype js_error = SyntaxError | TypeError

text \<open>\<open>ToString\<close> of a parsed value, as a property key (\<open>ToPropertyKey\<close>): arrays
  join their elements with commas, \<open>null\<close> elements as empty strings.\<close>

fun js_to_string :: "rat json \<Rightarrow> string" where
  "js_to_string JNull = ''null''"
| "js_to_string (JBool b) = (if b then ''true'' else ''false'')"
| "js_to_string (JNumber q) = js_number_text q"
| "js_to_string (JString s) = s"
| "js_to_string (JArray vs) = js_join '','' (map (\<lambda>v. if v = JNull then [] else js_to_string v) vs)"
| "js_to_string (JObject kvs) = ''[object Object]''"

definition js_key :: "rat json option \<Rightarrow> string" where
  "js_key v = (case v of None \<Rightarrow> ''undefined'' | Some j \<Rightarrow> js_to_string j)"

text \<open>\<open>xs[k]\<close> on an array for an index key.\<close>

definition js_list_get :: "'a list \<Rightarrow> string \<Rightarrow> 'a option" where
  "js_list_get xs k = (if is_array_index k \<and> digits_nat k < length xs then Some (xs ! digits_nat k) else None)"

text \<open>\<open>v[k]\<close> on a parsed value or \<open>undefined\<close> (\<open>None\<close>): own properties of objects,
  index and \<open>length\<close> of arrays and strings; a read on \<open>null\<close> or \<open>undefined\<close>
  throws. Inherited properties (methods of the prototypes) are left out: the program reads
  none of them. Strings are indexed by byte, which is exact for ASCII text.\<close>

fun js_get :: "rat json option \<Rightarrow> string \<Rightarrow> js_error + rat json option" where
  "js_get None k = Inl TypeError"
| "js_get (Some JNull) k = Inl TypeError"
| "js_get (Some (JObject kvs)) k = Inr (obj_get k kvs)"
| "js_get (Some (JArray vs)) k =
     Inr (if k = ''length'' then Some (JNumber (of_nat (length vs))) else js_list_get vs k)"
| "js_get (Some (JString s)) k =
     Inr (if k = ''length'' then Some (JNumber (of_nat (length s)))
          else map_option (\<lambda>c. JString [c]) (js_list_get s k))"
| "js_get (Some (JBool b)) k = Inr None"
| "js_get (Some (JNumber q)) k = Inr None"

text \<open>All numbers of a value satisfy a predicate.\<close>

fun json_all :: "('n \<Rightarrow> bool) \<Rightarrow> 'n json \<Rightarrow> bool" where
  "json_all P (JNumber n) = P n"
| "json_all P (JArray vs) = list_all (json_all P) vs"
| "json_all P (JObject kvs) = list_all (\<lambda>kv. json_all P (snd kv)) kvs"
| "json_all P v = True"

text \<open>A value all of whose objects have distinct keys, none an array index: the values
  the program builds from object literals.\<close>

fun plain_json :: "'n json \<Rightarrow> bool" where
  "plain_json (JArray vs) = list_all plain_json vs"
| "plain_json (JObject kvs) =
     (distinct (map fst kvs) \<and> \<not> list_ex is_array_index (map fst kvs) \<and>
      list_all (\<lambda>kv. plain_json (snd kv)) kvs)"
| "plain_json v = True"

subsection \<open>Integers print as \<open>String(n)\<close>\<close>


lemma string_of_nat_times_ten:
  "0 < m \<Longrightarrow> string_of_nat (m * 10) = string_of_nat m @ ''0''"
  by (simp del: string_of_nat.simps add: string_of_nat_step [of "m * 10"] char_eval)

lemma string_of_nat_pow_ten:
  "0 < s \<Longrightarrow> string_of_nat (s * 10 ^ z) = string_of_nat s @ replicate z (CHR ''0'')"
proof (induction z)
  case (Suc z)
  have "string_of_nat (s * 10 ^ Suc z) = string_of_nat (s * 10 ^ z * 10)"
    by (simp add: ac_simps)
  also have "\<dots> = string_of_nat (s * 10 ^ z) @ ''0''"
    using Suc.prems by (simp add: string_of_nat_times_ten char_eval)
  finally show ?case using Suc by (simp del: string_of_nat.simps add: replicate_append_same [symmetric])
qed simp

lemma strip_zeros_eq:
  "strip_zeros m = (s, z) \<Longrightarrow> m = s * 10 ^ z \<and> (0 < m \<longrightarrow> 0 < s)"
proof (induction m arbitrary: s z rule: strip_zeros.induct)
  case (1 m)
  show ?case
  proof (cases "0 < m \<and> m mod 10 = 0")
    case True
    obtain s' z' where sz: "strip_zeros (m div 10) = (s', z')" by fastforce
    with True 1(2) have "s = s'" "z = Suc z'"
      by (simp_all add: strip_zeros.simps [of m])
    moreover have "m div 10 = s' * 10 ^ z' \<and> (0 < m div 10 \<longrightarrow> 0 < s')"
      using 1(1) [OF True sz] .
    moreover have "m = m div 10 * 10" "0 < m div 10" using True by auto
    ultimately show ?thesis by (metis mult.assoc mult.commute power_Suc)
  next
    case False
    with 1(2) show ?thesis by (simp add: strip_zeros.simps [of m])
  qed
qed

lemma length_string_of_nat_le:
  "m < 10 ^ d \<Longrightarrow> 0 < d \<Longrightarrow> length (string_of_nat m) \<le> d"
proof (induction m arbitrary: d rule: string_of_nat.induct)
  case (1 m)
  show ?case
  proof (cases "m < 10")
    case True
    with 1(3) show ?thesis by (simp del: string_of_nat.simps add: string_of_nat_step [of m])
  next
    case False
    then obtain d' where d: "d = Suc d'" using 1(2,3)
      by (cases d) auto
    with False 1(2) have "0 < d'" by (cases d') auto
    moreover have "m div 10 < 10 ^ d'" using 1(2) d by simp
    ultimately have "length (string_of_nat (m div 10)) \<le> d'" using 1(1) [OF False] by blast
    with False d show ?thesis by (simp del: string_of_nat.simps add: string_of_nat_step [of m])
  qed
qed

lemma decimal_digits_of_nat:
  assumes "strip_zeros m = (s, z)"
  shows "decimal_digits (of_nat m) = (s, int (length (string_of_nat s)) + int z)"
proof -
  have q: "quotient_of (of_nat m :: rat) = (int m, 1)"
    using quotient_of_int [of "int m"] by simp
  have "count_factor 2 1 = 0" "count_factor 5 1 = 0" by (simp_all add: count_factor.simps)
  then show ?thesis by (simp del: string_of_nat.simps add: decimal_digits_def q assms)
qed

lemma js_number_text_nat:
  assumes "0 < m" "m < 10 ^ 21"
  shows "js_number_text (of_nat m) = string_of_nat m"
proof -
  obtain s z where sz: "strip_zeros m = (s, z)" by fastforce
  from strip_zeros_eq [OF sz] assms(1) have m: "m = s * 10 ^ z" and s: "0 < s" by auto
  have len: "length (string_of_nat m) = length (string_of_nat s) + z"
    unfolding m using s by (simp del: string_of_nat.simps add: string_of_nat_pow_ten)
  have "length (string_of_nat m) \<le> 21" by (rule length_string_of_nat_le [OF assms(2)]) simp
  then have "positive_number_text s (int (length (string_of_nat s)) + int z) =
             string_of_nat s @ replicate z (CHR ''0'')"
    using len by (simp del: string_of_nat.simps add: positive_number_text_def Let_def)
  also have "\<dots> = string_of_nat m" unfolding m using s by (simp del: string_of_nat.simps add: string_of_nat_pow_ten)
  finally show ?thesis using assms(1) by (simp del: string_of_nat.simps add: js_number_text_def decimal_digits_of_nat [OF sz])
qed

lemma js_number_text_neg: "r < 0 \<Longrightarrow> js_number_text r = ''-'' @ js_number_text (- r)"
  by (simp add: js_number_text_def)

lemma js_number_text_int:
  assumes "\<bar>i\<bar> < 10 ^ 21"
  shows "js_number_text (of_int i) = js_string_of_int i"
proof -
  have pos: "js_number_text (of_int j) = string_of_nat (nat j)" if "0 < j" "\<bar>j\<bar> < 10 ^ 21" for j
  proof -
    have "nat j < 10 ^ 21" using that by (simp add: nat_less_iff)
    then have "js_number_text (of_nat (nat j)) = string_of_nat (nat j)"
      using that(1) by (intro js_number_text_nat) simp_all
    moreover have "(of_nat (nat j) :: rat) = of_int j" using that(1) by simp
    ultimately show ?thesis by simp
  qed
  consider "i = 0" | "0 < i" | "i < 0" by linarith
  then show ?thesis
  proof cases
    case 1
    then show ?thesis
      by (simp del: string_of_nat.simps
          add: js_number_text_def js_string_of_int_def string_of_nat_step [of 0] char_eval)
  next
    case 2
    then show ?thesis using pos [OF 2 assms] by (simp add: js_string_of_int_def)
  next
    case 3
    then have "js_number_text (of_int i) = ''-'' @ js_number_text (of_int (- i))"
      by (simp add: js_number_text_neg)
    also have "\<dots> = ''-'' @ string_of_nat (nat (- i))" using 3 assms pos [of "- i"] by simp
    finally show ?thesis using 3 by (simp add: js_string_of_int_def)
  qed
qed

subsection \<open>Printing and normalising\<close>

lemma json_print_map: "json_print f (map_json g v) = json_print (f \<circ> g) v"
proof (induction v)
  case (JObject kvs)
  have "\<And>kv. kv \<in> set kvs \<Longrightarrow> json_print f (map_json g (snd kv)) = json_print (f \<circ> g) (snd kv)"
    by (metis JObject.IH prod.collapse snds.intros)
  then show ?case by (simp add: comp_def cong: map_cong)
qed (simp_all add: comp_def cong: map_cong)

lemma json_all_iff: "json_all P v \<longleftrightarrow> (\<forall>n\<in>set_json v. P n)"
proof (induction v)
  case (JObject kvs)
  have "\<And>kv. kv \<in> set kvs \<Longrightarrow> json_all P (snd kv) = (\<forall>n\<in>set_json (snd kv). P n)"
    by (metis JObject.IH prod.collapse snds.intros)
  then show ?case by (fastforce simp: list_all_iff)
qed (auto simp: list_all_iff)

lemma json_print_cong:
  "(\<And>n. n \<in> set_json v \<Longrightarrow> f n = g n) \<Longrightarrow> json_print f v = json_print g v"
proof (induction v)
  case (JArray vs)
  have "\<And>x. x \<in> set vs \<Longrightarrow> json_print f x = json_print g x"
    using JArray.IH JArray.prems by auto
  then show ?case by (simp cong: map_cong)
next
  case (JObject kvs)
  have "\<And>kv. kv \<in> set kvs \<Longrightarrow> json_print f (snd kv) = json_print g (snd kv)"
  proof -
    fix kv assume kv: "kv \<in> set kvs"
    have "snd kv \<in> Basic_BNFs.snds kv" by (cases kv) simp
    moreover have "\<And>n. n \<in> set_json (snd kv) \<Longrightarrow> f n = g n"
      using JObject.prems kv by (cases kv) fastforce
    ultimately show "json_print f (snd kv) = json_print g (snd kv)" using JObject.IH kv by blast
  qed
  then show ?case by (simp cong: map_cong)
qed simp_all

lemma map_of_fst_the:
  assumes "distinct (map fst kvs)"
  shows "map (\<lambda>k. (k, the (map_of kvs k))) (map fst kvs) = kvs"
proof -
  have "\<And>kv. kv \<in> set kvs \<Longrightarrow> (fst kv, the (map_of kvs (fst kv))) = kv"
    using map_of_is_SomeI [OF assms] by (metis option.sel prod.collapse)
  then show ?thesis by (simp add: comp_def map_idI)
qed

lemma first_occurrences_distinct_id: "distinct xs \<Longrightarrow> first_occurrences xs = xs"
  by (simp add: first_occurrences_def distinct_remdups_id)

lemma js_object_plain:
  assumes "distinct (map fst kvs)" "\<not> list_ex is_array_index (map fst kvs)"
  shows "js_object kvs = kvs"
proof -
  have "filter is_array_index (map fst kvs) = []" "filter (Not \<circ> is_array_index) (map fst kvs) = map fst kvs"
    using assms(2) by (simp_all add: filter_empty_conv list_ex_iff)
  then show ?thesis
    using assms(1) map_of_fst_the [OF assms(1)]
    by (simp add: js_object_def first_occurrences_distinct_id map_of_rev_distinct)
qed

lemma js_value_plain: "plain_json v \<Longrightarrow> js_value v = v"
proof (induction v)
  case (JArray vs)
  then show ?case by (simp add: list_all_iff map_idI)
next
  case (JObject kvs)
  have "\<And>kv. kv \<in> set kvs \<Longrightarrow> js_value (snd kv) = snd kv"
  proof -
    fix kv assume kv: "kv \<in> set kvs"
    have "snd kv \<in> Basic_BNFs.snds kv" by (cases kv) simp
    moreover have "plain_json (snd kv)" using JObject.prems kv by (simp add: list_all_iff)
    ultimately show "js_value (snd kv) = snd kv" using JObject.IH kv by blast
  qed
  then have "map (\<lambda>kv. (fst kv, js_value (snd kv))) kvs = kvs" by (simp add: map_idI)
  then have "js_value (JObject kvs) = JObject (js_object kvs)" by (simp only: js_value.simps)
  also have "js_object kvs = kvs"
    using JObject.prems by (intro js_object_plain) simp_all
  finally show ?case .
qed simp_all

end
