(* ===== verification/QuizData.thy ===== *)
theory QuizData
  imports Prelude
begin

text \<open>
  The static question bank of \<^verbatim>\<open>src/utils/quizData.ts\<close>: the \<open>QuizQuestion\<close>
  interface as a record, its difficulty union as a datatype, the five questions of
  \<open>spmMathQuestions\<close>, the milestone messages and the quiz metadata. Strings are kept
  byte for byte: a character outside ASCII is written as its UTF-8 bytes. The lemmas
  at the end are the facts about the bank that the state machine and the scoring rely on:
  ids \<open>1..5\<close> in order, one question per topic, each correct answer one of the
  question's option values.
\<close>

datatype difficulty = Easy | Medium | Hard

record answer_option =
  label :: string
  option_value :: token
  formula :: "string option"

record quiz_question =
  qid :: qid
  question :: string
  options :: "answer_option list"
  correctAnswer :: token
  explanation :: string
  topic :: string
  difficulty :: difficulty

definition spmMathQuestions :: "quiz_question list" where
  "spmMathQuestions = [
  \<lparr>qid = 1,
    question = ''It is given that 0.3, 0.6, 0.9, 1.2, ... is a number sequence. Find the inductive conclusion for the given number sequence.'',
    options = [
      \<lparr>label = ''(A)'', option_value = ''A'', formula = Some ''0.1n; n = 3, 6, 9, 12, ...''\<rparr>,
      \<lparr>label = ''(B)'', option_value = ''B'', formula = Some (''3n'' @ [CHR 0xE2, CHR 0x81, CHR 0xBB, CHR 0xC2, CHR 0xB9] @ ''; n = 1, 2, 3, 4, ...'')\<rparr>,
      \<lparr>label = ''(C)'', option_value = ''C'', formula = Some ([CHR 0xC2, CHR 0xB3, CHR 0xE2, CHR 0x81, CHR 0x84, CHR 0xE2, CHR 0x82, CHR 0x81, CHR 0xE2, CHR 0x82, CHR 0x80] @ ''n; n = 1, 2, 3, 4, ...'')\<rparr>,
      \<lparr>label = ''(D)'', option_value = ''D'', formula = Some ''0.15n; n = 2, 3, 4, 5, ...''\<rparr>],
    correctAnswer = ''C'',
    explanation = (''The sequence increases by 0.3 each time. The nth term is 0.3n where n = 1, 2, 3, 4, ... which equals '' @ [CHR 0xC2, CHR 0xB3, CHR 0xE2, CHR 0x81, CHR 0x84, CHR 0xE2, CHR 0x82, CHR 0x81, CHR 0xE2, CHR 0x82, CHR 0x80] @ ''n.''),
    topic = ''Number Sequences'',
    difficulty = Medium\<rparr>,
  \<lparr>qid = 2,
    question = ''Given that the first term of a geometric sequence is 2 and the common ratio is 3, find the 5th term.'',
    options = [
      \<lparr>label = ''(A)'', option_value = ''A'', formula = Some ''162''\<rparr>,
      \<lparr>label = ''(B)'', option_value = ''B'', formula = Some ''243''\<rparr>,
      \<lparr>label = ''(C)'', option_value = ''C'', formula = Some ''486''\<rparr>,
      \<lparr>label = ''(D)'', option_value = ''D'', formula = Some ''54''\<rparr>],
    correctAnswer = ''A'',
    explanation = (''For a geometric sequence, the nth term is ar^(n-1). Here a=2, r=3, so T'' @ [CHR 0xE2, CHR 0x82, CHR 0x85] @ '' = 2 '' @ [CHR 0xC3, CHR 0x97] @ '' 3'' @ [CHR 0xE2, CHR 0x81, CHR 0xB4] @ '' = 2 '' @ [CHR 0xC3, CHR 0x97] @ '' 81 = 162.''),
    topic = ''Geometric Sequences'',
    difficulty = Medium\<rparr>,
  \<lparr>qid = 3,
    question = (''Solve the quadratic equation: x'' @ [CHR 0xC2, CHR 0xB2] @ '' - 5x + 6 = 0''),
    options = [
      \<lparr>label = ''(A)'', option_value = ''A'', formula = Some ''x = 2, x = 3''\<rparr>,
      \<lparr>label = ''(B)'', option_value = ''B'', formula = Some ''x = 1, x = 6''\<rparr>,
      \<lparr>label = ''(C)'', option_value = ''C'', formula = Some ''x = -2, x = -3''\<rparr>,
      \<lparr>label = ''(D)'', option_value = ''D'', formula = Some ''x = 2, x = -3''\<rparr>],
    correctAnswer = ''A'',
    explanation = (''Factoring: (x - 2)(x - 3) = 0, so x = 2 or x = 3. We can verify: 2'' @ [CHR 0xC2, CHR 0xB2] @ '' - 5(2) + 6 = 0 and 3'' @ [CHR 0xC2, CHR 0xB2] @ '' - 5(3) + 6 = 0.''),
    topic = ''Quadratic Equations'',
    difficulty = Easy\<rparr>,
  \<lparr>qid = 4,
    question = ''Find the area of a triangle with vertices at A(1,2), B(4,6), and C(7,2).'',
    options = [
      \<lparr>label = ''(A)'', option_value = ''A'', formula = Some ''6 square units''\<rparr>,
      \<lparr>label = ''(B)'', option_value = ''B'', formula = Some ''8 square units''\<rparr>,
      \<lparr>label = ''(C)'', option_value = ''C'', formula = Some ''12 square units''\<rparr>,
      \<lparr>label = ''(D)'', option_value = ''D'', formula = Some ''10 square units''\<rparr>],
    correctAnswer = ''C'',
    explanation = (''Using the formula: Area = '' @ [CHR 0xC2, CHR 0xBD] @ ''|x'' @ [CHR 0xE2, CHR 0x82, CHR 0x81] @ ''(y'' @ [CHR 0xE2, CHR 0x82, CHR 0x82] @ ''-y'' @ [CHR 0xE2, CHR 0x82, CHR 0x83] @ '') + x'' @ [CHR 0xE2, CHR 0x82, CHR 0x82] @ ''(y'' @ [CHR 0xE2, CHR 0x82, CHR 0x83] @ ''-y'' @ [CHR 0xE2, CHR 0x82, CHR 0x81] @ '') + x'' @ [CHR 0xE2, CHR 0x82, CHR 0x83] @ ''(y'' @ [CHR 0xE2, CHR 0x82, CHR 0x81] @ ''-y'' @ [CHR 0xE2, CHR 0x82, CHR 0x82] @ '')|. Area = '' @ [CHR 0xC2, CHR 0xBD] @ ''|1(6-2) + 4(2-2) + 7(2-6)| = '' @ [CHR 0xC2, CHR 0xBD] @ ''|4 + 0 - 28| = '' @ [CHR 0xC2, CHR 0xBD] @ '' '' @ [CHR 0xC3, CHR 0x97] @ '' 24 = 12.''),
    topic = ''Coordinate Geometry'',
    difficulty = Hard\<rparr>,
  \<lparr>qid = 5,
    question = ''A bag contains 3 red balls, 4 blue balls, and 5 green balls. What is the probability of drawing a blue ball?'',
    options = [
      \<lparr>label = ''(A)'', option_value = ''A'', formula = Some ''1/3''\<rparr>,
      \<lparr>label = ''(B)'', option_value = ''B'', formula = Some ''1/4''\<rparr>,
      \<lparr>label = ''(C)'', option_value = ''C'', formula = Some ''4/12''\<rparr>,
      \<lparr>label = ''(D)'', option_value = ''D'', formula = Some ''5/12''\<rparr>],
    correctAnswer = ''A'',
    explanation = ''Total balls = 3 + 4 + 5 = 12. Blue balls = 4. Probability = 4/12 = 1/3.'',
    topic = ''Probability'',
    difficulty = Easy\<rparr>]"


datatype milestone = MStart | M25 | M50 | M75 | M100

fun motivationalMessages :: "milestone \<Rightarrow> string" where
  "motivationalMessages MStart = (''Let's begin your SPM Math journey! '' @ [CHR 0xF0, CHR 0x9F, CHR 0x9A, CHR 0x80])"
| "motivationalMessages M25 = (''Great start! You're doing well! '' @ [CHR 0xF0, CHR 0x9F, CHR 0x92, CHR 0xAA])"
| "motivationalMessages M50 = (''Halfway there! Keep up the momentum! '' @ [CHR 0xF0, CHR 0x9F, CHR 0x94, CHR 0xA5])"
| "motivationalMessages M75 = (''Almost done! You're so close! '' @ [CHR 0xE2, CHR 0xAD, CHR 0x90])"
| "motivationalMessages M100 = (''Fantastic work! Quiz completed! '' @ [CHR 0xF0, CHR 0x9F, CHR 0x8E, CHR 0x89])"

record quiz_metadata =
  totalQuestions :: int
  estimatedTime :: string
  meta_difficulty :: string
  topics :: "string list"

definition quizMetadata :: quiz_metadata where
  "quizMetadata =
     \<lparr>totalQuestions = 5, estimatedTime = ''8-12 minutes'',
      meta_difficulty = ''Mixed (Easy to Hard)'',
      topics = [''Number Sequences'', ''Geometric Sequences'', ''Quadratic Equations'',
                ''Coordinate Geometry'', ''Probability'']\<rparr>"

subsection \<open>Facts about the bank\<close>

lemma spmMathQuestions_length [simp]: "length spmMathQuestions = 5"
  by (simp add: spmMathQuestions_def)

lemma spmMathQuestions_qids [simp]: "map qid spmMathQuestions = [1, 2, 3, 4, 5]"
  by (simp add: spmMathQuestions_def)

lemma spmMathQuestions_answers [simp]:
  "map correctAnswer spmMathQuestions = [''C'', ''A'', ''A'', ''C'', ''A'']"
  by (simp add: spmMathQuestions_def)

lemma spmMathQuestions_topics [simp]:
  "map topic spmMathQuestions =
     [''Number Sequences'', ''Geometric Sequences'', ''Quadratic Equations'',
      ''Coordinate Geometry'', ''Probability'']"
  by (simp add: spmMathQuestions_def)

lemma spmMathQuestions_qid_nth:
  "i < length spmMathQuestions \<Longrightarrow> qid (spmMathQuestions ! i) = int i + 1"
proof -
  assume "i < length spmMathQuestions"
  then have "i < 5" by simp
  then have "i \<in> {0, 1, 2, 3, 4}" by auto
  then show ?thesis by (auto simp: spmMathQuestions_def)
qed

end
