(* ===== verification/QuizState.thy ===== *)
theory QuizState
  imports QuizData
begin

text \<open>
  The quiz session state machine of \<^verbatim>\<open>src/hooks/useQuizState.ts\<close>: the
  \<open>QuizState\<close> interface as a record, the \<open>QuizAction\<close> union as a datatype and
  \<open>quizReducer\<close> as a step function. \<open>Date.now()\<close>, read by four branches, is the
  explicit argument \<open>now\<close>. The derived values the hook returns (\<open>progress\<close>,
  \<open>isLastQuestion\<close>, \<open>currentQuestionData\<close>, \<open>canGoNext\<close>) are functions of a
  question list and a state. A run dispatches a list of timestamped actions.
  The reachable states are an inductive set over a clock that never goes back; a state
  loaded from storage is one reached earlier. The invariant \<open>state_ok\<close> holds in all
  of them.
\<close>

record quiz_state =
  currentQuestion :: int
  answers :: answer_map
  isComplete :: bool
  startTime :: timestamp
  endTime :: "timestamp option"
  isPaused :: bool
  pausedAt :: "timestamp option"
  totalPausedTime :: int

datatype quiz_action =
    START_QUIZ
  | NEXT_QUESTION
  | PREVIOUS_QUESTION
  | ANSWER_QUESTION qid token
  | COMPLETE_QUIZ
  | PAUSE_QUIZ
  | RESUME_QUIZ
  | LOAD_STATE quiz_state
  | RESET_QUIZ

definition initialState :: quiz_state where
  "initialState =
     \<lparr>currentQuestion = 0, answers = Map.empty, isComplete = False, startTime = 0,
      endTime = None, isPaused = False, pausedAt = None, totalPausedTime = 0\<rparr>"

fun quizReducer :: "timestamp \<Rightarrow> quiz_state \<Rightarrow> quiz_action \<Rightarrow> quiz_state" where
  "quizReducer now s START_QUIZ = s\<lparr>startTime := now, currentQuestion := 0\<rparr>"
| "quizReducer now s NEXT_QUESTION =
     (let cq = currentQuestion s;
          nextQuestion = min (cq + 1) 4;
          newAnswers = (answers s)(cq := None)
      in s\<lparr>currentQuestion := nextQuestion, answers := newAnswers\<rparr>)"
| "quizReducer now s PREVIOUS_QUESTION =
     s\<lparr>currentQuestion := max (currentQuestion s - 1) 0\<rparr>"
| "quizReducer now s (ANSWER_QUESTION q a) = s\<lparr>answers := (answers s)(q \<mapsto> a)\<rparr>"
| "quizReducer now s COMPLETE_QUIZ = s\<lparr>isComplete := True, endTime := Some now\<rparr>"
| "quizReducer now s PAUSE_QUIZ = s\<lparr>isPaused := True, pausedAt := Some now\<rparr>"
| "quizReducer now s RESUME_QUIZ =
     (let additionalPausedTime =
            (if js_truthy (pausedAt s) then now - the (pausedAt s) else 0)
      in s\<lparr>isPaused := False, pausedAt := None,
           totalPausedTime := totalPausedTime s + additionalPausedTime\<rparr>)"
| "quizReducer now s (LOAD_STATE st) = st"
| "quizReducer now s RESET_QUIZ = initialState"

fun dispatch_all :: "quiz_state \<Rightarrow> (timestamp \<times> quiz_action) list \<Rightarrow> quiz_state" where
  "dispatch_all s [] = s"
| "dispatch_all s ((now, a) # acts) = dispatch_all (quizReducer now s a) acts"

subsection \<open>Values derived by the hook\<close>

definition progress :: "quiz_question list \<Rightarrow> quiz_state \<Rightarrow> jsnum" where
  "progress qs s =
     js_scale (js_divide (of_int (currentQuestion s + 1)) (of_nat (length qs))) 100"

definition isLastQuestion :: "quiz_question list \<Rightarrow> quiz_state \<Rightarrow> bool" where
  "isLastQuestion qs s = (currentQuestion s = int (length qs) - 1)"

definition currentQuestionData :: "quiz_question list \<Rightarrow> quiz_state \<Rightarrow> quiz_question option" where
  "currentQuestionData qs s = js_index qs (currentQuestion s)"

definition canGoNext :: "quiz_question list \<Rightarrow> quiz_state \<Rightarrow> bool" where
  "canGoNext qs s =
     (case currentQuestionData qs s of None \<Rightarrow> False | Some q \<Rightarrow> answers s (qid q) \<noteq> None)"

declare initialState_def [quiz_defs] progress_def [quiz_defs] isLastQuestion_def [quiz_defs]
  currentQuestionData_def [quiz_defs] canGoNext_def [quiz_defs]

text \<open>
  The flow the UI drives when a user answers every question in order: on each question
  \<open>handleAnswerChange\<close> dispatches \<open>ANSWER_QUESTION\<close> for its id, \<open>handleNext\<close>
  dispatches \<open>NEXT_QUESTION\<close>, and on the last one \<open>COMPLETE_QUIZ\<close>
  (\<^verbatim>\<open>src/App.tsx\<close>). Ids start at \<open>k\<close> and go up by one, as in the bank.
\<close>

fun answer_walk :: "qid \<Rightarrow> token list \<Rightarrow> quiz_action list" where
  "answer_walk k [] = [COMPLETE_QUIZ]"
| "answer_walk k [a] = [ANSWER_QUESTION k a, COMPLETE_QUIZ]"
| "answer_walk k (a # b # rest) =
     ANSWER_QUESTION k a # NEXT_QUESTION # answer_walk (k + 1) (b # rest)"

subsection \<open>Invariant and reachable states\<close>

text \<open>
  \<open>state_ok t s\<close>: the position is an index of the five-question bank, \<open>isPaused\<close>
  and \<open>pausedAt\<close> agree, \<open>isComplete\<close> and \<open>endTime\<close> agree, no recorded
  timestamp lies after the clock \<open>t\<close>, and the paused total is not negative.
\<close>

definition state_ok :: "timestamp \<Rightarrow> quiz_state \<Rightarrow> bool" where
  "state_ok t s \<longleftrightarrow>
     0 \<le> currentQuestion s \<and> currentQuestion s \<le> 4 \<and>
     (isPaused s \<longleftrightarrow> pausedAt s \<noteq> None) \<and>
     (isComplete s \<longleftrightarrow> endTime s \<noteq> None) \<and>
     0 \<le> startTime s \<and> startTime s \<le> t \<and>
     (\<forall>p. pausedAt s = Some p \<longrightarrow> p \<le> t) \<and>
     (\<forall>e. endTime s = Some e \<longrightarrow> e \<le> t) \<and>
     0 \<le> totalPausedTime s"

inductive reachable :: "timestamp \<Rightarrow> quiz_state \<Rightarrow> bool" where
  init: "0 \<le> t \<Longrightarrow> reachable t initialState"
| tick: "reachable t s \<Longrightarrow> t \<le> t' \<Longrightarrow> reachable t' s"
| step: "reachable t s \<Longrightarrow> \<forall>st. a \<noteq> LOAD_STATE st \<Longrightarrow> reachable t (quizReducer t s a)"
| load: "reachable t s \<Longrightarrow> reachable t st \<Longrightarrow> reachable t (quizReducer t s (LOAD_STATE st))"

lemma state_ok_initial: "0 \<le> t \<Longrightarrow> state_ok t initialState"
  by (simp add: state_ok_def initialState_def)

lemma state_ok_tick: "state_ok t s \<Longrightarrow> t \<le> t' \<Longrightarrow> state_ok t' s"
  by (auto simp: state_ok_def)

lemma state_ok_step:
  "state_ok t s \<Longrightarrow> (\<And>st. a = LOAD_STATE st \<Longrightarrow> state_ok t st) \<Longrightarrow>
   state_ok t (quizReducer t s a)"
  by (cases a) (auto simp: state_ok_def initialState_def Let_def min_def max_def)

lemma reachable_imp_state_ok: "reachable t s \<Longrightarrow> state_ok t s"
proof (induction rule: reachable.induct)
  case (init t)
  then show ?case by (rule state_ok_initial)
next
  case (tick t s t')
  then show ?case by (blast intro: state_ok_tick)
next
  case (step t s a)
  then show ?case by (blast intro: state_ok_step)
next
  case (load t s st)
  then show ?case by simp
qed

text \<open>C5: in every state the reducer can reach from the initial state, under a clock that
  never goes back and with restores only of states reached before, the position is an index
  of the bank, the pause flag and timestamp agree, the completion flag and end time agree,
  no timestamp lies in the future and the paused total is not negative.\<close>

theorem reachable_state_ok: "reachable t s \<Longrightarrow> state_ok t s"
  by (rule reachable_imp_state_ok)

theorem reachable_state_ok_witness:
  "reachable 5 (quizReducer 5 (quizReducer 3 initialState START_QUIZ) PAUSE_QUIZ) \<and>
   state_ok 5 (quizReducer 5 (quizReducer 3 initialState START_QUIZ) PAUSE_QUIZ)"
proof -
  have r3: "reachable 3 (quizReducer 3 initialState START_QUIZ)"
    by (rule reachable.step [OF reachable.init]) simp_all
  have "reachable 5 (quizReducer 3 initialState START_QUIZ)"
    by (rule reachable.tick [OF r3]) simp
  then have r5: "reachable 5 (quizReducer 5 (quizReducer 3 initialState START_QUIZ) PAUSE_QUIZ)"
    by (rule reachable.step) simp
  show ?thesis using r5 reachable_state_ok [OF r5] by simp
qed

subsection \<open>Behaviour of single transitions\<close>

lemma dispatch_all_append [simp]:
  "dispatch_all s (xs @ ys) = dispatch_all (dispatch_all s xs) ys"
  by (induction s xs rule: dispatch_all.induct) auto

lemma currentQuestion_step_bounds:
  assumes "0 \<le> currentQuestion s" "currentQuestion s \<le> 4" "\<forall>st. a \<noteq> LOAD_STATE st"
  shows "0 \<le> currentQuestion (quizReducer now s a) \<and> currentQuestion (quizReducer now s a) \<le> 4"
  using assms by (cases a) (auto simp: initialState_def Let_def)

text \<open>C4: whatever actions other than a restore are dispatched, in any order and at any
  times, the position stays an index of the five-question bank.\<close>

theorem position_bounds_run:
  assumes "0 \<le> currentQuestion s" "currentQuestion s \<le> 4"
    and "\<forall>(now, a) \<in> set acts. \<forall>st. a \<noteq> LOAD_STATE st"
  shows "0 \<le> currentQuestion (dispatch_all s acts) \<and> currentQuestion (dispatch_all s acts) \<le> 4"
  using assms
proof (induction s acts rule: dispatch_all.induct)
  case (1 s)
  then show ?case by simp
next
  case (2 s now a acts)
  then have "0 \<le> currentQuestion (quizReducer now s a) \<and> currentQuestion (quizReducer now s a) \<le> 4"
    by (intro currentQuestion_step_bounds) auto
  with "2.IH" "2.prems"(3) show ?case by simp
qed

theorem position_bounds_run_witness:
  "0 \<le> currentQuestion (dispatch_all initialState
     [(1, START_QUIZ), (2, NEXT_QUESTION), (3, NEXT_QUESTION), (4, PREVIOUS_QUESTION)]) \<and>
   currentQuestion (dispatch_all initialState
     [(1, START_QUIZ), (2, NEXT_QUESTION), (3, NEXT_QUESTION), (4, PREVIOUS_QUESTION)]) \<le> 4 \<and>
   currentQuestion (dispatch_all initialState
     [(1, START_QUIZ), (2, NEXT_QUESTION), (3, NEXT_QUESTION), (4, PREVIOUS_QUESTION)]) = 1"
proof -
  have h: "0 \<le> currentQuestion initialState" "currentQuestion initialState \<le> 4"
    by (simp_all add: initialState_def)
  have "\<forall>(now, a) \<in> set [(1::int, START_QUIZ), (2, NEXT_QUESTION), (3, NEXT_QUESTION),
          (4, PREVIOUS_QUESTION)]. \<forall>st. a \<noteq> LOAD_STATE st" by simp
  note b = position_bounds_run [OF h this]
  have "currentQuestion (dispatch_all initialState
     [(1, START_QUIZ), (2, NEXT_QUESTION), (3, NEXT_QUESTION), (4, PREVIOUS_QUESTION)]) = 1"
    by (simp add: initialState_def)
  with b show ?thesis by simp
qed

text \<open>
  C1: \<open>NEXT_QUESTION\<close> deletes \<open>answers[currentQuestion]\<close>, a position, from a map
  keyed by question id. On the bank, whose ids are positions plus one, the answer of the
  question being left survives and the answer of the question before it is erased.
\<close>

theorem next_question_erases_previous_answer:
  assumes "1 \<le> currentQuestion s" "currentQuestion s \<le> 3"
  shows "answers (quizReducer now s NEXT_QUESTION)
           (qid (spmMathQuestions ! nat (currentQuestion s))) =
         answers s (qid (spmMathQuestions ! nat (currentQuestion s))) \<and>
         answers (quizReducer now s NEXT_QUESTION)
           (qid (spmMathQuestions ! nat (currentQuestion s - 1))) = None \<and>
         currentQuestion (quizReducer now s NEXT_QUESTION) = currentQuestion s + 1"
proof -
  have len: "nat (currentQuestion s) < length spmMathQuestions"
    "nat (currentQuestion s - 1) < length spmMathQuestions"
    using assms by auto
  have "qid (spmMathQuestions ! nat (currentQuestion s)) = currentQuestion s + 1"
    using spmMathQuestions_qid_nth [OF len(1)] assms by simp
  moreover have "qid (spmMathQuestions ! nat (currentQuestion s - 1)) = currentQuestion s"
    using spmMathQuestions_qid_nth [OF len(2)] assms by simp
  ultimately show ?thesis using assms by (simp add: Let_def)
qed

theorem next_question_erases_previous_answer_witness:
  "answers (quizReducer 0 (initialState\<lparr>currentQuestion := 2, answers := [2 \<mapsto> ''A'', 3 \<mapsto> ''A'']\<rparr>)
      NEXT_QUESTION) 3 = Some ''A'' \<and>
   answers (quizReducer 0 (initialState\<lparr>currentQuestion := 2, answers := [2 \<mapsto> ''A'', 3 \<mapsto> ''A'']\<rparr>)
      NEXT_QUESTION) 2 = None"
proof -
  let ?s = "initialState\<lparr>currentQuestion := 2, answers := [2 \<mapsto> ''A'', 3 \<mapsto> ''A'']\<rparr>"
  have "1 \<le> currentQuestion ?s" "currentQuestion ?s \<le> 3" by simp_all
  note n = next_question_erases_previous_answer [OF this, of 0]
  have q: "qid (spmMathQuestions ! 2) = 3" "qid (spmMathQuestions ! 1) = 2"
    using spmMathQuestions_qid_nth [of 2] spmMathQuestions_qid_nth [of 1] by simp_all
  show ?thesis using n q by simp
qed

text \<open>After answering the five questions in order, moving on after each, only the
  answers to questions 4 and 5 are left in the state.\<close>

lemma answer_walk_final_answers:
  "answers (dispatch_all initialState
      (map (Pair now) (START_QUIZ # answer_walk 1 [a1, a2, a3, a4, a5]))) =
   [4 \<mapsto> a4, 5 \<mapsto> a5]"
  by (simp add: initialState_def fun_upd_twist)

subsection \<open>Pause and resume\<close>

text \<open>C6: a pause at a non-zero time followed by a resume adds exactly the gap between the
  two calls to the paused total, and leaves the session unpaused.\<close>

theorem pause_resume_adds_gap:
  assumes "t1 \<noteq> 0"
  shows "totalPausedTime (quizReducer t2 (quizReducer t1 s PAUSE_QUIZ) RESUME_QUIZ) =
           totalPausedTime s + (t2 - t1) \<and>
         \<not> isPaused (quizReducer t2 (quizReducer t1 s PAUSE_QUIZ) RESUME_QUIZ) \<and>
         pausedAt (quizReducer t2 (quizReducer t1 s PAUSE_QUIZ) RESUME_QUIZ) = None"
  using assms by simp

theorem pause_resume_adds_gap_witness:
  "totalPausedTime (quizReducer 8000 (quizReducer 5000 initialState PAUSE_QUIZ) RESUME_QUIZ) = 3000"
  using pause_resume_adds_gap [of 5000 8000 initialState] by (simp add: initialState_def)

text \<open>C7: resuming a session that is not paused changes only \<open>isPaused\<close> (to false):
  nothing is added to the paused total.\<close>

theorem resume_unpaused_noop:
  assumes "pausedAt s = None"
  shows "quizReducer now s RESUME_QUIZ = s\<lparr>isPaused := False\<rparr>"
  using assms by simp

theorem resume_unpaused_noop_witness:
  "quizReducer 7 initialState RESUME_QUIZ = initialState"
  using resume_unpaused_noop [of initialState 7] by (simp add: initialState_def)

subsection \<open>Clamping at both ends\<close>

text \<open>C8: going back from the first question leaves the state unchanged; going forward from
  the last keeps the position but still deletes key 4, the answer to question 4.\<close>

theorem navigation_clamps:
  assumes "currentQuestion s = 0"
    and "currentQuestion s' = 4"
  shows "quizReducer now s PREVIOUS_QUESTION = s \<and>
         quizReducer now s' NEXT_QUESTION = s'\<lparr>answers := (answers s')(4 := None)\<rparr>"
  using assms by (simp add: Let_def)

theorem navigation_clamps_witness:
  "quizReducer 0 initialState PREVIOUS_QUESTION = initialState \<and>
   answers (quizReducer 0 (initialState\<lparr>currentQuestion := 4, answers := [4 \<mapsto> ''C'', 5 \<mapsto> ''A'']\<rparr>)
      NEXT_QUESTION) = [5 \<mapsto> ''A'']"
  using navigation_clamps [of initialState "initialState\<lparr>currentQuestion := 4,
      answers := [4 \<mapsto> ''C'', 5 \<mapsto> ''A'']\<rparr>" 0]
  by (simp add: initialState_def fun_upd_twist)

end
