(* ===== verification/QuizResults.thy ===== *)
theory QuizResults
  imports QuizState
begin

text \<open>
  The scoring and aggregation of \<^verbatim>\<open>src/components/QuizResults.tsx\<close>: the closures
  \<open>calculateScore\<close>, \<open>calculateTotalTime\<close>, \<open>getTopicPerformance\<close>,
  \<open>getPerformanceMessage\<close>, \<open>formatTime\<close> and \<open>getRecommendations\<close>, the
  per-question review and the report the component renders from them. Each closure reads
  the component's props (\<open>state\<close>, \<open>questions\<close>); here they are arguments.
  The \<open>forEach\<close> loops are left folds. \<open>topicStats\<close>, a JS object whose
  \<open>Object.entries\<close> order is observed, is an association list that gains a key at
  its end. That is the JS order for topic names that are not array indices (\<open>"0"\<close>,
  \<open>"1"\<close>, ... come first in JS) and the JS lookup for names that are not inherited
  members of \<open>Object.prototype\<close> (\<open>!topicStats["constructor"]\<close> is false in JS);
  the only caller passes the bank, whose five topic names are neither. \<open>topic_counts\<close> is the abstract specification of the aggregation:
  \<open>getTopicPerformance_spec\<close> shows the loop computes it.
\<close>

record counts =
  correct :: nat
  total :: nat

record score = counts +
  percentage :: jsnum

type_synonym topic_stats = "(string \<times> counts) list"

definition is_correct :: "answer_map \<Rightarrow> quiz_question \<Rightarrow> bool" where
  "is_correct ans q \<longleftrightarrow> ans (qid q) = Some (correctAnswer q)"

definition calculateScore :: "quiz_state \<Rightarrow> quiz_question list \<Rightarrow> score" where
  "calculateScore s qs =
     (let correct = foldl (\<lambda>c q. if is_correct (answers s) q then c + 1 else c) 0 qs
      in \<lparr>correct = correct, total = length qs,
          percentage = js_scale (js_divide (of_nat correct) (of_nat (length qs))) 100\<rparr>)"

definition calculateTotalTime :: "quiz_state \<Rightarrow> int" where
  "calculateTotalTime s =
     (if \<not> js_truthy (endTime s) then 0
      else js_round (of_int (the (endTime s) - startTime s - totalPausedTime s) / 1000))"

definition topic_step :: "answer_map \<Rightarrow> topic_stats \<Rightarrow> quiz_question \<Rightarrow> topic_stats" where
  "topic_step ans topicStats q =
     (let t = topic q;
          s1 = (if map_of topicStats t = None
                then topicStats @ [(t, \<lparr>correct = 0, total = 0\<rparr>)] else topicStats);
          s2 = AList.map_entry t (\<lambda>c. c\<lparr>total := total c + 1\<rparr>) s1
      in if ans (qid q) = Some (correctAnswer q)
         then AList.map_entry t (\<lambda>c. c\<lparr>correct := correct c + 1\<rparr>) s2 else s2)"

definition getTopicPerformance :: "quiz_state \<Rightarrow> quiz_question list \<Rightarrow> topic_stats" where
  "getTopicPerformance s qs = foldl (topic_step (answers s)) [] qs"

datatype icon = Trophy | Target | BookOpen

record performance_message =
  message :: string
  color :: string
  icon :: icon

definition getPerformanceMessage :: "score \<Rightarrow> performance_message" where
  "getPerformanceMessage sc =
     (if js_ge (percentage sc) 80
      then \<lparr>message = ''Excellent work!'', color = ''text-green-600'', icon = Trophy\<rparr>
      else if js_ge (percentage sc) 60
      then \<lparr>message = ''Good job!'', color = ''text-blue-600'', icon = Target\<rparr>
      else if js_ge (percentage sc) 40
      then \<lparr>message = ''Keep practicing!'', color = ''text-yellow-600'', icon = BookOpen\<rparr>
      else \<lparr>message = ''Don't give up!'', color = ''text-red-600'', icon = BookOpen\<rparr>)"

definition formatTime :: "int \<Rightarrow> string" where
  "formatTime seconds =
     (let mins = seconds div 60; secs = js_rem seconds 60
      in js_string_of_int mins @ ''m '' @ js_string_of_int secs @ ''s'')"

text \<open>The threshold \<open>0.6\<close> is the rational \<open>3/5\<close>: for counts below \<open>2^50\<close> the
  correctly rounded quotient is below the double \<open>0.6\<close> exactly when the rational is.\<close>

definition weakTopics :: "topic_stats \<Rightarrow> string list" where
  "weakTopics tp =
     map fst (filter (\<lambda>(t, st). js_lt (js_divide (of_nat (correct st)) (of_nat (total st))) (3 / 5)) tp)"

definition getRecommendations :: "topic_stats \<Rightarrow> string list" where
  "getRecommendations tp =
     (let weak = weakTopics tp
      in if length weak = 0
         then [''Try more advanced topics'', ''Practice under time pressure'',
               ''Explore related mathematical concepts'']
         else [''Focus on '' @ js_join '', '' weak, ''Review fundamental concepts'',
               ''Practice more problems in weak areas''])"

record review_item =
  number :: nat
  reviewCorrect :: bool
  prompt :: string
  correction :: "(token \<times> string) option"

definition questionReview :: "quiz_state \<Rightarrow> quiz_question list \<Rightarrow> review_item list" where
  "questionReview s qs =
     map (\<lambda>(index, q).
            let isCorrect = (answers s (qid q) = Some (correctAnswer q))
            in \<lparr>number = index + 1, reviewCorrect = isCorrect, prompt = question q,
                correction = (if isCorrect then None else Some (correctAnswer q, explanation q))\<rparr>)
       (enumerate 0 qs)"

record report =
  report_score :: score
  report_time :: int
  report_topics :: topic_stats
  report_message :: performance_message
  report_review :: "review_item list"
  report_recommendations :: "string list"

definition quizReport :: "quiz_state \<Rightarrow> quiz_question list \<Rightarrow> report" where
  "quizReport s qs =
     (let sc = calculateScore s qs; tp = getTopicPerformance s qs
      in \<lparr>report_score = sc, report_time = calculateTotalTime s, report_topics = tp,
          report_message = getPerformanceMessage sc, report_review = questionReview s qs,
          report_recommendations = getRecommendations tp\<rparr>)"

subsection \<open>Abstract specification of the aggregation\<close>

definition topic_counts :: "answer_map \<Rightarrow> quiz_question list \<Rightarrow> string \<Rightarrow> counts" where
  "topic_counts ans qs t =
     \<lparr>correct = length (filter (\<lambda>q. topic q = t \<and> is_correct ans q) qs),
      total = length (filter (\<lambda>q. topic q = t) qs)\<rparr>"

definition topic_table :: "answer_map \<Rightarrow> quiz_question list \<Rightarrow> topic_stats" where
  "topic_table ans qs = map (\<lambda>t. (t, topic_counts ans qs t)) (first_occurrences (map topic qs))"

declare calculateScore_def [quiz_defs] calculateTotalTime_def [quiz_defs]
  getTopicPerformance_def [quiz_defs] getPerformanceMessage_def [quiz_defs]
  weakTopics_def [quiz_defs] getRecommendations_def [quiz_defs] quizReport_def [quiz_defs]

subsection \<open>The loops compute their specifications\<close>

lemma is_correct_fun: "is_correct ans = (\<lambda>q. ans (qid q) = Some (correctAnswer q))"
  by (simp add: fun_eq_iff is_correct_def)

lemma calculateScore_correct:
  "correct (calculateScore s qs) = length (filter (is_correct (answers s)) qs)"
  by (simp add: calculateScore_def Let_def foldl_count)

lemma calculateScore_total [simp]: "total (calculateScore s qs) = length qs"
  by (simp add: calculateScore_def Let_def)

lemma calculateScore_percentage:
  "percentage (calculateScore s qs) =
     js_scale (js_divide (of_nat (length (filter (is_correct (answers s)) qs))) (of_nat (length qs))) 100"
  by (simp add: calculateScore_def Let_def foldl_count)

lemma topic_counts_snoc:
  "topic_counts ans (qs @ [q]) t =
     (if t = topic q
      then \<lparr>correct = correct (topic_counts ans qs t) + (if is_correct ans q then 1 else 0),
            total = total (topic_counts ans qs t) + 1\<rparr>
      else topic_counts ans qs t)"
  by (simp add: topic_counts_def)

lemma topic_counts_absent:
  "t \<notin> set (map topic qs) \<Longrightarrow> topic_counts ans qs t = \<lparr>correct = 0, total = 0\<rparr>"
  by (auto simp: topic_counts_def filter_empty_conv)

lemma topic_step_table:
  "topic_step ans (topic_table ans qs) q = topic_table ans (qs @ [q])"
proof -
  let ?L = "first_occurrences (map topic qs @ [topic q])"
  let ?f = "topic_counts ans qs"
  have s1: "(if map_of (topic_table ans qs) (topic q) = None
             then topic_table ans qs @ [(topic q, \<lparr>correct = 0, total = 0\<rparr>)]
             else topic_table ans qs) = map (\<lambda>t. (t, ?f t)) ?L"
    by (auto simp: topic_table_def map_of_map_pair topic_counts_absent)
  have d: "distinct ?L" by (rule first_occurrences_distinct)
  show ?thesis
    unfolding topic_step_def Let_def s1
    by (simp add: map_entry_map_pair [OF d] topic_table_def topic_counts_snoc is_correct_def
        del: first_occurrences_snoc cong: map_cong)
qed

lemma getTopicPerformance_spec: "getTopicPerformance s qs = topic_table (answers s) qs"
proof (induction qs rule: rev_induct)
  case Nil
  then show ?case by (simp add: getTopicPerformance_def topic_table_def first_occurrences_def)
next
  case (snoc q qs)
  then show ?case by (simp add: getTopicPerformance_def topic_step_table)
qed

lemma topic_table_total_pos:
  "t \<in> set (first_occurrences (map topic qs)) \<Longrightarrow> 0 < total (topic_counts ans qs t)"
  by (auto simp: topic_counts_def filter_empty_conv)

lemma weak_ratio_iff:
  "0 < tot \<Longrightarrow>
   js_lt (js_divide (of_nat c) (of_nat tot)) (3 / 5) \<longleftrightarrow> 5 * c < 3 * tot"
proof -
  assume "0 < tot"
  then have "(of_nat c / of_nat tot < (3 / 5 :: rat)) \<longleftrightarrow> (of_nat (5 * c) < (of_nat (3 * tot) :: rat))"
    by (simp add: divide_less_eq field_simps)
  also have "\<dots> \<longleftrightarrow> 5 * c < 3 * tot" by (simp only: of_nat_less_iff)
  finally show ?thesis using \<open>0 < tot\<close> by simp
qed

lemma percentage_five:
  assumes "length qs = 5"
  shows "percentage (calculateScore s qs) = JNum (of_nat (correct (calculateScore s qs)) * 20)"
  using assms by (simp add: calculateScore_percentage calculateScore_correct)

lemma correct_le_total: "correct (calculateScore s qs) \<le> total (calculateScore s qs)"
  by (simp add: calculateScore_correct)

subsection \<open>Properties of the results view\<close>

text \<open>
  C9: \<open>getTopicPerformance\<close> lists every topic of the question list once, in the
  order of its first question, with the number of that topic's questions answered
  correctly and the number of its questions.
\<close>

theorem getTopicPerformance_refines:
  "getTopicPerformance s qs =
     map (\<lambda>t. (t, \<lparr>correct = length (filter (\<lambda>q. topic q = t \<and> is_correct (answers s) q) qs),
                   total = length (filter (\<lambda>q. topic q = t) qs)\<rparr>))
       (first_occurrences (map topic qs))"
  by (simp add: getTopicPerformance_spec topic_table_def topic_counts_def)

text \<open>C10: the per-topic counts add up to the overall score: their correct counts to
  the number of correct answers, their totals to the number of questions.\<close>

theorem topic_sums_match_score:
  "sum_list (map (correct \<circ> snd) (getTopicPerformance s qs)) = correct (calculateScore s qs) \<and>
   sum_list (map (total \<circ> snd) (getTopicPerformance s qs)) = total (calculateScore s qs)"
proof -
  let ?L = "first_occurrences (map topic qs)"
  have d: "distinct ?L" and sub: "set (map topic qs) \<subseteq> set ?L" by simp_all
  have c: "sum_list (map (\<lambda>t. length (filter (\<lambda>q. topic q = t \<and> is_correct (answers s) q) qs)) ?L) =
      length (filter (is_correct (answers s)) qs)"
    by (rule sum_list_count_classes [OF d sub])
  have t: "sum_list (map (\<lambda>t. length (filter (\<lambda>q. topic q = t \<and> True) qs)) ?L) =
      length (filter (\<lambda>q. True) qs)"
    by (rule sum_list_count_classes [OF d sub])
  show ?thesis using c t
    by (simp add: getTopicPerformance_spec topic_table_def topic_counts_def o_def
        calculateScore_correct)
qed

text \<open>The number of correct answers never exceeds the number of questions, and for a
  non-empty question list the percentage is a finite number between 0 and 100.\<close>

theorem calculateScore_bounds:
  assumes "qs \<noteq> []"
  shows "correct (calculateScore s qs) \<le> total (calculateScore s qs) \<and>
         (\<exists>p. percentage (calculateScore s qs) = JNum p \<and> 0 \<le> p \<and> p \<le> 100)"
proof -
  let ?c = "length (filter (is_correct (answers s)) qs)"
  have le: "?c \<le> length qs" by simp
  have pos: "0 < length qs" using assms by simp
  have "of_nat ?c * 100 / of_nat (length qs) \<le> (100::rat)"
    using le pos by (simp add: divide_le_eq)
  moreover have "0 \<le> of_nat ?c / of_nat (length qs) * (100::rat)" by simp
  ultimately show ?thesis
    using pos by (simp add: calculateScore_percentage calculateScore_correct)
qed

theorem calculateScore_bounds_witness:
  "correct (calculateScore initialState spmMathQuestions) \<le> total (calculateScore initialState spmMathQuestions) \<and>
   percentage (calculateScore initialState spmMathQuestions) = JNum 0"
proof -
  have "spmMathQuestions \<noteq> []" by (simp add: spmMathQuestions_def)
  note b = calculateScore_bounds [OF this, of initialState]
  have "percentage (calculateScore initialState spmMathQuestions) = JNum 0"
    by (simp add: calculateScore_percentage initialState_def is_correct_def)
  with b show ?thesis by simp
qed

text \<open>C12: on the five-question bank the message is chosen by the number of correct
  answers: four or five give the top message (80 counts as top), three the second, two
  the third, fewer the bottom one.\<close>

theorem performance_message_by_count:
  "message (getPerformanceMessage (calculateScore s spmMathQuestions)) =
     (let c = correct (calculateScore s spmMathQuestions)
      in if 4 \<le> c then ''Excellent work!'' else if c = 3 then ''Good job!''
         else if c = 2 then ''Keep practicing!'' else ''Don't give up!'')"
proof -
  let ?c = "correct (calculateScore s spmMathQuestions)"
  have p: "percentage (calculateScore s spmMathQuestions) = JNum (of_nat ?c * 20)"
    by (rule percentage_five) simp
  have "?c \<le> 5" using correct_le_total [of s spmMathQuestions] by simp
  then have "?c \<in> {0, 1, 2, 3, 4, 5}" by auto
  then show ?thesis by (auto simp: getPerformanceMessage_def p Let_def)
qed

text \<open>C13: a topic is weak exactly when fewer than three fifths of its questions were
  answered correctly; the weak topics come in the order of their first question.\<close>

theorem weakTopics_spec:
  "weakTopics (getTopicPerformance s qs) =
     filter (\<lambda>t. 5 * correct (topic_counts (answers s) qs t) < 3 * total (topic_counts (answers s) qs t))
       (first_occurrences (map topic qs))"
proof -
  let ?L = "first_occurrences (map topic qs)"
  let ?f = "topic_counts (answers s) qs"
  have "filter (\<lambda>t. js_lt (js_divide (of_nat (correct (?f t))) (of_nat (total (?f t)))) (3 / 5)) ?L =
        filter (\<lambda>t. 5 * correct (?f t) < 3 * total (?f t)) ?L"
  proof (rule filter_cong [OF refl])
    fix t assume "t \<in> set ?L"
    then show "js_lt (js_divide (of_nat (correct (?f t))) (of_nat (total (?f t)))) (3 / 5) \<longleftrightarrow>
        5 * correct (?f t) < 3 * total (?f t)"
      using topic_table_total_pos weak_ratio_iff by blast
  qed
  then show ?thesis
    by (simp add: getTopicPerformance_spec topic_table_def weakTopics_def filter_map o_def)
qed

end
