(* ===== verification/QuizProgress.thy ===== *)
theory QuizProgress
  imports QuizState
begin

text \<open>
  The progress header of \<^verbatim>\<open>src/components/QuizProgress.tsx\<close>: the milestone list,
  the motivational message chosen by the progress percentage and the colour of each
  milestone dot. The component receives \<open>progress\<close> from the hook
  (\<open>QuizState.progress\<close>); here it is an argument of type \<open>jsnum\<close>. The lemmas
  evaluate both closures at the five positions of the bank.
\<close>

definition milestones :: "rat list" where
  "milestones = [25, 50, 75, 100]"

definition getMotivationalMessage :: "jsnum \<Rightarrow> string" where
  "getMotivationalMessage p =
     (if js_ge p 100 then motivationalMessages M100
      else if js_ge p 75 then motivationalMessages M75
      else if js_ge p 50 then motivationalMessages M50
      else if js_ge p 25 then motivationalMessages M25
      else motivationalMessages MStart)"

definition getMilestoneColor :: "jsnum \<Rightarrow> rat \<Rightarrow> string" where
  "getMilestoneColor p milestone =
     (if js_ge p milestone
      then (if js_lt p (milestone + 5) \<and> js_ge p milestone
            then ''bg-blue-500 animate-pulse scale-110'' else ''bg-blue-500'')
      else ''bg-gray-200'')"

lemma progress_bank:
  "0 \<le> currentQuestion s \<Longrightarrow>
   progress spmMathQuestions s = JNum (of_int (currentQuestion s + 1) * 20)"
  by (simp add: progress_def)

text \<open>
  On the five-question bank the header shows, at positions 0 to 4 (progress 20, 40,
  60, 80, 100), the start message and then the 25, 50, 75 and 100 messages: the first
  question shows "Let's begin" although no milestone is reached, and the last question
  already shows "Quiz completed!" before it is answered.
\<close>

theorem motivational_message_by_position:
  assumes "0 \<le> currentQuestion s" "currentQuestion s \<le> 4"
  shows "getMotivationalMessage (progress spmMathQuestions s) =
           motivationalMessages ([MStart, M25, M50, M75, M100] ! nat (currentQuestion s))"
proof -
  obtain k where k: "currentQuestion s = k" by blast
  have p: "progress spmMathQuestions s = JNum (of_int (k + 1) * 20)"
    using progress_bank [OF assms(1)] k by simp
  have "k \<in> {0, 1, 2, 3, 4}" using assms k by auto
  then show ?thesis
    unfolding p k by (auto simp: getMotivationalMessage_def)
qed

theorem motivational_message_by_position_witness:
  "getMotivationalMessage (progress spmMathQuestions initialState) = motivationalMessages MStart"
proof -
  have "0 \<le> currentQuestion initialState" "currentQuestion initialState \<le> 4"
    by (simp_all add: initialState_def)
  from motivational_message_by_position [OF this] show ?thesis
    by (simp add: initialState_def)
qed

text \<open>
  On the bank the "just reached" animation (progress within 5 above a milestone)
  shows only for the 100 milestone, on the last question; at every position the dots of
  the milestones at or below the progress are blue and the others grey.
\<close>

theorem milestone_pulse_only_at_end:
  assumes "0 \<le> currentQuestion s" "currentQuestion s \<le> 4" "m \<in> set milestones"
  shows "getMilestoneColor (progress spmMathQuestions s) m =
           (if m \<le> of_int (currentQuestion s + 1) * 20
            then (if m = 100 then ''bg-blue-500 animate-pulse scale-110'' else ''bg-blue-500'')
            else ''bg-gray-200'')"
proof -
  obtain k where k: "currentQuestion s = k" by blast
  have p: "progress spmMathQuestions s = JNum (of_int (k + 1) * 20)"
    using progress_bank [OF assms(1)] k by simp
  have "k \<in> {0, 1, 2, 3, 4}" using assms(1,2) k by auto
  moreover have "m \<in> {25, 50, 75, 100}" using assms(3) by (simp add: milestones_def)
  ultimately show ?thesis
    unfolding p k by (auto simp: getMilestoneColor_def)
qed

theorem milestone_pulse_only_at_end_witness:
  "getMilestoneColor (progress spmMathQuestions (initialState\<lparr>currentQuestion := 4\<rparr>)) 100 =
     ''bg-blue-500 animate-pulse scale-110'' \<and>
   getMilestoneColor (progress spmMathQuestions (initialState\<lparr>currentQuestion := 3\<rparr>)) 75 =
     ''bg-blue-500''"
proof -
  have m: "(100::rat) \<in> set milestones" "(75::rat) \<in> set milestones"
    by (simp_all add: milestones_def)
  have a: "0 \<le> currentQuestion (initialState\<lparr>currentQuestion := 4\<rparr>)"
    "currentQuestion (initialState\<lparr>currentQuestion := 4\<rparr>) \<le> 4" by simp_all
  have b: "0 \<le> currentQuestion (initialState\<lparr>currentQuestion := 3\<rparr>)"
    "currentQuestion (initialState\<lparr>currentQuestion := 3\<rparr>) \<le> 4" by simp_all
  show ?thesis
    using milestone_pulse_only_at_end [OF a m(1)] milestone_pulse_only_at_end [OF b m(2)]
    by simp
qed

end
