(* ===== verification/Analytics.thy ===== *)
theory Analytics
  imports Prelude
begin

text \<open>
  The analytics hook of \<^verbatim>\<open>src/hooks/useAnalytics.ts\<close>. \<open>trackEvent\<close> builds an
  \<open>AnalyticsEvent\<close> (the properties passed, then \<open>timestamp\<close>, \<open>userAgent\<close> and
  \<open>url\<close>, as the object spread writes them) and appends it to the log stored under the
  key \<open>quizAnalytics\<close>. The log is the list of events (\<open>analytics_store\<close> adds the
  stored text on which tracking throws); its JSON text is in \<open>AnalyticsLog\<close>.
  \<open>navigator.userAgent\<close> and \<open>window.location.href\<close> are the fields of
  \<open>browser_env\<close>. The two reads of \<open>Date.now()\<close> in \<open>trackEvent\<close> are taken
  as one instant \<open>now\<close>. Property values are strings or integral numbers.
\<close>

datatype prop_value = PStr string | PNum int

record analytics_event =
  event :: string
  properties :: "(string \<times> prop_value) list"
  timestamp :: timestamp

record browser_env =
  userAgent :: string
  url :: string

type_synonym event_log = "analytics_event list"

text \<open>What the key \<open>quizAnalytics\<close> holds, as \<open>trackEvent\<close> reads it: a log of
  events, or text on which \<open>trackEvent\<close> throws before writing (\<open>JSON.parse\<close>
  rejects it, or it is not an array and \<open>events.push\<close> is a \<open>TypeError\<close>). An
  absent key reads as the empty log. \<open>AnalyticsLog\<close> relates it to the stored text.\<close>

datatype analytics_store = Events event_log | Unreadable

definition make_event ::
  "browser_env \<Rightarrow> timestamp \<Rightarrow> string \<Rightarrow> (string \<times> prop_value) list \<Rightarrow> analytics_event" where
  "make_event env now ev props =
     \<lparr>event = ev,
      properties = AList.update ''url'' (PStr (url env))
        (AList.update ''userAgent'' (PStr (userAgent env))
          (AList.update ''timestamp'' (PNum now) props)),
      timestamp = now\<rparr>"

definition trackEvent ::
  "browser_env \<Rightarrow> timestamp \<Rightarrow> string \<Rightarrow> (string \<times> prop_value) list \<Rightarrow> event_log \<Rightarrow> event_log" where
  "trackEvent env now ev props events = events @ [make_event env now ev props]"

definition trackQuizStart :: "browser_env \<Rightarrow> timestamp \<Rightarrow> event_log \<Rightarrow> event_log" where
  "trackQuizStart env now =
     trackEvent env now ''quiz_started''
       [(''category'', PStr ''engagement''), (''quiz_type'', PStr ''spm_math'')]"

definition trackQuestionAnswer ::
  "browser_env \<Rightarrow> timestamp \<Rightarrow> qid \<Rightarrow> token \<Rightarrow> int \<Rightarrow> event_log \<Rightarrow> event_log" where
  "trackQuestionAnswer env now questionId answer timeSpent =
     trackEvent env now ''question_answered''
       [(''category'', PStr ''engagement''), (''question_id'', PNum questionId),
        (''answer'', PStr answer),
        (''time_spent_seconds'', PNum (js_round (of_int timeSpent / 1000)))]"

definition trackQuizComplete ::
  "browser_env \<Rightarrow> timestamp \<Rightarrow> int \<Rightarrow> int \<Rightarrow> event_log \<Rightarrow> event_log" where
  "trackQuizComplete env now totalTime score =
     trackEvent env now ''quiz_completed''
       [(''category'', PStr ''completion''),
        (''total_time_seconds'', PNum (js_round (of_int totalTime / 1000))),
        (''score'', PNum score), (''completion_rate'', PNum 100)]"

definition trackQuizPause :: "browser_env \<Rightarrow> timestamp \<Rightarrow> int \<Rightarrow> event_log \<Rightarrow> event_log" where
  "trackQuizPause env now questionNumber =
     trackEvent env now ''quiz_paused''
       [(''category'', PStr ''engagement''), (''question_number'', PNum questionNumber)]"

definition trackQuizResume :: "browser_env \<Rightarrow> timestamp \<Rightarrow> int \<Rightarrow> event_log \<Rightarrow> event_log" where
  "trackQuizResume env now questionNumber =
     trackEvent env now ''quiz_resumed''
       [(''category'', PStr ''engagement''), (''question_number'', PNum questionNumber)]"

definition trackQuizAbandonment ::
  "browser_env \<Rightarrow> timestamp \<Rightarrow> int \<Rightarrow> int \<Rightarrow> event_log \<Rightarrow> event_log" where
  "trackQuizAbandonment env now questionNumber timeSpent =
     trackEvent env now ''quiz_abandoned''
       [(''category'', PStr ''abandonment''), (''question_number'', PNum questionNumber),
        (''time_spent_seconds'', PNum (js_round (of_int timeSpent / 1000)))]"

lemmas track_defs = trackQuizStart_def trackQuestionAnswer_def trackQuizComplete_def
  trackQuizPause_def trackQuizResume_def trackQuizAbandonment_def

lemma trackEvent_appends:
  "\<exists>e. trackEvent env now ev props events = events @ [e] \<and> event e = ev \<and> timestamp e = now"
  by (simp add: trackEvent_def make_event_def)

lemma trackEvent_property:
  "map_of (properties (last (trackEvent env now ev props events))) k =
     (if k = ''url'' then Some (PStr (url env))
      else if k = ''userAgent'' then Some (PStr (userAgent env))
      else if k = ''timestamp'' then Some (PNum now) else map_of props k)"
  by (simp add: trackEvent_def make_event_def update_conv')

text \<open>
  Tracking appends exactly one event at the end of the log and keeps every earlier
  event; the new event carries the name, the instant, and the properties passed together
  with \<open>timestamp\<close>, \<open>userAgent\<close> and \<open>url\<close>, these three overriding a property of
  the same name.
\<close>

theorem trackEvent_log:
  "length (trackEvent env now ev props events) = Suc (length events) \<and>
   take (length events) (trackEvent env now ev props events) = events \<and>
   event (last (trackEvent env now ev props events)) = ev \<and>
   timestamp (last (trackEvent env now ev props events)) = now \<and>
   map_of (properties (last (trackEvent env now ev props events))) ''timestamp'' = Some (PNum now) \<and>
   map_of (properties (last (trackEvent env now ev props events))) ''userAgent'' = Some (PStr (userAgent env)) \<and>
   map_of (properties (last (trackEvent env now ev props events))) ''url'' = Some (PStr (url env)) \<and>
   (\<forall>k. k \<notin> {''timestamp'', ''userAgent'', ''url''} \<longrightarrow>
      map_of (properties (last (trackEvent env now ev props events))) k = map_of props k)"
  using trackEvent_property [of env now ev props events] by (simp add: trackEvent_def make_event_def)

theorem trackEvent_log_witness:
  "length (trackQuizStart \<lparr>userAgent = ''UA'', url = ''http://quiz''\<rparr> 5 []) = 1 \<and>
   event (last (trackQuizStart \<lparr>userAgent = ''UA'', url = ''http://quiz''\<rparr> 5 [])) = ''quiz_started'' \<and>
   map_of (properties (last (trackQuizStart \<lparr>userAgent = ''UA'', url = ''http://quiz''\<rparr> 5 [])))
     ''quiz_type'' = Some (PStr ''spm_math'')"
proof -
  note l = trackEvent_log [of "\<lparr>userAgent = ''UA'', url = ''http://quiz''\<rparr>" 5 "''quiz_started''"
      "[(''category'', PStr ''engagement''), (''quiz_type'', PStr ''spm_math'')]" "[]"]
  have "''quiz_type'' \<notin> {''timestamp'', ''userAgent'', ''url''}" by simp
  with l show ?thesis by (simp add: trackQuizStart_def)
qed

end
