(* ===== verification/App.thy ===== *)
theory App
  imports QuizResults QuizProgress Analytics
begin

text \<open>
  The orchestration of \<^verbatim>\<open>src/App.tsx\<close> with the hook effects it mounts. The App's
  state is a record: the \<open>stage\<close> and \<open>questionStartTime\<close> of its
  \<open>useState\<close> hooks, the reducer state of \<open>useQuizState\<close> (\<open>quiz\<close>), the two
  \<open>localStorage\<close> keys (\<open>savedState\<close> for \<open>quizState\<close>, \<open>analytics\<close> for
  \<open>quizAnalytics\<close>) and the toasts shown. The text stored under \<open>quizState\<close> is
  \<open>payload\<close>: the state it encodes, or text \<open>JSON.parse\<close> rejects; the text
  under \<open>quizAnalytics\<close> is an \<open>analytics_store\<close>. \<open>Storage\<close> and
  \<open>AnalyticsLog\<close> relate both to the stored JSON text.

  A dispatch applies the reducer and then the hook's save effect (\<open>useQuizState.ts\<close>
  lines 125-127), which writes the new state through to storage. A handler reads the
  state of the render it belongs to (\<open>quiz a\<close>, before its own dispatches), as the
  closures of the source do. Every handler reads the clock once (\<open>now\<close>).

  A tracking call that throws (an unreadable log) ends its handler: the state updates the
  handler queued before the call still take effect, as React applies updates queued by an
  event handler that throws, but what follows the call does not run. \<open>track\<close> is such
  a call followed by the toasts the handler shows after it.
\<close>

datatype quiz_stage = Onboarding | Quiz | Results

datatype payload = Stored quiz_state | Unparseable

record app_state =
  stage :: quiz_stage
  questionStartTime :: timestamp
  quiz :: quiz_state
  savedState :: "payload option"
  analytics :: analytics_store
  toasts :: "string list"

definition dispatch :: "timestamp \<Rightarrow> quiz_action \<Rightarrow> app_state \<Rightarrow> app_state" where
  "dispatch now act a =
     (let st = quizReducer now (quiz a) act
      in a\<lparr>quiz := st, savedState := Some (Stored st)\<rparr>)"

definition toast :: "string \<Rightarrow> app_state \<Rightarrow> app_state" where
  "toast msg a = a\<lparr>toasts := toasts a @ [msg]\<rparr>"

definition track :: "(event_log \<Rightarrow> event_log) \<Rightarrow> string list \<Rightarrow> app_state \<Rightarrow> app_state" where
  "track f msgs a =
     (case analytics a of
        Events es \<Rightarrow> a\<lparr>analytics := Events (f es), toasts := toasts a @ msgs\<rparr>
      | Unreadable \<Rightarrow> a)"

definition handleStart :: "browser_env \<Rightarrow> timestamp \<Rightarrow> app_state \<Rightarrow> app_state" where
  "handleStart env now a =
     (let a1 = (dispatch now START_QUIZ a)\<lparr>stage := Quiz, questionStartTime := now\<rparr>
      in track (trackQuizStart env now)
           [''Quiz started! Good luck! '' @ [CHR 0xF0, CHR 0x9F, CHR 0x8D, CHR 0x80]] a1)"

definition handleAnswerChange ::
  "browser_env \<Rightarrow> timestamp \<Rightarrow> token \<Rightarrow> app_state \<Rightarrow> app_state" where
  "handleAnswerChange env now answer a =
     (case currentQuestionData spmMathQuestions (quiz a) of
        None \<Rightarrow> a
      | Some q \<Rightarrow>
          let timeSpent = now - questionStartTime a;
              a1 = dispatch now (ANSWER_QUESTION (qid q) answer) a
          in track (trackQuestionAnswer env now (qid q) answer timeSpent) [] a1)"

definition milestone_toasts :: "jsnum \<Rightarrow> string list" where
  "milestone_toasts newProgress =
     (if newProgress = JNum 25
      then [''Great start! 25% complete! '' @ [CHR 0xF0, CHR 0x9F, CHR 0x92, CHR 0xAA]] else []) @
     (if newProgress = JNum 50
      then [''Halfway there! Keep going! '' @ [CHR 0xF0, CHR 0x9F, CHR 0x94, CHR 0xA5]] else []) @
     (if newProgress = JNum 75
      then [''Almost done! You're doing great! '' @ [CHR 0xE2, CHR 0xAD, CHR 0x90]] else [])"

definition handleNext :: "browser_env \<Rightarrow> timestamp \<Rightarrow> app_state \<Rightarrow> app_state" where
  "handleNext env now a =
     (if isLastQuestion spmMathQuestions (quiz a)
      then
        let a1 = (dispatch now COMPLETE_QUIZ a)\<lparr>stage := Results\<rparr>;
            score = foldl (\<lambda>acc q. acc +
                      (if answers (quiz a) (qid q) = Some (correctAnswer q) then 1 else 0))
                    0 spmMathQuestions;
            totalTime = now - startTime (quiz a) - totalPausedTime (quiz a)
        in track (trackQuizComplete env now totalTime score)
             [''Quiz completed! '' @ [CHR 0xF0, CHR 0x9F, CHR 0x8E, CHR 0x89]] a1
      else
        let a1 = (dispatch now NEXT_QUESTION a)\<lparr>questionStartTime := now\<rparr>;
            newProgress = js_scale (js_divide (of_int (currentQuestion (quiz a) + 2))
                                              (of_nat (length spmMathQuestions))) 100
        in a1\<lparr>toasts := toasts a1 @ milestone_toasts newProgress\<rparr>)"

definition handlePrevious :: "timestamp \<Rightarrow> app_state \<Rightarrow> app_state" where
  "handlePrevious now a = (dispatch now PREVIOUS_QUESTION a)\<lparr>questionStartTime := now\<rparr>"

definition handlePause :: "browser_env \<Rightarrow> timestamp \<Rightarrow> app_state \<Rightarrow> app_state" where
  "handlePause env now a =
     track (trackQuizPause env now (currentQuestion (quiz a) + 1))
       [''Quiz paused. Take your time! '' @
        [CHR 0xE2, CHR 0x8F, CHR 0xB8, CHR 0xEF, CHR 0xB8, CHR 0x8F]]
       (dispatch now PAUSE_QUIZ a)"

definition handleResume :: "browser_env \<Rightarrow> timestamp \<Rightarrow> app_state \<Rightarrow> app_state" where
  "handleResume env now a =
     track (trackQuizResume env now (currentQuestion (quiz a) + 1))
       [''Quiz resumed! Let's continue! '' @
        [CHR 0xE2, CHR 0x96, CHR 0xB6, CHR 0xEF, CHR 0xB8, CHR 0x8F]]
       ((dispatch now RESUME_QUIZ a)\<lparr>questionStartTime := now\<rparr>)"

text \<open>The hook's \<open>resetQuiz\<close> removes the stored state, then dispatches
  \<open>RESET_QUIZ\<close>, whose save effect stores the initial state again.\<close>

definition resetQuiz :: "timestamp \<Rightarrow> app_state \<Rightarrow> app_state" where
  "resetQuiz now a = dispatch now RESET_QUIZ (a\<lparr>savedState := None\<rparr>)"

definition handleRestart :: "timestamp \<Rightarrow> app_state \<Rightarrow> app_state" where
  "handleRestart now a =
     toast (''Ready for another round? '' @ [CHR 0xF0, CHR 0x9F, CHR 0x94, CHR 0x84])
       ((resetQuiz now a)\<lparr>stage := Onboarding\<rparr>)"

definition handleBeforeUnload :: "browser_env \<Rightarrow> timestamp \<Rightarrow> app_state \<Rightarrow> app_state" where
  "handleBeforeUnload env now a =
     (if stage a = Quiz \<and> \<not> isComplete (quiz a)
      then track (trackQuizAbandonment env now (currentQuestion (quiz a) + 1)
             (now - startTime (quiz a) - totalPausedTime (quiz a))) [] a
      else a)"

definition completion_effect :: "app_state \<Rightarrow> app_state" where
  "completion_effect a =
     (if isComplete (quiz a) \<and> stage a \<noteq> Results then a\<lparr>stage := Results\<rparr> else a)"

subsection \<open>Mounting the App\<close>

text \<open>
  On mount the effects of the first commit run in declaration order: the hook's load
  effect reads the stored text and queues \<open>LOAD_STATE\<close> (\<open>useQuizState.ts\<close>
  111-122), the hook's save effect writes the state of the first render, the initial
  state (125-127), App's check effect reads the storage again to decide whether to resume
  (\<open>App.tsx\<close> 46-61), and the completion effect runs. The queued load is applied in
  the next render, whose save and completion effects run in turn.
\<close>

definition load_effect :: "payload option \<Rightarrow> quiz_action option" where
  "load_effect saved = (case saved of Some (Stored st) \<Rightarrow> Some (LOAD_STATE st) | _ \<Rightarrow> None)"

definition mount_check_effect :: "app_state \<Rightarrow> app_state" where
  "mount_check_effect a =
     (case savedState a of
        Some (Stored st) \<Rightarrow>
          if startTime st \<noteq> 0 \<and> \<not> isComplete st
          then toast ''Welcome back! Your progress has been restored.'' (a\<lparr>stage := Quiz\<rparr>)
          else a
      | _ \<Rightarrow> a)"

definition app_mount :: "timestamp \<Rightarrow> payload option \<Rightarrow> analytics_store \<Rightarrow> app_state" where
  "app_mount now saved storedEvents =
     (let a0 = \<lparr>stage = Onboarding, questionStartTime = now, quiz = initialState,
                savedState = saved, analytics = storedEvents, toasts = []\<rparr>;
          pending = load_effect (savedState a0);
          a1 = a0\<lparr>savedState := Some (Stored (quiz a0))\<rparr>;
          a2 = completion_effect (mount_check_effect a1)
      in case pending of None \<Rightarrow> a2 | Some act \<Rightarrow> completion_effect (dispatch now act a2))"

subsection \<open>User events and the guards of the rendered UI\<close>

text \<open>
  What the rendered screens let a user do (\<open>App.tsx\<close> 172-214,
  \<^verbatim>\<open>QuizQuestion.tsx\<close>): Start on the onboarding screen; on the quiz screen (stage
  \<open>quiz\<close> with a current question) an answer among the question's option values, Next
  when \<open>canGoNext\<close> (the button is \<open>disabled\<close> otherwise), Previous away from the
  first question, the pause button, which resumes when paused; Restart on the results
  screen; leaving the page at any time. The pause overlay blocks the mouse but not the
  keyboard (options and buttons keep \<open>tabIndex\<close> and key handlers), so answering and
  navigating stay possible while paused.
\<close>

datatype ui_event = Start | Answer token | Next | Previous | PauseToggle | Restart | Unload

definition on_quiz_screen :: "app_state \<Rightarrow> bool" where
  "on_quiz_screen a \<longleftrightarrow> stage a = Quiz \<and> currentQuestionData spmMathQuestions (quiz a) \<noteq> None"

fun ui_enabled :: "app_state \<Rightarrow> ui_event \<Rightarrow> bool" where
  "ui_enabled a Start = (stage a = Onboarding)"
| "ui_enabled a (Answer t) =
     (on_quiz_screen a \<and>
      (case currentQuestionData spmMathQuestions (quiz a) of
         None \<Rightarrow> False | Some q \<Rightarrow> t \<in> set (map option_value (options q))))"
| "ui_enabled a Next = (on_quiz_screen a \<and> canGoNext spmMathQuestions (quiz a))"
| "ui_enabled a Previous = (on_quiz_screen a \<and> currentQuestion (quiz a) \<noteq> 0)"
| "ui_enabled a PauseToggle = on_quiz_screen a"
| "ui_enabled a Restart = (stage a = Results)"
| "ui_enabled a Unload = True"

fun handler :: "browser_env \<Rightarrow> timestamp \<Rightarrow> app_state \<Rightarrow> ui_event \<Rightarrow> app_state" where
  "handler env now a Start = handleStart env now a"
| "handler env now a (Answer t) = handleAnswerChange env now t a"
| "handler env now a Next = handleNext env now a"
| "handler env now a Previous = handlePrevious now a"
| "handler env now a PauseToggle =
     (if isPaused (quiz a) then handleResume env now a else handlePause env now a)"
| "handler env now a Restart = handleRestart now a"
| "handler env now a Unload = handleBeforeUnload env now a"

definition app_step :: "browser_env \<Rightarrow> timestamp \<Rightarrow> app_state \<Rightarrow> ui_event \<Rightarrow> app_state" where
  "app_step env now a ev = completion_effect (handler env now a ev)"

fun app_run :: "browser_env \<Rightarrow> app_state \<Rightarrow> (timestamp \<times> ui_event) list \<Rightarrow> app_state" where
  "app_run env a [] = a"
| "app_run env a ((now, ev) # evs) = app_run env (app_step env now a ev) evs"

text \<open>A run is enabled when each event is enabled in the state it is applied to, and
  timely when its instants do not go back.\<close>

fun run_enabled :: "browser_env \<Rightarrow> app_state \<Rightarrow> (timestamp \<times> ui_event) list \<Rightarrow> bool" where
  "run_enabled env a [] = True"
| "run_enabled env a ((now, ev) # evs) = (ui_enabled a ev \<and> run_enabled env (app_step env now a ev) evs)"

fun timely :: "timestamp \<Rightarrow> (timestamp \<times> ui_event) list \<Rightarrow> bool" where
  "timely t [] = True"
| "timely t ((now, ev) # evs) = (t \<le> now \<and> timely now evs)"

fun run_end :: "timestamp \<Rightarrow> (timestamp \<times> ui_event) list \<Rightarrow> timestamp" where
  "run_end t [] = t"
| "run_end t ((now, ev) # evs) = run_end now evs"

text \<open>The App states a session can reach: a first mount with empty storage, enabled user
  events under a clock that never goes back, and reloads, which mount again on what the
  previous page left in storage.\<close>

inductive app_reachable :: "browser_env \<Rightarrow> timestamp \<Rightarrow> app_state \<Rightarrow> bool" where
  first_mount: "0 \<le> now \<Longrightarrow> app_reachable env now (app_mount now None (Events []))"
| tick: "app_reachable env t a \<Longrightarrow> t \<le> t' \<Longrightarrow> app_reachable env t' a"
| event: "app_reachable env t a \<Longrightarrow> ui_enabled a ev \<Longrightarrow> app_reachable env t (app_step env t a ev)"
| reload: "app_reachable env t a \<Longrightarrow> app_reachable env t (app_mount t (savedState a) (analytics a))"

lemma app_run_reachable:
  "app_reachable env t a \<Longrightarrow> run_enabled env a evs \<Longrightarrow> timely t evs \<Longrightarrow>
   app_reachable env (run_end t evs) (app_run env a evs)"
proof (induction evs arbitrary: t a)
  case Nil
  then show ?case by simp
next
  case (Cons e evs)
  obtain now ev where e: "e = (now, ev)" by (cases e)
  from Cons.prems e have "app_reachable env now a" by (auto intro: app_reachable.tick)
  with Cons.prems e have "app_reachable env now (app_step env now a ev)"
    by (auto intro: app_reachable.event)
  with Cons.IH Cons.prems e show ?case by simp
qed

subsection \<open>Frame lemmas\<close>

lemma dispatch_fields [simp]:
  "quiz (dispatch now act a) = quizReducer now (quiz a) act"
  "savedState (dispatch now act a) = Some (Stored (quizReducer now (quiz a) act))"
  "stage (dispatch now act a) = stage a"
  "analytics (dispatch now act a) = analytics a"
  "toasts (dispatch now act a) = toasts a"
  "questionStartTime (dispatch now act a) = questionStartTime a"
  by (simp_all add: dispatch_def Let_def)

lemma toast_fields [simp]:
  "quiz (toast m a) = quiz a" "savedState (toast m a) = savedState a" "stage (toast m a) = stage a"
  "analytics (toast m a) = analytics a" "toasts (toast m a) = toasts a @ [m]"
  "questionStartTime (toast m a) = questionStartTime a"
  by (simp_all add: toast_def)

lemma completion_effect_fields [simp]:
  "quiz (completion_effect a) = quiz a" "savedState (completion_effect a) = savedState a"
  "analytics (completion_effect a) = analytics a" "toasts (completion_effect a) = toasts a"
  by (simp_all add: completion_effect_def)

lemma track_fields [simp]:
  "quiz (track f msgs a) = quiz a" "savedState (track f msgs a) = savedState a"
  "stage (track f msgs a) = stage a" "questionStartTime (track f msgs a) = questionStartTime a"
  "analytics (track f msgs a) =
     (case analytics a of Events es \<Rightarrow> Events (f es) | Unreadable \<Rightarrow> Unreadable)"
  "toasts (track f msgs a) =
     (case analytics a of Events es \<Rightarrow> toasts a @ msgs | Unreadable \<Rightarrow> toasts a)"
  by (simp_all add: track_def split: analytics_store.split)

lemma mount_check_effect_fields [simp]:
  "quiz (mount_check_effect a) = quiz a" "savedState (mount_check_effect a) = savedState a"
  by (simp_all add: mount_check_effect_def split: option.split payload.split)

lemma app_mount_empty [simp]:
  "app_mount now None evs =
     \<lparr>stage = Onboarding, questionStartTime = now, quiz = initialState,
      savedState = Some (Stored initialState), analytics = evs, toasts = []\<rparr>"
  by (simp add: app_mount_def Let_def load_effect_def mount_check_effect_def
      completion_effect_def initialState_def)

definition mirrored :: "app_state \<Rightarrow> bool" where
  "mirrored a \<longleftrightarrow> savedState a = Some (Stored (quiz a))"

lemma mirrored_mount: "mirrored (app_mount now saved ev)"
  by (simp add: app_mount_def Let_def mirrored_def load_effect_def split: option.split payload.split)

lemma mirrored_handler: "mirrored a \<Longrightarrow> mirrored (handler env now a ev)"
  by (cases ev)
     (simp_all add: mirrored_def handleStart_def handleAnswerChange_def handleNext_def
        handlePrevious_def handlePause_def handleResume_def handleRestart_def resetQuiz_def
        handleBeforeUnload_def Let_def split: option.split)

subsection \<open>Properties of the App\<close>

text \<open>
  C20: reloading the page never resumes a quiz in progress. For a stored state that was
  started and not completed, mounting restores it into the reducer but stays on the
  onboarding screen and shows no "Welcome back" toast: the hook's save effect has already
  overwritten the storage with the initial state when App's check effect reads it, and
  sees start time 0.
\<close>

theorem mount_does_not_resume:
  assumes "startTime st \<noteq> 0" "\<not> isComplete st"
  shows "stage (app_mount now (Some (Stored st)) evs) = Onboarding \<and>
         quiz (app_mount now (Some (Stored st)) evs) = st \<and>
         savedState (app_mount now (Some (Stored st)) evs) = Some (Stored st) \<and>
         toasts (app_mount now (Some (Stored st)) evs) = []"
  using assms
  by (simp add: app_mount_def Let_def load_effect_def mount_check_effect_def
      completion_effect_def initialState_def)

theorem mount_does_not_resume_witness:
  "stage (app_mount 9000 (Some (Stored (quizReducer 1000 initialState START_QUIZ))) (Events [])) = Onboarding \<and>
   quiz (app_mount 9000 (Some (Stored (quizReducer 1000 initialState START_QUIZ))) (Events [])) =
     quizReducer 1000 initialState START_QUIZ"
proof -
  have "startTime (quizReducer 1000 initialState START_QUIZ) \<noteq> 0"
    "\<not> isComplete (quizReducer 1000 initialState START_QUIZ)"
    by (simp_all add: initialState_def)
  from mount_does_not_resume [OF this, of 9000 "Events []"] show ?thesis by simp
qed

text \<open>C21: in every App state a session can reach, the storage holds exactly the
  in-memory quiz state (write-through persistence).\<close>

theorem storage_mirrors_state: "app_reachable env t a \<Longrightarrow> savedState a = Some (Stored (quiz a))"
proof (induction rule: app_reachable.induct)
  case (first_mount now env)
  then show ?case by (simp add: mirrored_def)
next
  case (tick env t a t')
  then show ?case by simp
next
  case (event env t a ev)
  then have "mirrored (handler env t a ev)" by (intro mirrored_handler) (simp add: mirrored_def)
  then show ?case by (simp add: app_step_def mirrored_def)
next
  case (reload env t a)
  then show ?case using mirrored_mount by (simp add: mirrored_def)
qed

theorem storage_mirrors_state_witness:
  "savedState (app_step \<lparr>userAgent = ''UA'', url = ''u''\<rparr> 3 (app_mount 2 None (Events [])) Start) =
   Some (Stored (quiz (app_step \<lparr>userAgent = ''UA'', url = ''u''\<rparr> 3 (app_mount 2 None (Events [])) Start)))"
proof -
  let ?env = "\<lparr>userAgent = ''UA'', url = ''u''\<rparr>"
  have r0: "app_reachable ?env 3 (app_mount 2 None (Events []))"
    by (rule app_reachable.tick [OF app_reachable.first_mount]) simp_all
  have "ui_enabled (app_mount 2 None (Events [])) Start" by simp
  from app_reachable.event [OF r0 this] show ?thesis by (rule storage_mirrors_state)
qed

text \<open>Restarting does not leave the storage empty: \<open>resetQuiz\<close> removes the
  stored state, and the save effect of the reset writes the initial state back. The App is
  on the onboarding screen with the initial state.\<close>

theorem restart_stores_initial_state:
  "savedState (handleRestart now a) = Some (Stored initialState) \<and>
   quiz (handleRestart now a) = initialState \<and>
   stage (handleRestart now a) = Onboarding"
  by (simp add: handleRestart_def resetQuiz_def Let_def toast_def)

lemma new_progress_not_milestone:
  "js_scale (js_divide (of_int k) (of_nat (length spmMathQuestions))) 100 \<noteq> JNum 25 \<and>
   js_scale (js_divide (of_int k) (of_nat (length spmMathQuestions))) 100 \<noteq> JNum 50 \<and>
   js_scale (js_divide (of_int k) (of_nat (length spmMathQuestions))) 100 \<noteq> JNum 75"
proof -
  have e: "js_scale (js_divide (of_int k) (of_nat (length spmMathQuestions))) 100 =
      JNum (of_int (20 * k))"
    by simp
  have "(of_int (20 * k) :: rat) \<noteq> of_int 25" "(of_int (20 * k) :: rat) \<noteq> of_int 50"
    "(of_int (20 * k) :: rat) \<noteq> of_int 75"
    unfolding of_int_eq_iff by presburger+
  then show ?thesis unfolding e by simp
qed

text \<open>C23: the milestone toasts of \<open>handleNext\<close> never fire: with five questions the
  progress after moving on is a multiple of 20, never 25, 50 or 75.\<close>

theorem milestone_toasts_never_fire:
  assumes "\<not> isLastQuestion spmMathQuestions (quiz a)"
  shows "toasts (handleNext env now a) = toasts a"
  using assms new_progress_not_milestone [of "currentQuestion (quiz a) + 2"]
  by (simp add: handleNext_def Let_def milestone_toasts_def)

theorem milestone_toasts_never_fire_witness:
  "toasts (handleNext \<lparr>userAgent = ''UA'', url = ''u''\<rparr> 7 (app_mount 1 None (Events []))) = []"
proof -
  have "\<not> isLastQuestion spmMathQuestions (quiz (app_mount 1 None (Events [])))"
    by (simp add: initialState_def isLastQuestion_def)
  from milestone_toasts_never_fire [OF this] show ?thesis by simp
qed

text \<open>
  C24: finishing on the last question completes the session, moves to the results screen
  and, when the log is readable, appends a \<open>quiz_completed\<close> event whose score is the
  score the results view shows and, when the clock is not 0, whose total time is the time
  the results view shows.
\<close>

theorem completion_event_matches_report:
  assumes "isLastQuestion spmMathQuestions (quiz a)" "now \<noteq> 0" "analytics a = Events es"
  shows "stage (handleNext env now a) = Results \<and> isComplete (quiz (handleNext env now a)) \<and>
         (\<exists>e. analytics (handleNext env now a) = Events (es @ [e]) \<and>
              event e = ''quiz_completed'' \<and>
              map_of (properties e) ''score'' =
                Some (PNum (int (correct (calculateScore (quiz (handleNext env now a)) spmMathQuestions)))) \<and>
              map_of (properties e) ''total_time_seconds'' =
                Some (PNum (calculateTotalTime (quiz (handleNext env now a)))))"
  using assms
  by (simp add: handleNext_def Let_def trackQuizComplete_def trackEvent_def make_event_def
      update_conv' foldl_add_indicator calculateScore_correct is_correct_fun calculateTotalTime_def)

theorem completion_event_matches_report_witness:
  "\<exists>e. analytics (handleNext \<lparr>userAgent = ''UA'', url = ''u''\<rparr> 50
      ((app_mount 1 None (Events []))\<lparr>quiz := initialState\<lparr>currentQuestion := 4, startTime := 10\<rparr>\<rparr>)) =
     Events [e] \<and> event e = ''quiz_completed'' \<and> map_of (properties e) ''score'' = Some (PNum 0)"
proof -
  let ?a = "(app_mount 1 None (Events []))\<lparr>quiz := initialState\<lparr>currentQuestion := 4, startTime := 10\<rparr>\<rparr>"
  have "isLastQuestion spmMathQuestions (quiz ?a)" "(50::int) \<noteq> 0" "analytics ?a = Events []"
    by (simp_all add: isLastQuestion_def)
  note c = completion_event_matches_report [OF this, of "\<lparr>userAgent = ''UA'', url = ''u''\<rparr>"]
  have "correct (calculateScore (quiz (handleNext \<lparr>userAgent = ''UA'', url = ''u''\<rparr> 50 ?a))
      spmMathQuestions) = 0"
    by (simp add: handleNext_def Let_def isLastQuestion_def calculateScore_correct is_correct_def
        initialState_def)
  from this c show ?thesis by (simp only: append_Nil of_nat_0) blast
qed

lemma handler_quiz_step:
  "quiz (handler env now a ev) = quiz a \<or>
   (\<exists>act. (\<forall>st. act \<noteq> LOAD_STATE st) \<and> quiz (handler env now a ev) = quizReducer now (quiz a) act)"
proof (cases ev)
  case (Answer t)
  then show ?thesis
    by (cases "currentQuestionData spmMathQuestions (quiz a)")
       (auto simp: handleAnswerChange_def Let_def)
next
  case PauseToggle
  then show ?thesis
    by (cases "isPaused (quiz a)") (auto simp: handleResume_def handlePause_def Let_def)
qed (auto simp: handleStart_def handleNext_def handlePrevious_def handleRestart_def resetQuiz_def
       handleBeforeUnload_def Let_def)

lemma app_mount_quiz:
  "quiz (app_mount now (Some (Stored st)) evs) = st"
  by (simp add: app_mount_def Let_def load_effect_def)

lemma app_reachable_inv:
  "app_reachable env t a \<Longrightarrow> mirrored a \<and> reachable t (quiz a)"
proof (induction rule: app_reachable.induct)
  case (first_mount now env)
  then show ?case by (simp add: mirrored_def reachable.init)
next
  case (tick env t a t')
  then show ?case by (blast intro: reachable.tick)
next
  case (event env t a ev)
  have m: "mirrored (handler env t a ev)" using event.IH by (blast intro: mirrored_handler)
  from event.IH have r: "reachable t (quiz a)" by simp
  have "reachable t (quiz (handler env t a ev))"
  proof (cases "quiz (handler env t a ev) = quiz a")
    case True
    with r show ?thesis by simp
  next
    case False
    with handler_quiz_step [of env t a ev] obtain act where
      "\<forall>st. act \<noteq> LOAD_STATE st" and "quiz (handler env t a ev) = quizReducer t (quiz a) act"
      by blast
    with r show ?thesis by (simp add: reachable.step)
  qed
  with m show ?case by (simp add: app_step_def mirrored_def)
next
  case (reload env t a)
  then have saved: "savedState a = Some (Stored (quiz a))" and r: "reachable t (quiz a)"
    by (simp_all add: mirrored_def)
  have "0 \<le> t" using reachable_imp_state_ok [OF r] by (simp add: state_ok_def)
  then have "reachable t (quizReducer t initialState (LOAD_STATE (quiz a)))"
    by (intro reachable.load reachable.init r)
  then show ?case by (simp add: saved app_mount_quiz mirrored_mount)
qed

text \<open>
  C26: the App refines the reducer's state machine. The quiz state of every App state a
  session can reach (first mount, enabled UI events, reloads) is a reachable state of the
  reducer, and so has a position within the bank, agreeing pause and completion fields, no
  future timestamps and a non-negative paused total.
\<close>

theorem app_refines_reducer:
  "app_reachable env t a \<Longrightarrow> reachable t (quiz a) \<and> state_ok t (quiz a)"
  using app_reachable_inv reachable_imp_state_ok by blast

theorem app_refines_reducer_witness:
  "reachable 2 (quiz (app_step \<lparr>userAgent = ''UA'', url = ''u''\<rparr> 2 (app_mount 1 None (Events [])) Start)) \<and>
   currentQuestion (quiz (app_step \<lparr>userAgent = ''UA'', url = ''u''\<rparr> 2 (app_mount 1 None (Events [])) Start)) = 0"
proof -
  let ?env = "\<lparr>userAgent = ''UA'', url = ''u''\<rparr>"
  have r0: "app_reachable ?env 2 (app_mount 1 None (Events []))"
    by (rule app_reachable.tick [OF app_reachable.first_mount]) simp_all
  have "ui_enabled (app_mount 1 None (Events [])) Start" by simp
  from app_refines_reducer [OF app_reachable.event [OF r0 this]] show ?thesis
    by (simp add: app_step_def handleStart_def Let_def completion_effect_def toast_def
        initialState_def)
qed

end
