(* ===== verification/Storage.thy ===== *)
theory Storage
  imports JsonValue App "HOL-Library.Monad_Syntax"
begin

text \<open>
  The text the program keeps under the \<open>localStorage\<close> key \<open>quizState\<close>. The save
  effect of \<^verbatim>\<open>useQuizState.ts\<close> (lines 125-127) writes \<open>JSON.stringify(state)\<close>:
  \<open>state_json\<close> is the object JS builds from a state, its keys in the order of the
  \<open>QuizState\<close> literal (the spreads of the reducer keep that order), the numeric keys of
  \<open>answers\<close> in ascending order, as JS orders integer-like keys, and \<open>null\<close> for
  absent timestamps. \<open>state_of_json\<close> reads a parsed value as a \<open>QuizState\<close> (the
  interface of lines 4-13 as a schema), taking the last of duplicate keys as
  \<open>JSON.parse\<close> does. The hook's load effect (lines 111-122) reads the text back and
  dispatches whatever \<open>JSON.parse\<close> returns.
\<close>

definition json_null_or :: "int option \<Rightarrow> int json" where
  "json_null_or x = (case x of None \<Rightarrow> JNull | Some n \<Rightarrow> JNumber n)"

definition answers_json :: "answer_map \<Rightarrow> int json" where
  "answers_json m =
     JObject (map (\<lambda>k. (js_string_of_int k, JString (the (m k)))) (sorted_list_of_set (dom m)))"

definition state_json :: "quiz_state \<Rightarrow> int json" where
  "state_json s =
     JObject [(''currentQuestion'', JNumber (currentQuestion s)),
              (''answers'', answers_json (answers s)),
              (''isComplete'', JBool (isComplete s)),
              (''startTime'', JNumber (startTime s)),
              (''endTime'', json_null_or (endTime s)),
              (''isPaused'', JBool (isPaused s)),
              (''pausedAt'', json_null_or (pausedAt s)),
              (''totalPausedTime'', JNumber (totalPausedTime s))]"

definition save_text :: "quiz_state \<Rightarrow> string" where
  "save_text s = json_stringify (state_json s)"

fun json_bool :: "rat json \<Rightarrow> bool option" where
  "json_bool (JBool b) = Some b"
| "json_bool _ = None"

fun json_nullable :: "rat json \<Rightarrow> int option option" where
  "json_nullable JNull = Some None"
| "json_nullable j = map_option Some (json_int j)"

fun json_answers :: "rat json \<Rightarrow> answer_map option" where
  "json_answers (JObject kvs) =
     (if list_all (\<lambda>kv. json_string (snd kv) \<noteq> None) kvs
      then Some (\<lambda>i. obj_get (js_string_of_int i) kvs \<bind> json_string) else None)"
| "json_answers _ = None"

fun state_of_json :: "rat json \<Rightarrow> quiz_state option" where
  "state_of_json (JObject kvs) = do {
     cq \<leftarrow> obj_get ''currentQuestion'' kvs \<bind> json_int;
     ans \<leftarrow> obj_get ''answers'' kvs \<bind> json_answers;
     done \<leftarrow> obj_get ''isComplete'' kvs \<bind> json_bool;
     st \<leftarrow> obj_get ''startTime'' kvs \<bind> json_int;
     et \<leftarrow> obj_get ''endTime'' kvs \<bind> json_nullable;
     paused \<leftarrow> obj_get ''isPaused'' kvs \<bind> json_bool;
     pa \<leftarrow> obj_get ''pausedAt'' kvs \<bind> json_nullable;
     tp \<leftarrow> obj_get ''totalPausedTime'' kvs \<bind> json_int;
     Some \<lparr>currentQuestion = cq, answers = ans, isComplete = done, startTime = st,
           endTime = et, isPaused = paused, pausedAt = pa, totalPausedTime = tp\<rparr>
   }"
| "state_of_json _ = None"

subsection \<open>The readers of the stored text\<close>

text \<open>\<open>if (savedState)\<close>: an absent key and the empty string skip the load.\<close>

definition load_effect_text :: "string option \<Rightarrow> rat json option" where
  "load_effect_text saved =
     (case saved of None \<Rightarrow> None | Some txt \<Rightarrow> if txt = [] then None else json_parse txt)"

subsection \<open>Lemmas\<close>


lemma json_parse_save_text: "json_parse (save_text s) = Some (map_json of_int (state_json s))"
  by (simp add: save_text_def json_parse_stringify)

lemma save_text_ne: "save_text s \<noteq> []"
  by (simp add: save_text_def state_json_def)

lemma obj_get_distinct: "distinct (map fst kvs) \<Longrightarrow> obj_get k kvs = map_of kvs k"
  by (simp add: obj_get_def map_of_rev_distinct)

lemma js_string_of_int_not_undefined: "js_string_of_int i \<noteq> ''undefined''"
  using js_string_of_int_start [of i] by (auto simp: is_digit_def)

lemma answers_json_object:
  assumes "finite (dom m)"
  shows "\<exists>L. map_json of_int (answers_json m) = JObject L \<and>
             (\<forall>i. obj_get (js_string_of_int i) L = map_option JString (m i)) \<and>
             obj_get ''undefined'' L = None \<and>
             list_all (\<lambda>kv. json_string (snd kv) \<noteq> None) L"
proof -
  let ?ks = "sorted_list_of_set (dom m)"
  let ?L = "map (\<lambda>k. (js_string_of_int k, JString (the (m k)) :: rat json)) ?ks"
  have m: "map_json of_int (answers_json m) = JObject ?L"
    by (simp add: answers_json_def comp_def)
  have "inj_on js_string_of_int (set ?ks)"
    using js_string_of_int_inj by (rule inj_on_subset) simp
  then have d: "distinct (map fst ?L)"
    by (simp add: comp_def distinct_map)
  have ks: "set ?ks = dom m" using assms by simp
  have "obj_get (js_string_of_int i) ?L = map_option JString (m i)" for i
  proof -
    have "obj_get (js_string_of_int i) ?L = (if i \<in> dom m then Some (JString (the (m i))) else None)"
      unfolding obj_get_distinct [OF d] map_of_map_inj [OF js_string_of_int_inj] ks ..
    then show ?thesis by (auto simp: domIff)
  qed
  moreover have "obj_get ''undefined'' ?L = None"
  proof -
    have "''undefined'' \<notin> fst ` set ?L" using js_string_of_int_not_undefined by fastforce
    then show ?thesis by (simp add: obj_get_distinct [OF d] map_of_eq_None_iff)
  qed
  moreover have "list_all (\<lambda>kv. json_string (snd kv) \<noteq> None) ?L"
    by (simp add: list_all_iff)
  ultimately show ?thesis using m by blast
qed

lemma json_answers_roundtrip:
  assumes "finite (dom m)"
  shows "json_answers (map_json of_int (answers_json m)) = Some m"
proof -
  obtain L where "map_json of_int (answers_json m) = JObject L"
    "\<forall>i. obj_get (js_string_of_int i) L = map_option JString (m i)"
    "list_all (\<lambda>kv. json_string (snd kv) \<noteq> None) L"
    using answers_json_object [OF assms] by blast
  moreover have "map_option JString (m i) \<bind> json_string = m i" for i by (cases "m i") simp_all
  ultimately show ?thesis by simp
qed

lemma state_of_json_roundtrip:
  "finite (dom (answers s)) \<Longrightarrow> state_of_json (map_json of_int (state_json s)) = Some s"
  by (cases "endTime s"; cases "pausedAt s")
     (simp_all add: state_json_def obj_get_def json_answers_roundtrip json_null_or_def)

lemma reachable_finite_answers: "reachable t s \<Longrightarrow> finite (dom (answers s))"
proof (induction rule: reachable.induct)
  case (step t s a)
  have "dom (answers (quizReducer t s a)) \<subseteq>
          dom (answers s) \<union> (case a of ANSWER_QUESTION q _ \<Rightarrow> {q} | _ \<Rightarrow> {})"
    using step.hyps(2) by (cases a) (auto simp: Let_def initialState_def split: if_splits)
  moreover have "finite (dom (answers s) \<union> (case a of ANSWER_QUESTION q _ \<Rightarrow> {q} | _ \<Rightarrow> {}))"
    using step.IH by (cases a) simp_all
  ultimately show ?case by (rule finite_subset)
qed (simp_all add: initialState_def)

subsection \<open>Properties\<close>

text \<open>
  C28: what the save effect writes is what the load effect reads back: for every state
  the reducer can reach, \<open>JSON.parse\<close> of the stored text yields a value that reads as
  that same state.
\<close>

theorem saved_state_roundtrip:
  "reachable t s \<Longrightarrow> load_effect_text (Some (save_text s)) \<bind> state_of_json = Some s"
  by (simp add: load_effect_text_def save_text_ne json_parse_save_text state_of_json_roundtrip
                reachable_finite_answers)

theorem saved_state_roundtrip_witness:
  "load_effect_text (Some (save_text (quizReducer 7 (quizReducer 3 initialState START_QUIZ)
      (ANSWER_QUESTION 1 ''x = 3'')))) \<bind> state_of_json =
   Some (quizReducer 7 (quizReducer 3 initialState START_QUIZ) (ANSWER_QUESTION 1 ''x = 3''))"
proof -
  have "reachable 3 initialState" by (rule reachable.init) simp
  then have "reachable 3 (quizReducer 3 initialState START_QUIZ)" by (rule reachable.step) simp
  then have "reachable 7 (quizReducer 3 initialState START_QUIZ)" by (rule reachable.tick) simp
  then have "reachable 7 (quizReducer 7 (quizReducer 3 initialState START_QUIZ) (ANSWER_QUESTION 1 ''x = 3''))"
    by (rule reachable.step) simp
  then show ?thesis by (rule saved_state_roundtrip)
qed

end
