(* ===== verification/Completion.thy ===== *)
theory Completion
  imports App
begin

text \<open>
  Progress of a session through the UI of \<^verbatim>\<open>App.tsx\<close> and
  \<^verbatim>\<open>QuizQuestion.tsx\<close>: from every reachable App state the results screen can be
  reached by events the rendered screens enable. The lemmas describe one answer and one
  Next (\<open>handleAnswerChange\<close>, \<open>handleNext\<close> followed by the completion effect)
  on a question of the bank; the run is built by induction on the questions left.
\<close>

lemma bank_options_ne: "q \<in> set spmMathQuestions \<Longrightarrow> options q \<noteq> []"
  by (auto simp: spmMathQuestions_def)

lemma reachable_question:
  assumes "app_reachable env t a"
  shows "currentQuestionData spmMathQuestions (quiz a) =
           Some (spmMathQuestions ! nat (currentQuestion (quiz a))) \<and>
         0 \<le> currentQuestion (quiz a) \<and> currentQuestion (quiz a) \<le> 4"
proof -
  have "state_ok t (quiz a)"
    using app_reachable_inv [OF assms] reachable_imp_state_ok by blast
  then show ?thesis by (simp add: state_ok_def currentQuestionData_def)
qed

lemma completion_effect_stage:
  "stage (completion_effect a) = (if isComplete (quiz a) then Results else stage a)"
  by (simp add: completion_effect_def)

lemma currentQuestionData_answers [simp]:
  "currentQuestionData qs (s\<lparr>answers := m\<rparr>) = currentQuestionData qs s"
  by (simp add: currentQuestionData_def)

lemma answer_step:
  assumes "currentQuestionData spmMathQuestions (quiz a) = Some q"
  shows "quiz (app_step env now a (Answer v)) = quizReducer now (quiz a) (ANSWER_QUESTION (qid q) v) \<and>
         stage (app_step env now a (Answer v)) = (if isComplete (quiz a) then Results else stage a)"
  using assms by (simp add: app_step_def handleAnswerChange_def Let_def completion_effect_stage)

lemma next_step:
  assumes "\<not> isLastQuestion spmMathQuestions (quiz a)"
  shows "quiz (app_step env now a Next) = quizReducer now (quiz a) NEXT_QUESTION \<and>
         stage (app_step env now a Next) = (if isComplete (quiz a) then Results else stage a)"
  using assms by (simp add: app_step_def handleNext_def Let_def completion_effect_stage)

lemma next_last:
  "isLastQuestion spmMathQuestions (quiz a) \<Longrightarrow> stage (app_step env now a Next) = Results"
  by (simp add: app_step_def handleNext_def Let_def completion_effect_stage toast_def)

lemma finish_from_quiz:
  "app_reachable env t a \<Longrightarrow> stage a = Quiz \<Longrightarrow> nat (4 - currentQuestion (quiz a)) = n \<Longrightarrow>
   \<exists>evs. run_enabled env a evs \<and> timely t evs \<and> length evs \<le> 2 * n + 2 \<and>
         stage (app_run env a evs) = Results"
proof (induction n arbitrary: a rule: less_induct)
  case (less n a)
  let ?k = "currentQuestion (quiz a)"
  let ?q = "spmMathQuestions ! nat ?k"
  have q: "currentQuestionData spmMathQuestions (quiz a) = Some ?q" "0 \<le> ?k" "?k \<le> 4"
    using reachable_question [OF less.prems(1)] by simp_all
  have "?q \<in> set spmMathQuestions" using q(2,3) by (simp add: nth_mem)
  then obtain v where v: "v \<in> set (map option_value (options ?q))"
    using bank_options_ne by (cases "options ?q") auto
  let ?a1 = "app_step env t a (Answer v)"
  have en1: "ui_enabled a (Answer v)"
    using q(1) v less.prems(2) by (simp add: on_quiz_screen_def)
  have r1: "app_reachable env t ?a1" using less.prems(1) en1 by (rule app_reachable.event)
  have s1: "quiz ?a1 = quizReducer t (quiz a) (ANSWER_QUESTION (qid ?q) v)"
    "stage ?a1 = (if isComplete (quiz a) then Results else Quiz)"
    using answer_step [OF q(1), of env t v] less.prems(2) by simp_all
  show ?case
  proof (cases "isComplete (quiz a)")
    case True
    then show ?thesis using en1 s1 by (intro exI [of _ "[(t, Answer v)]"]) simp
  next
    case False
    have en2: "ui_enabled ?a1 Next"
      using s1 q(1) False by (simp add: on_quiz_screen_def canGoNext_def)
    let ?a2 = "app_step env t ?a1 Next"
    show ?thesis
    proof (cases "isLastQuestion spmMathQuestions (quiz ?a1)")
      case True
      then show ?thesis using en1 en2 next_last [OF True]
        by (intro exI [of _ "[(t, Answer v), (t, Next)]"]) simp
    next
      case notlast: False
      have s2: "quiz ?a2 = quizReducer t (quiz ?a1) NEXT_QUESTION"
        "stage ?a2 = (if isComplete (quiz ?a1) then Results else Quiz)"
        using next_step [OF notlast, of env t] s1 False by simp_all
      show ?thesis
      proof (cases "isComplete (quiz ?a1)")
        case True
        then show ?thesis using en1 en2 s2
          by (intro exI [of _ "[(t, Answer v), (t, Next)]"]) simp
      next
        case False
        have r2: "app_reachable env t ?a2" using r1 en2 by (rule app_reachable.event)
        have k2: "currentQuestion (quiz ?a2) = ?k + 1"
          using s2 s1 notlast q(3) by (simp add: isLastQuestion_def Let_def)
        have lt: "nat (4 - currentQuestion (quiz ?a2)) < n"
          using k2 notlast s1 q(2,3) less.prems(3) by (simp add: isLastQuestion_def)
        obtain evs where evs: "run_enabled env ?a2 evs" "timely t evs"
          "length evs \<le> 2 * nat (4 - currentQuestion (quiz ?a2)) + 2" "stage (app_run env ?a2 evs) = Results"
          using less.IH [OF lt r2] s2 False by auto
        show ?thesis
          using en1 en2 evs lt
          by (intro exI [of _ "(t, Answer v) # (t, Next) # evs"]) auto
      qed
    qed
  qed
qed

text \<open>
  C29: a session can always be finished. From every App state a session can reach
  (after any enabled events, reloads and pauses), some run of at most eleven enabled UI
  events, all at the current instant, ends on the results screen: Start if on the
  onboarding screen, then an answer and Next on each remaining question. The run exists
  whatever the answers given, and also while the quiz is paused, since the keyboard
  reaches the controls under the overlay.
\<close>

theorem results_always_reachable:
  assumes r: "app_reachable env t a"
  shows "\<exists>evs. run_enabled env a evs \<and> timely t evs \<and> length evs \<le> 11 \<and>
               stage (app_run env a evs) = Results"
proof (cases "stage a")
  case Results
  then show ?thesis by (intro exI [of _ "[]"]) simp
next
  case Quiz
  have "nat (4 - currentQuestion (quiz a)) \<le> 4" using reachable_question [OF r] by (simp add: nat_le_iff)
  with finish_from_quiz [OF r Quiz refl] show ?thesis by fastforce
next
  case Onboarding
  let ?a1 = "app_step env t a Start"
  have en: "ui_enabled a Start" using Onboarding by simp
  have r1: "app_reachable env t ?a1" using r en by (rule app_reachable.event)
  have st: "stage ?a1 = (if isComplete (quiz ?a1) then Results else Quiz)"
    by (simp add: app_step_def handleStart_def Let_def completion_effect_stage)
  show ?thesis
  proof (cases "isComplete (quiz ?a1)")
    case True
    then show ?thesis using en st by (intro exI [of _ "[(t, Start)]"]) simp
  next
    case False
    then have q: "stage ?a1 = Quiz" using st by simp
    have "nat (4 - currentQuestion (quiz ?a1)) \<le> 4" using reachable_question [OF r1] by (simp add: nat_le_iff)
    with finish_from_quiz [OF r1 q refl] obtain evs where
      "run_enabled env ?a1 evs" "timely t evs" "length evs \<le> 10" "stage (app_run env ?a1 evs) = Results"
      by fastforce
    then show ?thesis using en by (intro exI [of _ "(t, Start) # evs"]) simp
  qed
qed

theorem results_always_reachable_witness:
  "\<exists>evs. run_enabled \<lparr>userAgent = ''UA'', url = ''u''\<rparr> (app_mount 0 None (Events [])) evs \<and> timely 0 evs \<and>
         length evs \<le> 11 \<and> stage (app_run \<lparr>userAgent = ''UA'', url = ''u''\<rparr> (app_mount 0 None (Events [])) evs) = Results"
proof -
  have "app_reachable \<lparr>userAgent = ''UA'', url = ''u''\<rparr> 0 (app_mount 0 None (Events []))"
    by (rule app_reachable.first_mount) simp
  then show ?thesis by (rule results_always_reachable)
qed

end
