(* ===== verification/SessionSpec.thy ===== *)
theory SessionSpec
  imports App
begin

text \<open>
  The session machine of the specification (section 4.1: \<open>NotStarted\<close>,
  \<open>InProgress\<close> with its paused sub-flag, \<open>Complete\<close>, moved by start, pause, resume,
  complete and reset), and its relation to the App. \<open>session_of\<close> reads the abstract
  state off an App state: complete when the reducer says so, in progress on the quiz
  screen, not started otherwise. \<open>session_step\<close> is the specification's transition
  relation with stuttering (answer, advance and retreat leave the abstract state as it
  is; start keeps the paused flag, as the table says it clears no flags).
\<close>

datatype session = NotStarted | InProgress bool | Complete

definition session_of :: "app_state \<Rightarrow> session" where
  "session_of a =
     (if isComplete (quiz a) then Complete
      else if stage a = Quiz then InProgress (isPaused (quiz a)) else NotStarted)"

inductive session_step :: "session \<Rightarrow> session \<Rightarrow> bool" where
  stay: "session_step \<sigma> \<sigma>"
| start: "session_step NotStarted (InProgress p)"
| pause: "session_step (InProgress False) (InProgress True)"
| resume: "session_step (InProgress True) (InProgress False)"
| complete: "session_step (InProgress p) Complete"
| reset: "session_step Complete NotStarted"

definition results_iff_complete :: "app_state \<Rightarrow> bool" where
  "results_iff_complete a \<longleftrightarrow> (stage a = Results \<longleftrightarrow> isComplete (quiz a))"

lemma completion_effect_iff:
  "(isComplete (quiz a) \<longrightarrow> stage a = Results) \<or> stage a \<noteq> Results \<Longrightarrow>
   stage (completion_effect a) = (if isComplete (quiz a) then Results else stage a)"
  by (simp add: completion_effect_def)

lemma handler_results_iff:
  assumes "results_iff_complete a" "ui_enabled a ev"
  shows "results_iff_complete (app_step env now a ev)"
  using assms
proof (cases ev)
  case PauseToggle
  with assms show ?thesis
    by (cases "isPaused (quiz a)")
       (auto simp: results_iff_complete_def app_step_def completion_effect_def on_quiz_screen_def
          handleResume_def handlePause_def Let_def)
next
  case (Answer x)
  with assms show ?thesis
    by (auto simp: results_iff_complete_def app_step_def completion_effect_def on_quiz_screen_def
          handleAnswerChange_def Let_def split: option.splits)
qed (auto simp: results_iff_complete_def app_step_def completion_effect_def on_quiz_screen_def
       handleStart_def handleNext_def handlePrevious_def handleRestart_def resetQuiz_def handleBeforeUnload_def
       Let_def initialState_def)

lemma app_mount_results_iff: "results_iff_complete (app_mount now saved evs)"
  by (auto simp: results_iff_complete_def app_mount_def Let_def completion_effect_def
        mount_check_effect_def load_effect_def initialState_def toast_def
        split: option.splits payload.splits)

lemma reachable_results_iff: "app_reachable env t a \<Longrightarrow> results_iff_complete a"
proof (induction rule: app_reachable.induct)
  case (first_mount now env)
  then show ?case by (simp add: results_iff_complete_def initialState_def)
qed (simp_all add: app_mount_results_iff handler_results_iff)

lemma session_step_enabled:
  assumes "results_iff_complete a" "ui_enabled a ev"
  shows "session_step (session_of a) (session_of (app_step env now a ev))"
  using assms
proof (cases ev)
  case PauseToggle
  with assms show ?thesis
    by (cases "isPaused (quiz a)")
       (auto simp: results_iff_complete_def session_of_def app_step_def completion_effect_def
          on_quiz_screen_def handleResume_def handlePause_def Let_def intro: session_step.intros)
next
  case (Answer x)
  with assms show ?thesis
    by (auto simp: results_iff_complete_def session_of_def app_step_def completion_effect_def
          on_quiz_screen_def handleAnswerChange_def Let_def intro: session_step.intros
          split: option.splits)
qed (auto simp: results_iff_complete_def session_of_def app_step_def completion_effect_def
       on_quiz_screen_def handleStart_def handleNext_def handlePrevious_def handleRestart_def resetQuiz_def
       handleBeforeUnload_def Let_def initialState_def intro: session_step.intros)

text \<open>
  C30: the App implements the specification's session machine. In every App state a
  session can reach, the results screen is shown exactly when the session is
  \<open>Complete\<close>, and every event the rendered UI enables moves the abstract session along
  a transition of the specification or leaves it where it is: Start only from
  \<open>NotStarted\<close>, pause and resume only in progress, completion only from in progress
  (the last Next), reset only from \<open>Complete\<close> (Restart on the results screen).
\<close>

theorem app_refines_session_machine:
  assumes "app_reachable env t a"
  shows "(stage a = Results \<longleftrightarrow> session_of a = Complete) \<and>
         (ui_enabled a ev \<longrightarrow> session_step (session_of a) (session_of (app_step env t a ev)))"
proof -
  have i: "results_iff_complete a" using assms by (rule reachable_results_iff)
  then have "stage a = Results \<longleftrightarrow> session_of a = Complete"
    by (auto simp: results_iff_complete_def session_of_def)
  with i show ?thesis by (blast intro: session_step_enabled)
qed

theorem app_refines_session_machine_witness:
  "(stage (app_mount 0 None (Events [])) = Results \<longleftrightarrow> session_of (app_mount 0 None (Events [])) = Complete) \<and>
   session_step (session_of (app_mount 0 None (Events [])))
     (session_of (app_step \<lparr>userAgent = ''UA'', url = ''u''\<rparr> 0 (app_mount 0 None (Events [])) Start))"
proof -
  have r: "app_reachable \<lparr>userAgent = ''UA'', url = ''u''\<rparr> 0 (app_mount 0 None (Events []))"
    by (rule app_reachable.first_mount) simp
  have "ui_enabled (app_mount 0 None (Events [])) Start" by simp
  with app_refines_session_machine [OF r, of Start] show ?thesis by blast
qed

end
