(* ===== verification/Views.thy ===== *)
theory Views
  imports App
begin

text \<open>
  What the screens render, as data: the text, flags and values the JSX of
  \<^verbatim>\<open>QuizResults.tsx\<close>, \<^verbatim>\<open>QuizProgress.tsx\<close>, \<^verbatim>\<open>QuizOnboarding.tsx\<close> and
  \<^verbatim>\<open>QuizQuestion.tsx\<close> computes from its props (class names of pure styling and the
  icons left out). Numbers are interpolated with \<open>String\<close>: \<open>round_text\<close> is the text
  of \<open>Math.round\<close> of a JS number, \<open>NaN\<close> and \<open>Infinity\<close> included.
\<close>

fun round_text :: "jsnum \<Rightarrow> string" where
  "round_text (JNum x) = js_string_of_int (js_round x)"
| "round_text JNaN = ''NaN''"
| "round_text (JInf s) = (if s then ''Infinity'' else ''-Infinity'')"

subsection \<open>Results screen\<close>

record topic_row =
  row_topic :: string
  row_counts :: string
  row_bar :: jsnum

definition topicRow :: "string \<times> counts \<Rightarrow> topic_row" where
  "topicRow ts =
     (case ts of (t, st) \<Rightarrow>
        \<lparr>row_topic = t, row_counts = string_of_nat (correct st) @ ''/'' @ string_of_nat (total st),
         row_bar = js_scale (js_divide (of_nat (correct st)) (of_nat (total st))) 100\<rparr>)"

record results_view =
  rv_message :: performance_message
  rv_score :: string
  rv_percent :: string
  rv_bar :: jsnum
  rv_total_time :: string
  rv_avg :: string
  rv_topics :: "topic_row list"
  rv_review :: "review_item list"
  rv_separator :: "bool list"
  rv_recommendations :: "string list"

definition resultsView :: "quiz_state \<Rightarrow> quiz_question list \<Rightarrow> results_view" where
  "resultsView s qs =
     (let score = calculateScore s qs; totalTime = calculateTotalTime s;
          topicPerformance = getTopicPerformance s qs
      in \<lparr>rv_message = getPerformanceMessage score,
          rv_score = string_of_nat (correct score) @ ''/'' @ string_of_nat (total score),
          rv_percent = round_text (percentage score) @ ''% Correct'',
          rv_bar = percentage score,
          rv_total_time = formatTime totalTime,
          rv_avg = round_text (js_divide (of_int totalTime) (of_nat (length qs))) @ ''s'',
          rv_topics = map topicRow topicPerformance,
          rv_review = questionReview s qs,
          rv_separator = map (\<lambda>index. int index < int (length qs) - 1) [0..<length qs],
          rv_recommendations = getRecommendations topicPerformance\<rparr>)"

subsection \<open>Progress header\<close>

record progress_view =
  pv_badge :: string
  pv_percent :: string
  pv_dots :: "(rat \<times> string) list"
  pv_bar :: jsnum
  pv_message :: string

definition progressView :: "int \<Rightarrow> nat \<Rightarrow> jsnum \<Rightarrow> progress_view" where
  "progressView current count p =
     \<lparr>pv_badge = ''Question '' @ js_string_of_int (current + 1) @ '' of '' @ string_of_nat count,
      pv_percent = round_text p @ ''% Complete'',
      pv_dots = map (\<lambda>m. (m, getMilestoneColor p m)) milestones,
      pv_bar = p,
      pv_message = getMotivationalMessage p\<rparr>"

subsection \<open>Onboarding screen\<close>

record onboarding_view =
  ov_duration :: string
  ov_count :: string
  ov_difficulty :: string
  ov_topics :: "string list"

definition onboardingView :: "quiz_metadata \<Rightarrow> onboarding_view" where
  "onboardingView md =
     \<lparr>ov_duration = estimatedTime md,
      ov_count = js_string_of_int (totalQuestions md) @ '' Questions'',
      ov_difficulty = meta_difficulty md,
      ov_topics = topics md\<rparr>"

subsection \<open>Question screen\<close>

text \<open>The component's own state: the seconds counter, advanced by the interval while not
  paused, and the toggle of the question details.\<close>

record question_local =
  timeSpent :: nat
  showHeader :: bool

definition question_local_init :: question_local where
  "question_local_init = \<lparr>timeSpent = 0, showHeader = True\<rparr>"

definition question_tick :: "bool \<Rightarrow> question_local \<Rightarrow> question_local" where
  "question_tick paused l = (if paused then l else l\<lparr>timeSpent := timeSpent l + 1\<rparr>)"

definition toggle_header :: "question_local \<Rightarrow> question_local" where
  "toggle_header l = l\<lparr>showHeader := \<not> showHeader l\<rparr>"

fun difficulty_name :: "difficulty \<Rightarrow> string" where
  "difficulty_name Easy = ''easy''"
| "difficulty_name Medium = ''medium''"
| "difficulty_name Hard = ''hard''"

definition js_upper :: "char \<Rightarrow> char" where
  "js_upper c = (if 97 \<le> (of_char c :: nat) \<and> (of_char c :: nat) \<le> 122 then char_of (of_char c - (32::nat)) else c)"

fun capitalize :: "string \<Rightarrow> string" where
  "capitalize [] = []"
| "capitalize (c # cs) = js_upper c # cs"

fun getDifficultyColor :: "difficulty \<Rightarrow> string" where
  "getDifficultyColor Easy = ''bg-green-100 text-green-800''"
| "getDifficultyColor Medium = ''bg-yellow-100 text-yellow-800''"
| "getDifficultyColor Hard = ''bg-red-100 text-red-800''"

definition pad2 :: "string \<Rightarrow> string" where
  "pad2 s = replicate (2 - length s) (CHR ''0'') @ s"

definition question_formatTime :: "nat \<Rightarrow> string" where
  "question_formatTime seconds =
     string_of_nat (seconds div 60) @ '':'' @ pad2 (string_of_nat (seconds mod 60))"

record question_view =
  qv_overlay :: bool
  qv_badge :: string
  qv_badge_color :: string
  qv_clock :: string
  qv_toggle_resumes :: bool
  qv_details :: "(string \<times> string) option"
  qv_options :: "(string \<times> string option \<times> bool) list"
  qv_prev_disabled :: bool
  qv_position :: string
  qv_next_label :: string
  qv_next_disabled :: bool

definition questionView ::
  "quiz_question \<Rightarrow> token option \<Rightarrow> bool \<Rightarrow> bool \<Rightarrow> bool \<Rightarrow> int \<Rightarrow> nat \<Rightarrow> question_local \<Rightarrow>
   question_view" where
  "questionView q selectedAnswer paused nextEnabled onLast currentQuestionIndex count l =
     \<lparr>qv_overlay = paused,
      qv_badge = capitalize (difficulty_name (difficulty q)),
      qv_badge_color = getDifficultyColor (difficulty q),
      qv_clock = question_formatTime (timeSpent l),
      qv_toggle_resumes = paused,
      qv_details = (if showHeader l then Some (topic q, question q) else None),
      qv_options = map (\<lambda>opt. (label opt, formula opt, selectedAnswer = Some (option_value opt)))
                     (options q),
      qv_prev_disabled = (currentQuestionIndex = 0),
      qv_position = js_string_of_int (currentQuestionIndex + 1) @ '' of '' @ string_of_nat count,
      qv_next_label = (if onLast then ''Finish'' else ''Next''),
      qv_next_disabled = (\<not> nextEnabled)\<rparr>"

text \<open>The screen App renders for its state (\<^verbatim>\<open>App.tsx\<close> 172-214).\<close>

datatype screen =
    OnboardingScreen onboarding_view
  | QuizScreen progress_view question_view
  | ResultsScreen results_view
  | Blank

definition render :: "app_state \<Rightarrow> question_local \<Rightarrow> screen" where
  "render a l =
     (case stage a of
        Onboarding \<Rightarrow> OnboardingScreen (onboardingView quizMetadata)
      | Quiz \<Rightarrow>
          (case currentQuestionData spmMathQuestions (quiz a) of
             None \<Rightarrow> Blank
           | Some q \<Rightarrow>
               QuizScreen
                 (progressView (currentQuestion (quiz a)) (length spmMathQuestions)
                    (progress spmMathQuestions (quiz a)))
                 (questionView q (answers (quiz a) (qid q)) (isPaused (quiz a))
                    (canGoNext spmMathQuestions (quiz a)) (isLastQuestion spmMathQuestions (quiz a))
                    (currentQuestion (quiz a)) (length spmMathQuestions) l))
      | Results \<Rightarrow> ResultsScreen (resultsView (quiz a) spmMathQuestions))"

subsection \<open>Lemmas\<close>

lemma js_round_bounds:
  "0 \<le> x \<Longrightarrow> x \<le> of_int m \<Longrightarrow> 0 \<le> js_round x \<and> js_round x \<le> m"
  unfolding js_round_def by (auto intro: floor_mono [where x = 0, simplified] simp: floor_le_iff)

lemma ratio_percent_bounds:
  "c \<le> n \<Longrightarrow> 0 < n \<Longrightarrow>
   js_scale (js_divide (of_nat c) (of_nat n)) 100 = JNum (of_nat c / of_nat n * 100) \<and>
   0 \<le> (of_nat c / of_nat n * 100 :: rat) \<and> (of_nat c / of_nat n * 100 :: rat) \<le> 100"
  by (simp add: divide_le_eq)

lemma separators:
  "0 < n \<Longrightarrow> map (\<lambda>i. int i < int n - 1) [0..<n] = replicate (n - 1) True @ [False]"
  by (rule nth_equalityI) (auto simp: nth_append)

lemma topic_rows_bounded:
  "r \<in> set (map topicRow (getTopicPerformance s qs)) \<Longrightarrow>
   \<exists>x. row_bar r = JNum x \<and> 0 \<le> x \<and> x \<le> 100"
proof -
  assume "r \<in> set (map topicRow (getTopicPerformance s qs))"
  then obtain t where t: "t \<in> set (first_occurrences (map topic qs))"
    and r: "r = topicRow (t, topic_counts (answers s) qs t)"
    by (auto simp: getTopicPerformance_spec topic_table_def)
  let ?st = "topic_counts (answers s) qs t"
  have "0 < total ?st" using t by (rule topic_table_total_pos)
  moreover have "correct ?st \<le> total ?st"
    by (induction qs) (auto simp: topic_counts_def)
  ultimately show ?thesis
    using ratio_percent_bounds [of "correct ?st" "total ?st"] r by (simp add: topicRow_def)
qed

text \<open>The rendered quiz screen agrees with the guards of the App model: Next and
  Previous are disabled exactly when \<open>ui_enabled\<close> refuses them, and the overlay shows
  exactly when the quiz is paused.\<close>

lemma render_guards:
  "render a l = QuizScreen pv qv \<Longrightarrow>
   qv_next_disabled qv = (\<not> ui_enabled a Next) \<and>
   qv_prev_disabled qv = (\<not> ui_enabled a Previous) \<and>
   qv_overlay qv = isPaused (quiz a)"
  by (auto simp: render_def questionView_def on_quiz_screen_def
           split: quiz_stage.splits option.splits)

text \<open>The onboarding screen announces the bank: five questions and its topics, each once,
  in the order of the questions (so the badge keys are distinct).\<close>

lemma onboarding_matches_bank:
  "ov_count (onboardingView quizMetadata) = js_string_of_int (int (length spmMathQuestions)) @ '' Questions'' \<and>
   ov_topics (onboardingView quizMetadata) = first_occurrences (map topic spmMathQuestions) \<and>
   distinct (ov_topics (onboardingView quizMetadata))"
  by (simp add: onboardingView_def quizMetadata_def first_occurrences_def)

lemma js_round_int [simp]: "js_round (of_int n) = n"
  unfolding js_round_def by (simp add: floor_eq_iff)

text \<open>
  C17: on the quiz screen at position \<open>k\<close> in \<open>[0, 4]\<close> the header shows
  "Question k+1 of 5", the progress \<open>20(k+1)\<close> as "...% Complete", the start message and
  then the 25, 50, 75 and 100 messages (the first question shows "Let's begin" although no
  milestone is reached, the last already shows "Quiz completed!" before it is answered),
  and the milestone dots at or below the progress blue, only the 100 dot, on the last
  question, with the "just reached" animation.
\<close>

theorem progress_header_by_position:
  assumes "stage a = Quiz" "0 \<le> currentQuestion (quiz a)" "currentQuestion (quiz a) \<le> 4"
  shows "\<exists>qv. render a l = QuizScreen
     \<lparr>pv_badge = ''Question '' @ js_string_of_int (currentQuestion (quiz a) + 1) @ '' of 5'',
      pv_percent = js_string_of_int (20 * (currentQuestion (quiz a) + 1)) @ ''% Complete'',
      pv_dots = map (\<lambda>m. (m, if m \<le> of_int (currentQuestion (quiz a) + 1) * 20
                              then (if m = 100 then ''bg-blue-500 animate-pulse scale-110''
                                    else ''bg-blue-500'')
                              else ''bg-gray-200'')) milestones,
      pv_bar = JNum (of_int (20 * (currentQuestion (quiz a) + 1))),
      pv_message = motivationalMessages ([MStart, M25, M50, M75, M100] ! nat (currentQuestion (quiz a)))\<rparr>
     qv"
proof -
  let ?s = "quiz a" and ?k = "currentQuestion (quiz a)"
  have p: "progress spmMathQuestions ?s = JNum (of_int (20 * (?k + 1)))"
    using progress_bank [OF assms(2)] by (simp add: ac_simps)
  have q: "currentQuestionData spmMathQuestions ?s = Some (spmMathQuestions ! nat ?k)"
    using assms(2,3) by (simp add: currentQuestionData_def js_index_def)
  have dots: "map (\<lambda>m. (m, getMilestoneColor (progress spmMathQuestions ?s) m)) milestones =
      map (\<lambda>m. (m, if m \<le> of_int (?k + 1) * 20
                     then (if m = 100 then ''bg-blue-500 animate-pulse scale-110'' else ''bg-blue-500'')
                     else ''bg-gray-200'')) milestones"
    using milestone_pulse_only_at_end [OF assms(2,3)] by simp
  have five: "string_of_nat (length spmMathQuestions) = ''5''"
    by (simp add: char_eval)
  have pct: "round_text (progress spmMathQuestions ?s) = js_string_of_int (20 * (?k + 1))"
    by (simp only: p round_text.simps js_round_int)
  have msg: "getMotivationalMessage (progress spmMathQuestions ?s) =
      motivationalMessages ([MStart, M25, M50, M75, M100] ! nat ?k)"
    by (rule motivational_message_by_position [OF assms(2,3)])
  show ?thesis
    apply (rule exI)
    apply (simp only: render_def assms(1) quiz_stage.case q option.case progressView_def dots
        five pct msg)
    apply (simp add: p)
    done
qed

theorem progress_header_by_position_witness:
  "\<exists>qv. render ((app_mount 0 None (Events []))\<lparr>stage := Quiz\<rparr>) question_local_init = QuizScreen
     \<lparr>pv_badge = ''Question 1 of 5'', pv_percent = ''20% Complete'',
      pv_dots = [(25, ''bg-gray-200''), (50, ''bg-gray-200''), (75, ''bg-gray-200''),
                 (100, ''bg-gray-200'')],
      pv_bar = JNum 20, pv_message = motivationalMessages MStart\<rparr> qv"
proof -
  let ?a = "(app_mount 0 None (Events []))\<lparr>stage := Quiz\<rparr>"
  have "stage ?a = Quiz" "0 \<le> currentQuestion (quiz ?a)" "currentQuestion (quiz ?a) \<le> 4"
    by (simp_all add: initialState_def)
  note h = progress_header_by_position [OF this, of question_local_init]
  have "js_string_of_int (currentQuestion (quiz ?a) + 1) = ''1''"
    "js_string_of_int (20 * (currentQuestion (quiz ?a) + 1)) = ''20''"
    by (simp_all add: initialState_def js_string_of_int_def char_eval)
  with h show ?thesis by (simp add: initialState_def milestones_def)
qed

text \<open>
  C31: what the results screen shows for a non-empty question list is well formed: the
  percentage is a whole number from 0 to 100 (\<open>Math.round\<close> of the score), every
  topic bar has a value from 0 to 100, the average is \<open>Math.round\<close> of the rounded
  total seconds over the number of questions, and a separator follows every reviewed
  question but the last.
\<close>

theorem results_view_bounds:
  assumes "qs \<noteq> []"
  shows "(\<exists>k. 0 \<le> k \<and> k \<le> 100 \<and> rv_percent (resultsView s qs) = js_string_of_int k @ ''% Correct'') \<and>
         (\<forall>r\<in>set (rv_topics (resultsView s qs)). \<exists>x. row_bar r = JNum x \<and> 0 \<le> x \<and> x \<le> 100) \<and>
         rv_avg (resultsView s qs) =
           js_string_of_int (js_round (of_int (calculateTotalTime s) / of_nat (length qs))) @ ''s'' \<and>
         rv_separator (resultsView s qs) = replicate (length qs - 1) True @ [False]"
proof -
  let ?c = "length (filter (is_correct (answers s)) qs)"
  define x where "x = (of_nat ?c / of_nat (length qs) * 100 :: rat)"
  have n: "0 < length qs" using assms by simp
  have "?c \<le> length qs" by (rule length_filter_le)
  from ratio_percent_bounds [OF this n] have p:
    "percentage (calculateScore s qs) = JNum x" "0 \<le> x" "x \<le> 100"
    by (simp_all add: calculateScore_percentage x_def)
  have "rv_percent (resultsView s qs) = js_string_of_int (js_round x) @ ''% Correct''"
    using p(1) by (simp add: resultsView_def Let_def)
  moreover have "0 \<le> js_round x \<and> js_round x \<le> 100" using js_round_bounds [OF p(2), of 100] p(3) by simp
  moreover have "\<forall>r\<in>set (rv_topics (resultsView s qs)). \<exists>x. row_bar r = JNum x \<and> 0 \<le> x \<and> x \<le> 100"
    by (simp add: resultsView_def Let_def topic_rows_bounded)
  ultimately show ?thesis using n by (auto simp: resultsView_def Let_def separators)
qed

theorem results_view_bounds_witness:
  "rv_avg (resultsView initialState spmMathQuestions) =
     js_string_of_int (js_round (of_int (calculateTotalTime initialState) / 5)) @ ''s'' \<and>
   rv_separator (resultsView initialState spmMathQuestions) = [True, True, True, True, False]"
proof -
  have "spmMathQuestions \<noteq> []" by (simp add: spmMathQuestions_def)
  from results_view_bounds [OF this, of initialState] show ?thesis by (simp add: numeral_eq_Suc)
qed

end
