(* ===== verification/AnalyticsLog.thy ===== *)
theory AnalyticsLog
  imports JsonValue Analytics "HOL-Library.Monad_Syntax"
begin

text \<open>
  The text under the \<open>localStorage\<close> key \<open>quizAnalytics\<close>, as \<open>trackEvent\<close> of
  \<^verbatim>\<open>useAnalytics.ts\<close> reads and writes it (lines 29-31):
  \<open>JSON.parse(localStorage.getItem('quizAnalytics') || '[]')\<close>, \<open>events.push\<close> of the
  new event, \<open>JSON.stringify(events)\<close>. \<open>trackEvent_text\<close> returns the text written,
  or the error thrown: a \<open>SyntaxError\<close> when the text does not parse, a
  \<open>TypeError\<close> when it parses to something other than an array (\<open>push\<close> is then not
  a function, or \<open>null\<close> has no properties). Nothing catches either.

  \<open>event_json\<close> is the \<open>AnalyticsEvent\<close> object (\<open>event\<close>, \<open>properties\<close>,
  \<open>timestamp\<close>); \<open>log_of_text\<close> abstracts a stored text to the
  \<open>analytics_store\<close> of \<open>App\<close>: the events it holds, or \<open>Unreadable\<close>. It is
  partial: an array holding values that are not events the program writes (other
  shapes, integers of \<open>10^21\<close> or more, which JS prints in exponent form) is not a
  log of the model. The lemmas show that on every text it abstracts, the text-level
  function does what \<open>trackEvent\<close> and \<open>App.track\<close> do on the abstraction.
\<close>

primrec prop_json :: "prop_value \<Rightarrow> int json" where
  "prop_json (PStr s) = JString s"
| "prop_json (PNum n) = JNumber n"

definition event_json :: "analytics_event \<Rightarrow> int json" where
  "event_json e =
     JObject [(''event'', JString (event e)),
              (''properties'', JObject (map (\<lambda>kv. (fst kv, prop_json (snd kv))) (properties e))),
              (''timestamp'', JNumber (timestamp e))]"

definition stored_log_text :: "string option \<Rightarrow> string" where
  "stored_log_text stored = (case stored of None \<Rightarrow> ''[]'' | Some t \<Rightarrow> if t = [] then ''[]'' else t)"

definition trackEvent_text ::
  "browser_env \<Rightarrow> timestamp \<Rightarrow> string \<Rightarrow> (string \<times> prop_value) list \<Rightarrow> string option \<Rightarrow>
   js_error + string" where
  "trackEvent_text env now ev props stored =
     (case json_parse (stored_log_text stored) of
        None \<Rightarrow> Inl SyntaxError
      | Some (JArray events) \<Rightarrow>
          Inr (json_reprint (JArray (events @ [map_json of_int (event_json (make_event env now ev props))])))
      | Some _ \<Rightarrow> Inl TypeError)"

text \<open>The text of a log the program wrote.\<close>

definition log_text :: "event_log \<Rightarrow> string" where
  "log_text es = json_stringify (JArray (map event_json es))"

subsection \<open>Reading the stored text back\<close>

fun prop_of_json :: "rat json \<Rightarrow> prop_value option" where
  "prop_of_json (JString s) = Some (PStr s)"
| "prop_of_json v = map_option PNum (json_int v)"

fun json_props :: "rat json \<Rightarrow> (string \<times> prop_value) list option" where
  "json_props (JObject kvs) =
     (if distinct (map fst kvs) \<and> \<not> list_ex is_array_index (map fst kvs)
      then those (map (\<lambda>kv. map_option (Pair (fst kv)) (prop_of_json (snd kv))) kvs)
      else None)"
| "json_props _ = None"

fun event_of_json :: "rat json \<Rightarrow> analytics_event option" where
  "event_of_json (JObject kvs) =
     (if map fst kvs = [''event'', ''properties'', ''timestamp'']
      then do {
        ev \<leftarrow> obj_get ''event'' kvs \<bind> json_string;
        ps \<leftarrow> obj_get ''properties'' kvs \<bind> json_props;
        ts \<leftarrow> obj_get ''timestamp'' kvs \<bind> json_int;
        Some \<lparr>event = ev, properties = ps, timestamp = ts\<rparr>
      }
      else None)"
| "event_of_json _ = None"

definition small_numbers :: "rat json \<Rightarrow> bool" where
  "small_numbers v = json_all (\<lambda>q. \<bar>q\<bar> < 10 ^ 21) v"

definition log_of_text :: "string option \<Rightarrow> analytics_store option" where
  "log_of_text stored =
     (case json_parse (stored_log_text stored) of
        None \<Rightarrow> Some Unreadable
      | Some (JArray vs) \<Rightarrow>
          if list_all small_numbers vs then map_option Events (those (map event_of_json vs)) else None
      | Some _ \<Rightarrow> Some Unreadable)"

text \<open>An event the program can append and read back: its property keys are distinct
  and not array indices, its numbers below \<open>10^21\<close>.\<close>

definition event_ok :: "analytics_event \<Rightarrow> bool" where
  "event_ok e \<longleftrightarrow>
     distinct (map fst (properties e)) \<and> \<not> list_ex is_array_index (map fst (properties e)) \<and>
     json_all (\<lambda>n. \<bar>n\<bar> < 10 ^ 21) (event_json e)"

subsection \<open>Decoding inverts encoding\<close>

lemma those_map_Some:
  "those (map g xs) = Some ys \<longleftrightarrow> (\<forall>x\<in>set xs. g x \<noteq> None) \<and> ys = map (the \<circ> g) xs"
  by (induction xs arbitrary: ys) (auto split: option.splits)

lemma prop_of_json_Some: "prop_of_json v = Some p \<Longrightarrow> v = map_json of_int (prop_json p)"
  by (cases v) (auto split: if_splits)

lemma prop_of_json_prop [simp]: "prop_of_json (map_json of_int (prop_json p)) = Some p"
  by (cases p) simp_all

lemma plain_json_map [simp]: "plain_json (map_json f v) = plain_json v"
proof (induction v)
  case (JObject kvs)
  have "\<And>kv. kv \<in> set kvs \<Longrightarrow> plain_json (map_json f (snd kv)) = plain_json (snd kv)"
    by (metis JObject.IH prod.collapse snds.intros)
  then show ?case by (simp add: list_all_iff comp_def)
qed (simp_all add: list_all_iff)

lemma json_props_encode:
  assumes "distinct (map fst ps)" "\<not> list_ex is_array_index (map fst ps)"
  shows "json_props (JObject (map (\<lambda>kv. (fst kv, map_json of_int (prop_json (snd kv)))) ps)) = Some ps"
proof -
  have "those (map (\<lambda>kv. map_option (Pair (fst kv)) (prop_of_json (snd kv)))
          (map (\<lambda>kv. (fst kv, map_json of_int (prop_json (snd kv)))) ps)) = Some ps"
    by (induction ps) auto
  with assms show ?thesis by (simp add: comp_def)
qed

lemma json_props_decode:
  assumes "json_props v = Some ps"
  shows "v = JObject (map (\<lambda>kv. (fst kv, map_json of_int (prop_json (snd kv)))) ps) \<and>
         distinct (map fst ps) \<and> \<not> list_ex is_array_index (map fst ps)"
proof (cases v)
  case (JObject kvs)
  with assms have d: "distinct (map fst kvs)" "\<not> list_ex is_array_index (map fst kvs)"
    and t: "those (map (\<lambda>kv. map_option (Pair (fst kv)) (prop_of_json (snd kv))) kvs) = Some ps"
    by (simp_all split: if_splits)
  from t have ps: "ps = map (\<lambda>kv. (fst kv, the (prop_of_json (snd kv)))) kvs"
    and nn: "\<forall>kv\<in>set kvs. prop_of_json (snd kv) \<noteq> None"
    by (auto simp: those_map_Some comp_def)
  have "\<And>kv. kv \<in> set kvs \<Longrightarrow> (fst kv, map_json of_int (prop_json (the (prop_of_json (snd kv))))) = kv"
    using nn prop_of_json_Some by fastforce
  then have "map (\<lambda>kv. (fst kv, map_json of_int (prop_json (snd kv)))) ps = kvs"
    unfolding ps by (simp add: comp_def map_idI)
  moreover have "map fst ps = map fst kvs" unfolding ps by simp
  ultimately show ?thesis using JObject d by simp
qed (use assms in simp_all)

lemma map_fst_three:
  "map fst kvs = [x, y, z] \<longleftrightarrow> (\<exists>a b c. kvs = [(x, a), (y, b), (z, c)])"
  by (auto simp: map_eq_Cons_conv)

lemma event_of_json_encode:
  "distinct (map fst (properties e)) \<Longrightarrow> \<not> list_ex is_array_index (map fst (properties e)) \<Longrightarrow>
   event_of_json (map_json of_int (event_json e)) = Some e"
  using json_props_encode [of "properties e"]
  by (simp add: event_json_def obj_get_def comp_def)

lemma event_of_json_decode:
  assumes "event_of_json v = Some e"
  shows "v = map_json of_int (event_json e) \<and>
         distinct (map fst (properties e)) \<and> \<not> list_ex is_array_index (map fst (properties e))"
proof (cases v)
  case (JObject kvs)
  with assms obtain a b c where kvs: "kvs = [(''event'', a), (''properties'', b), (''timestamp'', c)]"
    by (auto simp: map_fst_three split: if_splits)
  from assms JObject kvs obtain ev ps ts where
    a: "json_string a = Some ev" and b: "json_props b = Some ps" and c: "json_int c = Some ts" and
    e: "e = \<lparr>event = ev, properties = ps, timestamp = ts\<rparr>"
    by (auto simp: obj_get_def split: Option.bind_splits)
  from a have "a = JString ev" by (cases a) simp_all
  moreover from c have "c = JNumber (of_int ts)" by (cases c) (auto split: if_splits)
  moreover note json_props_decode [OF b]
  ultimately show ?thesis using JObject kvs e by (simp add: event_json_def comp_def)
qed (use assms in simp_all)

subsection \<open>Printing a log again\<close>

lemma event_json_plain:
  "distinct (map fst (properties e)) \<Longrightarrow> \<not> list_ex is_array_index (map fst (properties e)) \<Longrightarrow>
   plain_json (event_json e)"
proof -
  have p: "plain_json (prop_json p)" for p by (cases p) simp_all
  assume "distinct (map fst (properties e))" "\<not> list_ex is_array_index (map fst (properties e))"
  then show ?thesis by (simp add: event_json_def comp_def list_all_iff p is_array_index_def is_digit_def)
qed

lemma event_ok_plain: "event_ok e \<Longrightarrow> plain_json (event_json e)"
  by (simp add: event_ok_def event_json_plain)

lemma reprint_events:
  assumes "\<forall>e\<in>set es. event_ok e"
  shows "json_reprint (JArray (map (map_json of_int \<circ> event_json) es)) = log_text es"
proof -
  have "plain_json (JArray (map (map_json of_int \<circ> event_json) es))"
    using assms event_ok_plain by (simp add: list_all_iff)
  then have jv: "js_value (JArray (map (map_json of_int \<circ> event_json) es)) =
             JArray (map (map_json of_int \<circ> event_json) es)"
    by (rule js_value_plain)
  have "json_reprint (JArray (map (map_json of_int \<circ> event_json) es)) =
             json_print js_number_text (map_json of_int (JArray (map event_json es)))"
    by (simp only: json_reprint_def jv) simp
  also have "\<dots> = json_print (js_number_text \<circ> of_int) (JArray (map event_json es))"
    by (rule json_print_map)
  also have "\<dots> = json_stringify (JArray (map event_json es))"
  proof (rule json_print_cong)
    fix n assume "n \<in> set_json (JArray (map event_json es))"
    then obtain e where "e \<in> set es" "n \<in> set_json (event_json e)" by auto
    with assms have "\<bar>n\<bar> < 10 ^ 21" by (auto simp: event_ok_def json_all_iff)
    then show "(js_number_text \<circ> of_int) n = js_string_of_int n" by (simp add: js_number_text_int)
  qed
  finally show ?thesis by (simp add: log_text_def)
qed

lemma small_numbers_event: "small_numbers (map_json of_int (event_json e)) \<longleftrightarrow>
    json_all (\<lambda>n. \<bar>n\<bar> < 10 ^ 21) (event_json e)"
proof -
  have "(\<bar>rat_of_int n\<bar> < 10 ^ 21) = (\<bar>n\<bar> < 10 ^ 21)" for n
    by (metis of_int_abs of_int_less_iff of_int_numeral of_int_power)
  then show ?thesis by (simp add: small_numbers_def json_all_iff json.set_map)
qed

lemma decode_event_ok:
  "event_of_json v = Some e \<Longrightarrow> small_numbers v \<Longrightarrow>
   v = map_json of_int (event_json e) \<and> event_ok e"
  using event_of_json_decode [of v e] small_numbers_event [of e] by (auto simp: event_ok_def)

lemma log_of_text_Events:
  assumes "log_of_text stored = Some (Events es)"
  shows "json_parse (stored_log_text stored) = Some (JArray (map (map_json of_int \<circ> event_json) es)) \<and>
         (\<forall>e\<in>set es. event_ok e)"
proof -
  obtain vs where p: "json_parse (stored_log_text stored) = Some (JArray vs)"
    and sm: "list_all small_numbers vs" and t: "those (map event_of_json vs) = Some es"
    using assms by (auto simp: log_of_text_def split: option.splits json.splits if_splits)
  from t have es: "es = map (the \<circ> event_of_json) vs" and nn: "\<forall>v\<in>set vs. event_of_json v \<noteq> None"
    by (simp_all add: those_map_Some)
  have "\<And>v. v \<in> set vs \<Longrightarrow> v = map_json of_int (event_json (the (event_of_json v))) \<and>
              event_ok (the (event_of_json v))"
    using nn sm decode_event_ok by (fastforce simp: list_all_iff)
  then have "vs = map (map_json of_int \<circ> event_json) es \<and> (\<forall>e\<in>set es. event_ok e)"
    unfolding es by (auto intro: nth_equalityI)
  with p show ?thesis by simp
qed

lemma log_text_ne: "stored_log_text (Some (log_text es)) = log_text es"
  by (simp add: stored_log_text_def log_text_def)

lemma log_text_roundtrip:
  assumes "\<forall>e\<in>set es. event_ok e"
  shows "log_of_text (Some (log_text es)) = Some (Events es)"
proof -
  have "json_parse (log_text es) = Some (JArray (map (map_json of_int \<circ> event_json) es))"
    unfolding log_text_def json_parse_stringify by simp
  moreover have "list_all small_numbers (map (map_json of_int \<circ> event_json) es)"
    using assms by (simp add: list_all_iff small_numbers_event event_ok_def)
  moreover have "those (map event_of_json (map (map_json of_int \<circ> event_json) es)) = Some es"
  proof -
    have "\<And>e. e \<in> set es \<Longrightarrow> event_of_json (map_json of_int (event_json e)) = Some e"
      using assms by (simp add: event_of_json_encode event_ok_def)
    then show ?thesis by (simp add: those_map_Some comp_def map_idI)
  qed
  ultimately show ?thesis by (simp add: log_of_text_def log_text_ne)
qed

subsection \<open>The text-level tracking refines the log\<close>

text \<open>
  C19: on every stored text that abstracts to a log, tracking an event the program can
  read back writes exactly the text of the log with the event appended, which reads back
  as that log; on a text that abstracts to an unreadable log it throws instead of
  writing.
\<close>

theorem trackEvent_text_refines:
  assumes "log_of_text stored = Some st" "event_ok (make_event env now ev props)"
  shows "(case st of
            Events es \<Rightarrow>
              trackEvent_text env now ev props stored = Inr (log_text (trackEvent env now ev props es)) \<and>
              log_of_text (Some (log_text (trackEvent env now ev props es))) =
                Some (Events (trackEvent env now ev props es))
          | Unreadable \<Rightarrow> isl (trackEvent_text env now ev props stored))"
proof (cases st)
  case (Events es)
  with assms(1) have p: "json_parse (stored_log_text stored) =
      Some (JArray (map (map_json of_int \<circ> event_json) es))" and ok: "\<forall>e\<in>set es. event_ok e"
    using log_of_text_Events by blast+
  let ?new = "make_event env now ev props"
  have ok': "\<forall>e\<in>set (es @ [?new]). event_ok e" using ok assms(2) by simp
  have "trackEvent_text env now ev props stored =
        Inr (json_reprint (JArray (map (map_json of_int \<circ> event_json) (es @ [?new]))))"
    by (simp add: trackEvent_text_def p)
  also have "\<dots> = Inr (log_text (trackEvent env now ev props es))"
    using reprint_events [OF ok'] by (simp add: trackEvent_def)
  finally show ?thesis
    using Events log_text_roundtrip [OF ok'] by (simp add: trackEvent_def)
next
  case Unreadable
  with assms(1) show ?thesis
    by (auto simp: log_of_text_def trackEvent_text_def split: option.splits json.splits if_splits)
qed

theorem trackEvent_text_refines_witness:
  "trackEvent_text \<lparr>userAgent = ''UA'', url = ''u''\<rparr> 5 ''quiz_started''
      [(''category'', PStr ''engagement''), (''quiz_type'', PStr ''spm_math'')] None =
     Inr (log_text (trackQuizStart \<lparr>userAgent = ''UA'', url = ''u''\<rparr> 5 [])) \<and>
   isl (trackEvent_text \<lparr>userAgent = ''UA'', url = ''u''\<rparr> 5 ''quiz_started'' [] (Some ''{}''))"
proof -
  let ?env = "\<lparr>userAgent = ''UA'', url = ''u''\<rparr>"
  let ?props = "[(''category'', PStr ''engagement''), (''quiz_type'', PStr ''spm_math'')]"
  have l0: "log_of_text None = Some (Events [])" by code_simp
  have ok: "event_ok (make_event ?env 5 ''quiz_started'' ?props)" by code_simp
  have l1: "log_of_text (Some ''{}'') = Some Unreadable" by code_simp
  have ok1: "event_ok (make_event ?env 5 ''quiz_started'' [])" by code_simp
  show ?thesis
    using trackEvent_text_refines [OF l0 ok] trackEvent_text_refines [OF l1 ok1]
    by (simp add: trackQuizStart_def)
qed

end
