(* ===== verification/LogFailure.thy ===== *)
theory LogFailure
  imports App AnalyticsLog
begin

text \<open>
  What an unreadable analytics log does to the App. \<open>trackEvent\<close> parses the stored
  log without a \<open>try\<close> (unlike the two readers of the stored state), so on a log text
  that does not parse, or parses to something other than an array, every tracking call
  throws. The handlers that track stop there (\<open>App.track\<close>): the state updates they
  queued before the call still happen, the toast after it does not, and nothing ever
  rewrites the log. \<open>core\<close> is the part of the App state that does not depend on the
  log: stage, question timer, reducer state and stored state.
\<close>

definition core :: "app_state \<Rightarrow> quiz_stage \<times> timestamp \<times> quiz_state \<times> payload option" where
  "core a = (stage a, questionStartTime a, quiz a, savedState a)"

lemma core_eqD:
  "core a = core b \<Longrightarrow>
   stage a = stage b \<and> questionStartTime a = questionStartTime b \<and> quiz a = quiz b \<and>
   savedState a = savedState b"
  by (simp add: core_def)

lemma core_handler:
  assumes "core a = core b"
  shows "core (handler env now a ev) = core (handler env now b ev)"
  using core_eqD [OF assms]
  by (cases ev)
     (simp_all add: core_def handleStart_def handleAnswerChange_def handleNext_def
        handlePrevious_def handlePause_def handleResume_def handleRestart_def resetQuiz_def
        handleBeforeUnload_def Let_def split: option.split)

lemma core_completion_effect:
  "core a = core b \<Longrightarrow> core (completion_effect a) = core (completion_effect b)"
  by (simp add: core_def completion_effect_def)

lemma core_app_run:
  "core a = core b \<Longrightarrow> core (app_run env a evs) = core (app_run env b evs)"
proof (induction evs arbitrary: a b)
  case (Cons e evs)
  obtain now ev where e: "e = (now, ev)" by (cases e)
  have "core (app_step env now a ev) = core (app_step env now b ev)"
    unfolding app_step_def by (rule core_completion_effect [OF core_handler [OF Cons.prems]])
  from Cons.IH [OF this] e show ?case by simp
qed simp

lemma unreadable_handler:
  assumes "analytics a = Unreadable"
  shows "analytics (handler env now a ev) = Unreadable \<and>
         (ev \<noteq> Restart \<longrightarrow> toasts (handler env now a ev) = toasts a)"
proof (cases ev)
  case Next
  show ?thesis
  proof (cases "isLastQuestion spmMathQuestions (quiz a)")
    case False
    then show ?thesis
      using Next assms new_progress_not_milestone [of "currentQuestion (quiz a) + 2"]
      by (simp add: handleNext_def Let_def milestone_toasts_def)
  qed (use Next assms in \<open>simp add: handleNext_def Let_def\<close>)
qed (use assms in \<open>simp_all add: handleStart_def handleAnswerChange_def handlePrevious_def
       handlePause_def handleResume_def handleRestart_def resetQuiz_def handleBeforeUnload_def Let_def
       split: option.split\<close>)

text \<open>
  C22: once the stored analytics log is unreadable, it stays unreadable through any run of
  UI events, no toast appears except the one of a restart, and the stage, the question
  timer, the reducer state and the stored state evolve exactly as they would with a
  readable log. Every analytics event and the start, pause, resume and completion
  toasts are lost for good.
\<close>

theorem unreadable_log_silences:
  assumes "analytics a = Unreadable"
  shows "analytics (app_run env a evs) = Unreadable \<and>
         (Restart \<notin> set (map snd evs) \<longrightarrow> toasts (app_run env a evs) = toasts a) \<and>
         stage (app_run env a evs) = stage (app_run env (a\<lparr>analytics := Events es\<rparr>) evs) \<and>
         questionStartTime (app_run env a evs) =
           questionStartTime (app_run env (a\<lparr>analytics := Events es\<rparr>) evs) \<and>
         quiz (app_run env a evs) = quiz (app_run env (a\<lparr>analytics := Events es\<rparr>) evs) \<and>
         savedState (app_run env a evs) = savedState (app_run env (a\<lparr>analytics := Events es\<rparr>) evs)"
proof -
  have "core a = core (a\<lparr>analytics := Events es\<rparr>)" by (simp add: core_def)
  from core_eqD [OF core_app_run [OF this]] have c:
    "stage (app_run env a evs) = stage (app_run env (a\<lparr>analytics := Events es\<rparr>) evs) \<and>
     questionStartTime (app_run env a evs) =
       questionStartTime (app_run env (a\<lparr>analytics := Events es\<rparr>) evs) \<and>
     quiz (app_run env a evs) = quiz (app_run env (a\<lparr>analytics := Events es\<rparr>) evs) \<and>
     savedState (app_run env a evs) = savedState (app_run env (a\<lparr>analytics := Events es\<rparr>) evs)" .
  have "analytics (app_run env a evs) = Unreadable \<and>
        (Restart \<notin> set (map snd evs) \<longrightarrow> toasts (app_run env a evs) = toasts a)"
    using assms
  proof (induction evs arbitrary: a)
    case (Cons e evs)
    obtain now ev where e: "e = (now, ev)" by (cases e)
    from unreadable_handler [OF Cons.prems, of env now ev]
    have "analytics (app_step env now a ev) = Unreadable"
      "ev \<noteq> Restart \<Longrightarrow> toasts (app_step env now a ev) = toasts a"
      by (simp_all add: app_step_def)
    with Cons.IH [of "app_step env now a ev"] e show ?case by auto
  qed simp
  with c show ?thesis by blast
qed

theorem unreadable_log_silences_witness:
  "analytics (app_run \<lparr>userAgent = ''UA'', url = ''u''\<rparr> (app_mount 0 None Unreadable)
      [(1, Start), (2, PauseToggle)]) = Unreadable \<and>
   toasts (app_run \<lparr>userAgent = ''UA'', url = ''u''\<rparr> (app_mount 0 None Unreadable)
      [(1, Start), (2, PauseToggle)]) = [] \<and>
   stage (app_run \<lparr>userAgent = ''UA'', url = ''u''\<rparr> (app_mount 0 None Unreadable)
      [(1, Start), (2, PauseToggle)]) = Quiz"
proof -
  have "analytics (app_mount 0 None Unreadable) = Unreadable" by simp
  note u = unreadable_log_silences [OF this, of "\<lparr>userAgent = ''UA'', url = ''u''\<rparr>"
      "[(1, Start), (2, PauseToggle)]" "[]"]
  have "stage (app_run \<lparr>userAgent = ''UA'', url = ''u''\<rparr> ((app_mount 0 None Unreadable)\<lparr>analytics := Events []\<rparr>)
      [(1, Start), (2, PauseToggle)]) = Quiz"
    by (simp add: app_step_def handleStart_def handlePause_def completion_effect_def Let_def
        initialState_def)
  with u show ?thesis by simp
qed

end
