(* ===== verification/RestoredState.thy ===== *)
theory RestoredState
  imports Storage
begin

text \<open>
  The reducer state after a restore is whatever \<open>JSON.parse\<close> returned: the hook's load
  effect dispatches \<open>LOAD_STATE\<close> with the parsed value unchecked
  (\<^verbatim>\<open>useQuizState.ts\<close> 111-122) and the reducer returns it (\<open>case 'LOAD_STATE'\<close>).
  The hook then derives, on every render, the current question and \<open>canGoNext\<close> from
  that value (lines 144-145). \<open>hook_derived_json\<close> is that derivation on a parsed value,
  with the property reads of JS (\<open>JsonValue.js_get\<close>): \<open>questions[state.currentQuestion]\<close>
  indexes the bank by the property key of whatever \<open>currentQuestion\<close> holds, and
  \<open>state.answers[currentQuestionData?.id]\<close> reads the key of the id, or
  \<open>"undefined"\<close>, from whatever \<open>answers\<close> holds, throwing when that is \<open>null\<close> or
  missing. Inherited members of the array are not read: \<open>questions["length"]\<close>
  is a number in JS, not a question, but its \<open>?.id\<close> is \<open>undefined\<close> as for a
  missing index, so the read of \<open>answers\<close> and its throw are the same. On the
  text of a state the program saved it computes what the typed model of
  \<open>QuizState\<close> computes; on other parsed values it may throw during render.
\<close>

definition hook_derived_json ::
  "quiz_question list \<Rightarrow> rat json \<Rightarrow> js_error + (quiz_question option \<times> bool)" where
  "hook_derived_json questions state =
     (case js_get (Some state) ''currentQuestion'' of
        Inl e \<Rightarrow> Inl e
      | Inr cq \<Rightarrow>
          let currentQuestionData = js_list_get questions (js_key cq)
          in (case js_get (Some state) ''answers'' of
                Inl e \<Rightarrow> Inl e
              | Inr ans \<Rightarrow>
                  (case js_get ans (case currentQuestionData of
                                      Some q \<Rightarrow> js_string_of_int (qid q)
                                    | None \<Rightarrow> ''undefined'') of
                     Inl e \<Rightarrow> Inl e
                   | Inr a \<Rightarrow> Inr (currentQuestionData, a \<noteq> None))))"

subsection \<open>Keys of integers\<close>

lemma string_of_nat_zero: "string_of_nat 0 = ''0''"
  by (subst string_of_nat.simps) (simp add: char_eval)

lemma is_array_index_string_of_nat:
  "n < 4294967295 \<Longrightarrow> is_array_index (string_of_nat n) \<and> digits_nat (string_of_nat n) = n"
proof -
  assume n: "n < 4294967295"
  have "hd (string_of_nat n) \<noteq> CHR ''0'' \<or> string_of_nat n = ''0''"
  proof (cases "n = 0")
    case True
    then show ?thesis by (simp del: string_of_nat.simps add: string_of_nat_zero)
  next
    case False
    then show ?thesis using string_of_nat_hd_zero by blast
  qed
  with n show ?thesis
    by (simp del: string_of_nat.simps
        add: is_array_index_def string_of_nat_ne list_all_iff string_of_nat_digits
        digits_nat_string_of_nat) blast
qed

lemma js_list_get_int:
  assumes "i < 4294967295"
  shows "js_list_get xs (js_string_of_int i) = js_index xs i"
proof (cases "i < 0")
  case True
  then have "\<not> is_array_index (js_string_of_int i)"
    by (simp add: is_array_index_def js_string_of_int_def is_digit_def)
  with True show ?thesis by (simp add: js_list_get_def js_index_def)
next
  case False
  then have "nat i < 4294967295" using assms by simp
  from is_array_index_string_of_nat [OF this] False show ?thesis
    by (auto simp: js_list_get_def js_index_def js_string_of_int_def)
qed


subsection \<open>Reading a restored value\<close>

lemma js_get_isl: "isl (js_get v k) \<longleftrightarrow> v = None \<or> v = Some JNull"
proof (cases v)
  case (Some j)
  then show ?thesis by (cases j) simp_all
qed simp

lemma not_index_answers: "\<not> is_array_index ''answers''"
  by (simp add: is_array_index_def is_digit_def)

lemma hook_derived_throws:
  "isl (hook_derived_json qs v) \<longleftrightarrow>
     \<not> (\<exists>kvs a. v = JObject kvs \<and> obj_get ''answers'' kvs = Some a \<and> a \<noteq> JNull)"
proof (cases v)
  case (JObject kvs)
  have c: "isl (case x of Inl e \<Rightarrow> Inl e | Inr a \<Rightarrow> Inr (f a)) = isl x"
    for x :: "js_error + 'a" and f :: "'a \<Rightarrow> 'b" by (cases x) simp_all
  have "isl (hook_derived_json qs v) \<longleftrightarrow>
        isl (js_get (obj_get ''answers'' kvs)
          (case js_list_get qs (js_key (obj_get ''currentQuestion'' kvs)) of
             Some q \<Rightarrow> js_string_of_int (qid q) | None \<Rightarrow> ''undefined''))"
    by (simp add: JObject hook_derived_json_def Let_def c)
  then show ?thesis by (auto simp: JObject js_get_isl)
qed (simp_all add: hook_derived_json_def js_list_get_def not_index_answers)

lemma hook_derived_saved:
  assumes "finite (dom (answers s))" "\<bar>currentQuestion s\<bar> < 4294967295"
  shows "hook_derived_json qs (map_json of_int (state_json s)) =
           Inr (currentQuestionData qs s, canGoNext qs s)"
proof -
  obtain L :: "(string \<times> rat json) list" where
    L: "map_json of_int (answers_json (answers s)) = JObject L"
    "\<forall>i. obj_get (js_string_of_int i) L = map_option JString (answers s i)"
    "obj_get ''undefined'' L = None"
    using answers_json_object [OF assms(1)] by blast
  have k: "js_key (Some (JNumber (of_int (currentQuestion s)))) = js_string_of_int (currentQuestion s)"
    using assms(2) by (simp add: js_key_def js_number_text_int)
  have q: "js_list_get qs (js_string_of_int (currentQuestion s)) = currentQuestionData qs s"
    using assms(2) by (simp add: js_list_get_int currentQuestionData_def)
  show ?thesis
    using L k q
    by (simp add: hook_derived_json_def state_json_def obj_get_def canGoNext_def
        split: option.split)
qed

text \<open>
  C18: the hook's reading of the restored value agrees with the typed model on the text
  of every reachable state: the current question and \<open>canGoNext\<close> computed on the
  parsed text are those of the state. On any other parsed value it throws, during
  render, exactly when the value is not an object with an \<open>answers\<close> property that is
  neither missing nor \<open>null\<close>: a stored \<open>null\<close>, \<open>[]\<close>, \<open>{}\<close> or number
  crashes the page instead of being discarded.
\<close>

theorem restored_state_render:
  "(reachable t s \<longrightarrow>
      map_option (hook_derived_json spmMathQuestions) (load_effect_text (Some (save_text s))) =
        Some (Inr (currentQuestionData spmMathQuestions s, canGoNext spmMathQuestions s))) \<and>
   (isl (hook_derived_json qs v) \<longleftrightarrow>
      \<not> (\<exists>kvs a. v = JObject kvs \<and> obj_get ''answers'' kvs = Some a \<and> a \<noteq> JNull))"
proof
  show "reachable t s \<longrightarrow>
      map_option (hook_derived_json spmMathQuestions) (load_effect_text (Some (save_text s))) =
        Some (Inr (currentQuestionData spmMathQuestions s, canGoNext spmMathQuestions s))"
  proof
    assume r: "reachable t s"
    then have "0 \<le> currentQuestion s" "currentQuestion s \<le> 4"
      using reachable_imp_state_ok by (simp_all add: state_ok_def)
    then have "\<bar>currentQuestion s\<bar> < 4294967295" by simp
    with reachable_finite_answers [OF r] show "map_option (hook_derived_json spmMathQuestions)
        (load_effect_text (Some (save_text s))) =
        Some (Inr (currentQuestionData spmMathQuestions s, canGoNext spmMathQuestions s))"
      by (simp add: load_effect_text_def save_text_ne json_parse_save_text hook_derived_saved)
  qed
qed (rule hook_derived_throws)

theorem restored_state_render_witness:
  "map_option (hook_derived_json spmMathQuestions) (load_effect_text (Some (save_text initialState))) =
     Some (Inr (Some (spmMathQuestions ! 0), False)) \<and>
   isl (hook_derived_json spmMathQuestions (JObject []))"
proof -
  have r: "reachable 0 initialState" by (rule reachable.init) simp
  have "currentQuestionData spmMathQuestions initialState = Some (spmMathQuestions ! 0)"
    "\<not> canGoNext spmMathQuestions initialState"
    by (simp_all add: currentQuestionData_def canGoNext_def initialState_def js_index_def)
  moreover note restored_state_render [of 0 initialState spmMathQuestions "JObject []"]
  ultimately show ?thesis using r by (simp add: obj_get_def)
qed

end
