(* ===== verification/QuestionTimer.thy ===== *)
theory QuestionTimer
  imports Views
begin

text \<open>
  The question clock of the quiz screen, composed with the App. \<open>QuizQuestion\<close> keeps
  \<open>timeSpent\<close> in its own state (\<open>Views.question_local\<close>) and runs an effect on
  \<open>[isPaused]\<close> (\<^verbatim>\<open>QuizQuestion.tsx\<close> 42-48): when not paused it starts a
  one-second interval whose callback adds one to \<open>timeSpent\<close>, and the effect's cleanup
  clears it when \<open>isPaused\<close> changes or the component unmounts. App renders the
  component, without a \<open>key\<close>, while \<open>stage === "quiz"\<close> and there is a current question
  (\<^verbatim>\<open>App.tsx\<close> 180-203), so React keeps one instance, and its clock, across the
  questions of a session. \<open>ui_state\<close> pairs the App state with the mounted instance's
  state and the start of its running interval (\<open>None\<close> while paused); the interval
  fires at every whole second after that start (an ideal timer, no throttling).
\<close>

record ui_state =
  app :: app_state
  qtimer :: "(question_local \<times> timestamp option) option"

text \<open>The interval callbacks due by time \<open>t\<close>, each one \<open>setTimeSpent(prev => prev + 1)\<close>.\<close>

definition fire_interval ::
  "timestamp \<Rightarrow> question_local \<times> timestamp option \<Rightarrow> question_local \<times> timestamp option" where
  "fire_interval t m =
     (case m of
        (l, Some t0) \<Rightarrow>
          if t0 \<le> t then
            let k = nat ((t - t0) div 1000)
            in ((question_tick False ^^ k) l, Some (t0 + 1000 * int k))
          else m
      | (l, None) \<Rightarrow> m)"

text \<open>The commit after a state change: the instance mounts with \<open>useState(0)\<close> and
  \<open>useState(true)\<close> when the quiz screen appears, unmounts when it goes, and the effect
  reruns (clearing the old interval, starting a new one now unless paused) when
  \<open>isPaused\<close> changed.\<close>

definition timer_effect ::
  "timestamp \<Rightarrow> app_state \<Rightarrow> app_state \<Rightarrow> (question_local \<times> timestamp option) option \<Rightarrow>
   (question_local \<times> timestamp option) option" where
  "timer_effect now a a' m =
     (if \<not> on_quiz_screen a' then None
      else case m of
        None \<Rightarrow> Some (question_local_init, if isPaused (quiz a') then None else Some now)
      | Some (l, t0) \<Rightarrow>
          if isPaused (quiz a') = isPaused (quiz a) then Some (l, t0)
          else Some (l, if isPaused (quiz a') then None else Some now))"

definition ui_mount :: "timestamp \<Rightarrow> payload option \<Rightarrow> analytics_store \<Rightarrow> ui_state" where
  "ui_mount now saved store =
     (let a = app_mount now saved store in \<lparr>app = a, qtimer = timer_effect now a a None\<rparr>)"

definition ui_step :: "browser_env \<Rightarrow> timestamp \<Rightarrow> ui_state \<Rightarrow> ui_event \<Rightarrow> ui_state" where
  "ui_step env now u ev =
     (let m = map_option (fire_interval now) (qtimer u);
          a' = app_step env now (app u) ev
      in \<lparr>app = a', qtimer = timer_effect now (app u) a' m\<rparr>)"

fun ui_run :: "browser_env \<Rightarrow> ui_state \<Rightarrow> (timestamp \<times> ui_event) list \<Rightarrow> ui_state" where
  "ui_run env u [] = u"
| "ui_run env u ((now, ev) # evs) = ui_run env (ui_step env now u ev) evs"

text \<open>What the page shows at time \<open>t\<close>, after the callbacks due by then.\<close>

definition ui_show :: "timestamp \<Rightarrow> ui_state \<Rightarrow> screen" where
  "ui_show t u =
     (case map_option (fire_interval t) (qtimer u) of
        Some (l, _) \<Rightarrow> render (app u) l
      | None \<Rightarrow> render (app u) question_local_init)"

subsection \<open>Lemmas\<close>

lemma timeSpent_ticks [simp]:
  "timeSpent ((question_tick False ^^ k) l) = timeSpent l + k \<and>
   showHeader ((question_tick False ^^ k) l) = showHeader l"
  by (induction k) (simp_all add: question_tick_def)

lemma fire_interval_running:
  "t0 \<le> t \<Longrightarrow>
   fire_interval t (l, Some t0) =
     ((question_tick False ^^ nat ((t - t0) div 1000)) l, Some (t0 + 1000 * ((t - t0) div 1000)))"
  by (simp add: fire_interval_def Let_def)

lemma fire_interval_paused [simp]: "fire_interval t (l, None) = (l, None)"
  by (simp add: fire_interval_def)

text \<open>The schedule does not depend on when it is observed: firing the callbacks due by
  \<open>t1\<close> and then those due by a later \<open>t2\<close> is firing those due by \<open>t2\<close>.\<close>

lemma fire_interval_twice:
  assumes "t1 \<le> t2"
  shows "fire_interval t2 (fire_interval t1 m) = fire_interval t2 m"
proof -
  obtain l x where m: "m = (l, x)" by (cases m)
  show ?thesis
  proof (cases x)
    case (Some t0)
    show ?thesis
    proof (cases "t0 \<le> t1")
      case True
      define k where "k = (t1 - t0) div 1000"
      have k0: "0 \<le> k" using True by (simp add: k_def)
      have "1000 * k = (t1 - t0) - (t1 - t0) mod 1000"
        by (simp add: k_def minus_mod_eq_mult_div)
      then have kle: "t0 + 1000 * k \<le> t1" by simp
      have d: "(t2 - t0) div 1000 = k + (t2 - (t0 + 1000 * k)) div 1000"
        by (simp add: algebra_simps)
      have "0 \<le> (t2 - (t0 + 1000 * k)) div 1000" using kle assms by simp
      with k0 d have n: "nat ((t2 - t0) div 1000) = nat ((t2 - (t0 + 1000 * k)) div 1000) + nat k"
        by simp
      have "fire_interval t1 m = ((question_tick False ^^ nat k) l, Some (t0 + 1000 * k))"
        using True by (simp add: m Some fire_interval_running k_def)
      moreover have "fire_interval t2 ((question_tick False ^^ nat k) l, Some (t0 + 1000 * k)) =
          ((question_tick False ^^ nat ((t2 - (t0 + 1000 * k)) div 1000)) ((question_tick False ^^ nat k) l),
           Some (t0 + 1000 * k + 1000 * ((t2 - (t0 + 1000 * k)) div 1000)))"
        using kle assms by (simp add: fire_interval_running)
      moreover have "fire_interval t2 m =
          ((question_tick False ^^ nat ((t2 - t0) div 1000)) l, Some (t0 + 1000 * ((t2 - t0) div 1000)))"
        using True assms by (simp add: m Some fire_interval_running)
      ultimately show ?thesis using n d by (simp add: funpow_add algebra_simps)
    next
      case False
      then show ?thesis by (simp add: m Some fire_interval_def)
    qed
  qed (simp add: m)
qed

lemma ui_step_app [simp]: "app (ui_step env now u ev) = app_step env now (app u) ev"
  by (simp add: ui_step_def Let_def)

lemma ui_step_timer:
  "qtimer (ui_step env now u ev) =
     timer_effect now (app u) (app_step env now (app u) ev) (map_option (fire_interval now) (qtimer u))"
  by (simp add: ui_step_def Let_def)

lemma timer_effect_keep:
  "on_quiz_screen a' \<Longrightarrow> isPaused (quiz a') = isPaused (quiz a) \<Longrightarrow>
   timer_effect now a a' (Some x) = Some x"
  by (cases x) (simp add: timer_effect_def)

lemma timer_effect_toggle:
  "on_quiz_screen a' \<Longrightarrow> isPaused (quiz a') \<noteq> isPaused (quiz a) \<Longrightarrow>
   timer_effect now a a' (Some x) = Some (fst x, if isPaused (quiz a') then None else Some now)"
  by (cases x) (simp add: timer_effect_def)

lemma timer_effect_mount:
  "on_quiz_screen a' \<Longrightarrow>
   timer_effect now a a' None = Some (question_local_init, if isPaused (quiz a') then None else Some now)"
  by (simp add: timer_effect_def)

lemma timer_effect_unmount: "\<not> on_quiz_screen a' \<Longrightarrow> timer_effect now a a' m = None"
  by (simp add: timer_effect_def)

text \<open>A UI event that keeps the quiz screen and the pause state only lets the clock
  run; one that pauses keeps the count and clears the interval; one that resumes starts
  a new interval at the event.\<close>

lemma ui_step_clock_runs:
  assumes "qtimer u = Some x" "on_quiz_screen (app_step env now (app u) ev)"
    "isPaused (quiz (app_step env now (app u) ev)) = isPaused (quiz (app u))"
  shows "qtimer (ui_step env now u ev) = Some (fire_interval now x)"
  using assms by (simp add: ui_step_timer timer_effect_keep)

lemma ui_step_clock_toggles:
  assumes "qtimer u = Some x" "on_quiz_screen (app_step env now (app u) ev)"
    "isPaused (quiz (app_step env now (app u) ev)) \<noteq> isPaused (quiz (app u))"
  shows "qtimer (ui_step env now u ev) =
           Some (fst (fire_interval now x),
                 if isPaused (quiz (app_step env now (app u) ev)) then None else Some now)"
  using assms by (simp add: ui_step_timer timer_effect_toggle)

subsection \<open>The clock over a session\<close>

text \<open>The App side of the session of the claim below: each event is enabled, the
  quiz screen stays up, and only the two toggles change the pause state.\<close>

lemma clock_scenario_apps:
  "let a0 = app_mount m None an; a1 = app_step env t0 a0 Start;
       a2 = app_step env t1 a1 (Answer ''C''); a3 = app_step env t1 a2 Next;
       a4 = app_step env t2 a3 PauseToggle; a5 = app_step env t3 a4 PauseToggle
   in run_enabled env a0
        [(t0, Start), (t1, Answer ''C''), (t1, Next), (t2, PauseToggle), (t3, PauseToggle)] \<and>
      on_quiz_screen a1 \<and> on_quiz_screen a2 \<and> on_quiz_screen a3 \<and> on_quiz_screen a4 \<and>
      on_quiz_screen a5 \<and> \<not> isPaused (quiz a1) \<and> \<not> isPaused (quiz a2) \<and>
      \<not> isPaused (quiz a3) \<and> isPaused (quiz a4) \<and> \<not> isPaused (quiz a5) \<and>
      stage a5 = Quiz \<and> currentQuestion (quiz a5) = 1"
proof -
  define a0 where "a0 = app_mount m None an"
  define a1 where "a1 = app_step env t0 a0 Start"
  define a2 where "a2 = app_step env t1 a1 (Answer ''C'')"
  define a3 where "a3 = app_step env t1 a2 Next"
  define a4 where "a4 = app_step env t2 a3 PauseToggle"
  define a5 where "a5 = app_step env t3 a4 PauseToggle"
  have s1: "stage a1 = Quiz" "quiz a1 = initialState\<lparr>startTime := t0\<rparr>"
    by (simp_all add: a1_def a0_def app_step_def handleStart_def completion_effect_def Let_def
        initialState_def)
  have s2: "stage a2 = Quiz" "quiz a2 = initialState\<lparr>startTime := t0, answers := [1 \<mapsto> ''C'']\<rparr>"
    using s1 by (simp_all add: a2_def app_step_def handleAnswerChange_def completion_effect_def
        initialState_def currentQuestionData_def js_index_def spmMathQuestions_def Let_def)
  have s3: "stage a3 = Quiz"
    "quiz a3 = initialState\<lparr>startTime := t0, currentQuestion := 1, answers := [1 \<mapsto> ''C'']\<rparr>"
    using s2 by (simp_all add: a3_def app_step_def handleNext_def completion_effect_def
        initialState_def isLastQuestion_def Let_def)
  have s4: "stage a4 = Quiz" "quiz a4 = (quiz a3)\<lparr>isPaused := True, pausedAt := Some t2\<rparr>"
    using s3 by (simp_all add: a4_def app_step_def handlePause_def completion_effect_def
        initialState_def)
  have s5: "stage a5 = Quiz" "\<not> isPaused (quiz a5)" "currentQuestion (quiz a5) = 1"
    using s4 s3 by (simp_all add: a5_def app_step_def handleResume_def completion_effect_def
        initialState_def)
  have o: "on_quiz_screen a1" "on_quiz_screen a2" "on_quiz_screen a3" "on_quiz_screen a4"
    "on_quiz_screen a5"
    using s1 s2 s3 s4 s5 by (simp_all add: on_quiz_screen_def currentQuestionData_def
        initialState_def)
  have e: "run_enabled env a0
      [(t0, Start), (t1, Answer ''C''), (t1, Next), (t2, PauseToggle), (t3, PauseToggle)] \<longleftrightarrow>
      ui_enabled a0 Start \<and> ui_enabled a1 (Answer ''C'') \<and> ui_enabled a2 Next \<and>
      ui_enabled a3 PauseToggle \<and> ui_enabled a4 PauseToggle"
    by (simp only: run_enabled.simps a1_def a2_def a3_def a4_def simp_thms)
  have "stage a0 = Onboarding" by (simp add: a0_def)
  with o s1 s2 have "run_enabled env a0
      [(t0, Start), (t1, Answer ''C''), (t1, Next), (t2, PauseToggle), (t3, PauseToggle)]"
    unfolding e by (simp add: currentQuestionData_def canGoNext_def spmMathQuestions_def
        initialState_def)
  with o s1 s2 s3 s4 s5 show ?thesis
    by (simp only: Let_def a0_def [symmetric] a1_def [symmetric] a2_def [symmetric] a3_def [symmetric]
        a4_def [symmetric] a5_def [symmetric]) (simp add: initialState_def)
qed

text \<open>The interval runs exactly while the quiz screen is shown and the session is not
  paused: the instance exists exactly on the quiz screen, and its interval is cleared
  exactly while \<open>isPaused\<close>.\<close>

definition timer_ok :: "ui_state \<Rightarrow> bool" where
  "timer_ok u \<longleftrightarrow>
     (case qtimer u of
        None \<Rightarrow> \<not> on_quiz_screen (app u)
      | Some (l, x) \<Rightarrow> on_quiz_screen (app u) \<and> (x = None \<longleftrightarrow> isPaused (quiz (app u))))"

lemma fire_interval_cleared: "fire_interval t (l, x) = (l', x') \<Longrightarrow> x' = None \<longleftrightarrow> x = None"
  by (auto simp: fire_interval_def Let_def split: option.splits if_splits)

lemma timer_ok_step: "timer_ok u \<Longrightarrow> timer_ok (ui_step env now u ev)"
  by (auto simp: timer_ok_def ui_step_timer timer_effect_def dest: fire_interval_cleared
      split: option.splits prod.splits)

lemma timer_ok_run: "timer_ok u \<Longrightarrow> timer_ok (ui_run env u evs)"
proof (induction evs arbitrary: u)
  case (Cons e evs)
  then show ?case by (cases e) (simp add: timer_ok_step)
qed simp

lemma timer_ok_mount: "timer_ok (ui_mount now saved store)"
  by (simp add: timer_ok_def ui_mount_def timer_effect_def Let_def)

text \<open>
  C11: the clock runs over the whole session, not per question, and restarts its cadence
  at each resume. After Start at \<open>t0\<close>, an answer and Next at \<open>t1\<close>, a pause at \<open>t2\<close> and
  a resume at \<open>t3\<close>, all enabled on the screen, the second question's screen shows at
  time \<open>t\<close> the whole seconds of \<open>[t0, t2]\<close> plus those of \<open>[t3, t]\<close>: Next does not reset
  it, the paused gap is not counted, and the part second before the pause is lost.
\<close>

theorem question_clock_across_session:
  assumes "m \<le> t0" "t0 \<le> t1" "t1 \<le> t2" "t2 \<le> t3" "t3 \<le> t"
  shows "let evs = [(t0, Start), (t1, Answer ''C''), (t1, Next), (t2, PauseToggle), (t3, PauseToggle)];
             u = ui_run env (ui_mount m None an) evs
         in run_enabled env (app_mount m None an) evs \<and> timely m evs \<and>
            (\<exists>pv qv. ui_show t u = QuizScreen pv qv \<and> qv_position qv = ''2 of 5'' \<and>
               qv_clock qv = question_formatTime (nat ((t2 - t0) div 1000) + nat ((t - t3) div 1000)))"
proof -
  define u0 where "u0 = ui_mount m None an"
  define u1 where "u1 = ui_step env t0 u0 Start"
  define u2 where "u2 = ui_step env t1 u1 (Answer ''C'')"
  define u3 where "u3 = ui_step env t1 u2 Next"
  define u4 where "u4 = ui_step env t2 u3 PauseToggle"
  define u5 where "u5 = ui_step env t3 u4 PauseToggle"
  have q0: "qtimer u0 = None" "app u0 = app_mount m None an"
    by (simp_all add: u0_def ui_mount_def timer_effect_def on_quiz_screen_def)
  have A1: "app_step env t0 (app_mount m None an) Start = app u1"
    by (simp add: u1_def q0)
  have A: "app_step env t0 (app u0) Start = app u1"
    "app_step env t1 (app u1) (Answer ''C'') = app u2" "app_step env t1 (app u2) Next = app u3"
    "app_step env t2 (app u3) PauseToggle = app u4" "app_step env t3 (app u4) PauseToggle = app u5"
    by (simp_all add: u1_def u2_def u3_def u4_def u5_def q0)
  note s = clock_scenario_apps [of m an env t0 t1 t2 t3, unfolded Let_def A1 A(2-)]
  define x where "x = fire_interval t2 (question_local_init, Some t0)"
  have "qtimer u1 = Some (question_local_init, Some t0)"
    using s q0(1) unfolding u1_def by (simp add: ui_step_timer timer_effect_mount A)
  then have "qtimer u2 = Some (fire_interval t1 (question_local_init, Some t0))"
    using s unfolding u2_def by (simp add: ui_step_clock_runs A)
  then have "qtimer u3 = Some (fire_interval t1 (question_local_init, Some t0))"
    using s unfolding u3_def by (simp add: ui_step_clock_runs A fire_interval_twice)
  then have "qtimer u4 = Some (fst x, None)"
    using s assms unfolding u4_def by (simp add: x_def ui_step_clock_toggles A fire_interval_twice)
  then have q5: "qtimer u5 = Some (fst x, Some t3)"
    using s unfolding u5_def by (simp add: ui_step_clock_toggles A)
  have "timeSpent (fst x) = nat ((t2 - t0) div 1000)"
    using assms by (simp add: x_def fire_interval_running question_local_init_def)
  then have "\<exists>pv qv. ui_show t u5 = QuizScreen pv qv \<and> qv_position qv = ''2 of 5'' \<and>
               qv_clock qv = question_formatTime (nat ((t2 - t0) div 1000) + nat ((t - t3) div 1000))"
    using q5 s assms
    by (simp add: ui_show_def fire_interval_running render_def
        questionView_def currentQuestionData_def js_index_def spmMathQuestions_def
        js_string_of_int_def char_eval)
  moreover have "ui_run env (ui_mount m None an)
      [(t0, Start), (t1, Answer ''C''), (t1, Next), (t2, PauseToggle), (t3, PauseToggle)] = u5"
    by (simp add: u0_def u1_def u2_def u3_def u4_def u5_def)
  ultimately show ?thesis using assms s by (simp add: Let_def)
qed

theorem question_clock_across_session_witness:
  "let u = ui_run \<lparr>userAgent = ''UA'', url = ''u''\<rparr> (ui_mount 0 None (Events []))
             [(0, Start), (3500, Answer ''C''), (3500, Next), (7200, PauseToggle), (60000, PauseToggle)]
   in \<exists>pv qv. ui_show 62999 u = QuizScreen pv qv \<and> qv_clock qv = ''0:09''"
proof -
  have "(0::int) \<le> 0" "(0::int) \<le> 3500" "(3500::int) \<le> 7200" "(7200::int) \<le> 60000"
    "(60000::int) \<le> 62999" by simp_all
  note c = question_clock_across_session [OF this, of "\<lparr>userAgent = ''UA'', url = ''u''\<rparr>" "Events []"]
  have "question_formatTime (nat ((7200 - 0) div 1000) + nat ((62999 - 60000) div 1000)) = ''0:09''"
    by (simp add: question_formatTime_def pad2_def char_eval)
  with c show ?thesis by (simp only: Let_def) auto
qed

end
