(* ===== verification/AnswerLoss.thy ===== *)
theory AnswerLoss
  imports SessionSpec
begin

text \<open>
  Which answers survive in the App. The UI only ever answers the current question
  (\<open>handleAnswerChange\<close> dispatches \<open>ANSWER_QUESTION\<close> with the id of
  \<open>currentQuestionData\<close>, which is the position plus one), and \<open>NEXT_QUESTION\<close>
  deletes the answer keyed by the position it leaves. So in every state a session can
  reach, every answer kept is keyed at or after the current position, whatever the user
  does, back and forth, paused or reloaded, and the session completes only at position 4.
  \<open>answers_ahead\<close> is that invariant of the reducer state.
\<close>

definition answers_ahead :: "quiz_state \<Rightarrow> bool" where
  "answers_ahead s \<longleftrightarrow>
     (\<forall>j. answers s j \<noteq> None \<longrightarrow> currentQuestion s \<le> j) \<and>
     (isComplete s \<longrightarrow> currentQuestion s = 4)"

lemma answers_ahead_initial [simp]: "answers_ahead initialState"
  by (simp add: answers_ahead_def initialState_def)

lemma current_qid:
  assumes "currentQuestionData spmMathQuestions s = Some q"
  shows "qid q = currentQuestion s + 1"
proof -
  have "0 \<le> currentQuestion s" "currentQuestion s < 5"
    using assms by (auto simp: currentQuestionData_def js_index_def split: if_splits)
  moreover from this have "q = spmMathQuestions ! nat (currentQuestion s)"
    using assms by (simp add: currentQuestionData_def)
  ultimately show ?thesis by (simp add: spmMathQuestions_qid_nth)
qed

lemma handler_answers_ahead:
  assumes "answers_ahead (quiz a)" "ui_enabled a ev" "results_iff_complete a"
    "0 \<le> currentQuestion (quiz a)"
  shows "answers_ahead (quiz (app_step env now a ev))"
proof (cases ev)
  case Start
  with assms show ?thesis
    by (auto simp: answers_ahead_def app_step_def handleStart_def Let_def results_iff_complete_def)
next
  case (Answer x)
  then obtain q where q: "currentQuestionData spmMathQuestions (quiz a) = Some q"
    using assms(2) by (auto split: option.splits)
  with current_qid [OF q] assms(1) Answer show ?thesis
    by (auto simp: answers_ahead_def app_step_def handleAnswerChange_def Let_def)
next
  case Next
  have nc: "\<not> isComplete (quiz a)"
    using assms(2,3) Next by (simp add: results_iff_complete_def on_quiz_screen_def)
  show ?thesis
  proof (cases "isLastQuestion spmMathQuestions (quiz a)")
    case True
    with assms(1) Next show ?thesis
      by (auto simp: answers_ahead_def app_step_def handleNext_def Let_def isLastQuestion_def)
  next
    case False
    with assms(1) Next nc show ?thesis
      by (auto simp: answers_ahead_def app_step_def handleNext_def Let_def)
  qed
next
  case Previous
  with assms show ?thesis
    by (auto simp: answers_ahead_def app_step_def handlePrevious_def results_iff_complete_def
        on_quiz_screen_def)
next
  case PauseToggle
  with assms(1) show ?thesis
    by (auto simp: answers_ahead_def app_step_def handlePause_def handleResume_def Let_def)
qed (use assms(1) in \<open>auto simp: answers_ahead_def app_step_def handleRestart_def resetQuiz_def
       handleBeforeUnload_def initialState_def\<close>)

lemma reachable_answers_ahead: "app_reachable env t a \<Longrightarrow> answers_ahead (quiz a)"
proof (induction rule: app_reachable.induct)
  case (event env t a ev)
  have "reachable t (quiz a)" using app_reachable_inv [OF event.hyps(1)] by simp
  then have "0 \<le> currentQuestion (quiz a)"
    using reachable_imp_state_ok by (simp add: state_ok_def)
  with event reachable_results_iff [OF event.hyps(1)] show ?case
    by (simp add: handler_answers_ahead)
next
  case (reload env t a)
  then show ?case using app_reachable_inv [OF reload.hyps] by (simp add: mirrored_def app_mount_quiz)
qed simp_all

lemma score_of_answers_ahead:
  assumes "\<forall>j. answers s j \<noteq> None \<longrightarrow> 4 \<le> j"
  shows "correct (calculateScore s spmMathQuestions) \<le> 2"
proof -
  have "filter (is_correct (answers s)) spmMathQuestions =
        filter (is_correct (answers s)) (filter (\<lambda>q. 4 \<le> qid q) spmMathQuestions)"
    using assms by (auto simp: filter_filter is_correct_def intro: filter_cong)
  then have "correct (calculateScore s spmMathQuestions) \<le>
        length (filter (\<lambda>q. 4 \<le> qid q) spmMathQuestions)"
    by (metis calculateScore_correct length_filter_le)
  also have "\<dots> = 2"
    using length_filter_map [of "\<lambda>i. 4 \<le> i" qid spmMathQuestions] by (simp add: o_def)
  finally show ?thesis .
qed

text \<open>
  C3: through the UI nobody scores more than 2 of 5. In every App state a session can
  reach (first visit, any enabled events in any order including going back and pausing,
  reloads), every answer kept is keyed at or after the current position, so the answers
  to questions 1 to 3 are gone by the time the session completes at position 4, and the
  results screen always shows a score of at most 2, however the user answered.
\<close>

theorem ui_score_at_most_two:
  assumes "app_reachable env t a"
  shows "(\<forall>j. answers (quiz a) j \<noteq> None \<longrightarrow> currentQuestion (quiz a) \<le> j) \<and>
         (stage a = Results \<longrightarrow> correct (calculateScore (quiz a) spmMathQuestions) \<le> 2)"
proof -
  have i: "answers_ahead (quiz a)" by (rule reachable_answers_ahead [OF assms])
  have "stage a = Results \<Longrightarrow> isComplete (quiz a)"
    using reachable_results_iff [OF assms] by (simp add: results_iff_complete_def)
  with i have "stage a = Results \<Longrightarrow> \<forall>j. answers (quiz a) j \<noteq> None \<longrightarrow> 4 \<le> j"
    by (auto simp: answers_ahead_def)
  with i show ?thesis by (auto simp: answers_ahead_def intro: score_of_answers_ahead)
qed

theorem ui_score_at_most_two_witness:
  "let a = app_step \<lparr>userAgent = ''UA'', url = ''u''\<rparr> 0 (app_mount 0 None (Events [])) Start
   in (\<forall>j. answers (quiz a) j \<noteq> None \<longrightarrow> currentQuestion (quiz a) \<le> j) \<and>
      (stage a = Results \<longrightarrow> correct (calculateScore (quiz a) spmMathQuestions) \<le> 2)"
proof -
  let ?env = "\<lparr>userAgent = ''UA'', url = ''u''\<rparr>"
  have r0: "app_reachable ?env 0 (app_mount 0 None (Events []))"
    by (rule app_reachable.first_mount) simp
  have "ui_enabled (app_mount 0 None (Events [])) Start" by simp
  from ui_score_at_most_two [OF app_reachable.event [OF r0 this]] show ?thesis
    by (simp only: Let_def)
qed

end
