(* ===== verification/Spec2Isabelle.thy ===== *)
theory Spec2Isabelle
  imports Storage Completion SessionSpec Views LogFailure RestoredState QuestionTimer AnswerLoss
begin

text \<open>
  A verification model of the quiz app (\<^verbatim>\<open>src/\<close>, TypeScript and React). The
  program has three logical parts and a presentation shell:
  \<^item> the question bank, \<^verbatim>\<open>src/utils/quizData.ts\<close>: five static questions, the
    milestone messages and the metadata shown on the start screen;
  \<^item> the session state machine, \<^verbatim>\<open>src/hooks/useQuizState.ts\<close>: a
    \<open>useReducer\<close> reducer over \<open>QuizState\<close> (position, answers by question id,
    completion, start/end time, pause state and paused total), the values the hook
    derives from it, and two effects that restore the state from and write it to
    \<open>localStorage\<close>;
  \<^item> the scoring, \<^verbatim>\<open>src/components/QuizResults.tsx\<close>: closures over the
    final state and the bank computing score, active time, per-topic counts, the tier
    message, a per-question review and recommendations;
  \<^item> the shell, \<^verbatim>\<open>src/App.tsx\<close> and the other components: a stage
    (\<open>onboarding\<close>, \<open>quiz\<close>, \<open>results\<close>) and handlers that dispatch reducer
    actions in response to the user, emit analytics events (\<^verbatim>\<open>useAnalytics.ts\<close>)
    and show toasts; the rendering itself.

  Theories.
  \<^item> \<open>Prelude\<close>: the representation of JS values (integral numbers as \<open>int\<close>,
    fractions as \<open>rat\<close> inside \<open>jsnum\<close> with \<open>NaN\<close> and \<open>\<plusminus>Infinity\<close>,
    \<open>Math.round\<close>, \<open>%\<close>, truthiness, array indexing, \<open>join\<close>, number to string)
    and list/map lemmas shared by the components.
  \<^item> \<open>QuizData\<close>: records \<open>quiz_question\<close>, \<open>answer_option\<close>, the
    datatype \<open>difficulty\<close>, the constant \<open>spmMathQuestions\<close> byte for byte, and
    the facts about the bank the other theories use (ids 1..5 in order, topics).
  \<^item> \<open>QuizState\<close>: record \<open>quiz_state\<close>, datatype \<open>quiz_action\<close>,
    \<open>initialState\<close>, \<open>quizReducer\<close> (one equation per \<open>case\<close>, the clock
    \<open>Date.now()\<close> an argument), \<open>dispatch_all\<close> for a sequence of dispatches, the
    derived \<open>progress\<close>, \<open>isLastQuestion\<close>, \<open>currentQuestionData\<close>,
    \<open>canGoNext\<close>; the reachable states (\<open>reachable\<close>, an inductive set over a
    monotone clock, restores being of states reached before) and the invariant
    \<open>state_ok\<close>; the behaviour of each transition.
  \<^item> \<open>QuizResults\<close>: \<open>calculateScore\<close>, \<open>calculateTotalTime\<close>,
    \<open>getTopicPerformance\<close> (a fold of \<open>topic_step\<close> over an association list
    that, as a JS object, keeps keys in insertion order), \<open>getPerformanceMessage\<close>,
    \<open>formatTime\<close>, \<open>weakTopics\<close>/\<open>getRecommendations\<close>,
    \<open>questionReview\<close> and the assembled \<open>quizReport\<close>; the abstract
    specification \<open>topic_table\<close> of the aggregation and the proof that the loop
    computes it.
  \<^item> \<open>QuizProgress\<close>: \<open>milestones\<close>, \<open>getMotivationalMessage\<close>,
    \<open>getMilestoneColor\<close> of \<^verbatim>\<open>QuizProgress.tsx\<close>.
  \<^item> \<open>Analytics\<close>: \<open>make_event\<close>, \<open>trackEvent\<close> and the six tracking
    functions of \<^verbatim>\<open>useAnalytics.ts\<close>, the log under \<open>quizAnalytics\<close> as a list
    of events, and \<open>analytics_store\<close>: a log, or a text on which tracking throws.
  \<^item> \<open>App\<close>: record \<open>app_state\<close> (stage, question timer, reducer state, the two
    storage keys, analytics store, toasts); \<open>dispatch\<close> is a reducer step followed by
    the hook's save effect; \<open>track\<close> is a tracking call that ends its handler when
    it throws; the handlers of \<^verbatim>\<open>App.tsx\<close>, each reading the state of
    its render; the completion and beforeunload effects; \<open>app_mount\<close>, the effects of
    the first two commits in their order; \<open>ui_event\<close> and \<open>ui_enabled\<close>, what the
    rendered screens let a user do (\<^verbatim>\<open>QuizQuestion.tsx\<close>); \<open>app_step\<close>,
    \<open>app_run\<close> and the reachable App states (first mount, enabled events under a
    monotone clock, reloads on what storage holds).
  \<^item> \<open>Json\<close>: a \<open>json\<close> datatype over a number type, \<open>json_stringify\<close>
    (\<open>JSON.stringify\<close> with its string escapes), and \<open>JSON.parse\<close> as a lexer
    \<open>json_lex\<close> (strings with all escapes including surrogate pairs to UTF-8, numbers
    with fraction and exponent as \<open>rat\<close>) and a shift-reduce parser over a frame stack
    (\<open>parse_value\<close>/\<open>after_value\<close>), both \<open>function\<close>s with termination by
    the length of what is left; \<open>json_parse\<close> is \<open>None\<close> where \<open>JSON.parse\<close>
    throws.
  \<^item> \<open>Storage\<close>: the text the save effect writes (\<open>save_text\<close>, the state as a JSON
    object in the key order of \<open>QuizState\<close>, answers keyed by their numeric ids
    ascending as JS orders integer keys), the decoding of a parsed value back to a state
    (\<open>state_of_json\<close>), and the load effect on text (\<open>load_effect_text\<close>).
  \<^item> \<open>JsonValue\<close>: what \<open>JSON.stringify\<close> prints for a value
    \<open>JSON.parse\<close> built: \<open>Number::toString\<close> of exact decimals
    (\<open>js_number_text\<close>, with its exponent forms) and the key order of JS objects
    (\<open>js_object\<close>, array indices first); the readers of fields of parsed values.
  \<^item> \<open>AnalyticsLog\<close>: \<open>trackEvent_text\<close>, tracking on the stored text with its
    \<open>SyntaxError\<close> and \<open>TypeError\<close> results, the JSON of an event
    (\<open>event_json\<close>), and the abstraction \<open>log_of_text\<close> to the store of \<open>App\<close>.
  \<^item> \<open>LogFailure\<close>: the App with an unreadable analytics log.
  \<^item> \<open>RestoredState\<close>: the hook's derived values computed on a restored value as
    \<open>JSON.parse\<close> returned it (\<open>hook_derived_json\<close>, with JS property reads).
  \<^item> \<open>Completion\<close>: that a results screen can always be reached (liveness).
  \<^item> \<open>SessionSpec\<close>: the abstract session machine of the specification and the
    simulation of it by the App.
  \<^item> \<open>Views\<close>: the data each screen renders (\<open>resultsView\<close>,
    \<open>progressView\<close>, \<open>onboardingView\<close>, \<open>questionView\<close> with the
    question component's own timer and header toggle) and \<open>render\<close>, which screen
    \<^verbatim>\<open>App.tsx\<close> shows for a stage.
  \<^item> \<open>QuestionTimer\<close>: the question clock composed with the App. \<open>ui_state\<close>
    pairs the App state with the mounted \<open>QuizQuestion\<close> instance and the start of
    its running interval; \<open>timer_effect\<close> is the \<open>[isPaused]\<close> effect and the
    mount/unmount of the instance, \<open>fire_interval\<close> the callbacks due by a time
    (an ideal one-second timer), \<open>ui_step\<close>/\<open>ui_run\<close> the UI events,
    \<open>ui_show\<close> the screen at a time; \<open>timer_ok\<close> (the interval runs exactly on
    the unpaused quiz screen) holds on every run.
  \<^item> \<open>AnswerLoss\<close>: the invariant \<open>answers_ahead\<close> of every reachable App state
    (answers kept only at or after the current position, completion only at position 4)
    and the bound it puts on every score shown.
  \<^item> this theory: properties that need several components, and the scenarios of the
    specification.

  What the lemmas show. The reducer keeps the position in \<open>[0, 4]\<close> on every run
  without restores (C4) and keeps \<open>state_ok\<close> on every reachable state (C5). Pause
  and resume add exactly the gap between them, so a second pause discards the time before
  it (C6); resume when not paused changes nothing but the flag (C7); navigation clamps at
  both ends (C8). The scoring loops compute their specifications (C9, C10), pick the tier
  by count (C12) and the weak topics by the 3/5 threshold (C13). The header messages and
  milestone dots of the rendered header are as listed (C17). The hook's reading of a
  restored value agrees with the typed state on every saved reachable state, and throws
  on parsed values without an \<open>answers\<close> object (C18). Tracking on the stored text
  refines tracking on the log: it writes the text of the appended log, or throws on an
  unreadable one (C19). Storage always mirrors the in-memory state (C21). The completion
  event agrees with the results view (C24). The App refines the reducer: the quiz state
  of every reachable App state is a reachable reducer state, so the reducer invariant
  holds throughout the App (C26). In every reachable App state every kept answer is keyed
  at or after the current position, so no results screen ever shows more than 2 of 5
  (C3). The abandonment event of the spec's pause-then-abandon scenario counts the open
  pause (C14); an answer event measures time from the last resume, dropping the time on
  the question before a pause (C15). The question clock runs across the questions of a
  session, skips paused gaps and loses the part second before each pause (C11). Every
  reachable state survives the trip through the stored text (C28). From every reachable
  App state a results screen is reached by at most 11 enabled events (C29). The App
  simulates the abstract session machine, and shows results exactly when the session is
  complete (C30). The results screen shows bounded percentages, the average time per
  question and one separator fewer than questions (C31).

  Findings. \<open>NEXT_QUESTION\<close> deletes \<open>answers[currentQuestion]\<close>, a
  position, from a map keyed by question id (ids are positions plus one): it erases the
  answer of the question before the one being left, not that one (C1). A user who answers
  every question in order therefore finishes with only the answers to questions 4 and 5,
  and scores at most 2 of 5 even with every answer right (C2), also through the UI from a
  first visit (C25); no sequence of UI events, going back, pausing or reloading, does
  better (C3). On reload the hook's save effect overwrites the stored state with the
  initial state before App checks it, so an attempt in progress is restored in memory but
  the App stays on the onboarding screen (C20); pressing Start then keeps the answers and
  paused total of that attempt. \<open>START_QUIZ\<close> keeps the paused total of an earlier
  attempt, so a completed session can report a negative active time (C16). The milestone
  toasts test for 25, 50, 75 but the progress is a multiple of 20 (C23). The pause overlay
  does not stop the keyboard, so a paused session can be finished and its pause is then
  counted as active time (C27). \<open>trackEvent\<close> parses the stored analytics log
  without a \<open>try\<close>: once that text is unreadable every tracking call throws, so no
  event is logged and the start, pause, resume and completion toasts never show, for good,
  since nothing rewrites the key (C22). A stored state that parses to \<open>null\<close>, an
  array, a number or an object without \<open>answers\<close> is restored unchecked and makes the
  next render throw, a blank page, where the specification asks for the payload to be
  discarded (C18). Leaving the page while paused reports the open pause as time spent in
  the abandonment event, where the specification excludes it (C14); the time of an answer
  event restarts at every resume (C15). The on-screen clock is not per question and
  differs from the time the answer event reports (C11).

  Numbers. Timestamps and ids are integral and far below \<open>2^53\<close>; the fractions
  compared with thresholds (\<open>correct/total\<close> against 0.6, \<open>correct/5*100\<close>
  against 80, 60, 40, the progress against 25, 50, 75, 100) have denominators at most the
  question count, for which the correctly rounded double compares as the rational does,
  so \<open>rat\<close> is exact here. No loop of the program is unbounded: every loop is a
  \<open>forEach\<close>, \<open>reduce\<close> or \<open>map\<close> over a finite list, modelled as a fold or
  map, so no fuel is needed. The one-second interval is the only timed activity; its
  firings due by a time are counted in closed form (\<open>fire_interval\<close>), and firing
  in two steps is firing once (\<open>fire_interval_twice\<close>).

  Plan. Built in this order: the reducer (the core behaviour), the scoring, the bank, then
  the shell (progress header, analytics, App), then the JSON text of storage, the
  liveness and session-machine refinement, the rendered data, then the analytics log as
  JSON text and its failure, the render after a restore of a foreign value, and the
  question timer of \<^verbatim>\<open>QuizQuestion.tsx\<close> composed with the App. What remains
  is listed below and is out of reach of a faithful typed model.

  Not modelled: the reducer actions applied to a restored value that is not a state (the
  render that follows the restore is, C18; the typed state cannot hold such a value, and
  \<open>state_of_json\<close> reads only states; modelling them needs JS values with \<open>NaN\<close>,
  string concatenation by \<open>+\<close> and object spread of arbitrary values, beyond the
  JSON values the parser yields); timer throttling and drift of
  \<open>setInterval\<close> (the clock is cosmetic, spec section 5); numbers are
  exact rationals, so the double rounding of \<open>JSON.parse\<close> on long decimal texts and
  its overflow to \<open>Infinity\<close> (printed back as \<open>null\<close>) are not modelled (the
  texts the program writes are integers far below \<open>2^53\<close>);
  React's bail-out when a reset returns the very initial state object; the abandonment
  event's delivery; class names, icons and \<^verbatim>\<open>tailwind.config.js\<close>.
\<close>

subsection \<open>The straight-through run\<close>

text \<open>
  C2: a user who answers the five questions in order, moving on after each, finishes with
  only the answers to questions 4 and 5; whatever the answers, the score is at most 2 of 5,
  and with every answer right it is 2 of 5, the third-tier message.
\<close>

theorem straight_through_loses_answers:
  "answers (dispatch_all initialState
      (map (Pair now) (START_QUIZ # answer_walk 1 [a1, a2, a3, a4, a5]))) = [4 \<mapsto> a4, 5 \<mapsto> a5] \<and>
   correct (calculateScore (dispatch_all initialState
      (map (Pair now) (START_QUIZ # answer_walk 1 [a1, a2, a3, a4, a5]))) spmMathQuestions) \<le> 2 \<and>
   message (getPerformanceMessage (calculateScore (dispatch_all initialState
      (map (Pair now) (START_QUIZ # answer_walk 1 [''C'', ''A'', ''A'', ''C'', ''A''])))
      spmMathQuestions)) = ''Keep practicing!''"
proof -
  have a: "\<And>b1 b2 b3 b4 b5. answers (dispatch_all initialState
      (map (Pair now) (START_QUIZ # answer_walk 1 [b1, b2, b3, b4, b5]))) = [4 \<mapsto> b4, 5 \<mapsto> b5]"
    by (rule answer_walk_final_answers)
  have le: "length (filter (is_correct [4 \<mapsto> a4, 5 \<mapsto> a5]) spmMathQuestions) \<le> 2"
    by (simp add: spmMathQuestions_def is_correct_def)
  have c: "length (filter (is_correct [4 \<mapsto> ''C'', 5 \<mapsto> ''A'']) spmMathQuestions) = 2"
    by (simp add: spmMathQuestions_def is_correct_def)
  have s1: "correct (calculateScore (dispatch_all initialState
      (map (Pair now) (START_QUIZ # answer_walk 1 [a1, a2, a3, a4, a5]))) spmMathQuestions) \<le> 2"
    by (simp only: calculateScore_correct a le)
  have s2: "message (getPerformanceMessage (calculateScore (dispatch_all initialState
      (map (Pair now) (START_QUIZ # answer_walk 1 [''C'', ''A'', ''A'', ''C'', ''A''])))
      spmMathQuestions)) = ''Keep practicing!''"
    by (simp only: getPerformanceMessage_def calculateScore_percentage a c) simp
  show ?thesis using a s1 s2 by blast
qed

text \<open>
  C25: the same through the user interface. From a first visit (empty storage), the user
  starts, picks the right option on each question and presses Next, then Finish; every
  event is enabled on the screen it is used on. The session ends on the results screen
  with a score of 2 of 5 (40\<open>%\<close>).
\<close>

theorem ui_straight_through_scores_two:
  "let evs = [(2, Start), (3, Answer ''C''), (4, Next), (5, Answer ''A''), (6, Next),
              (7, Answer ''A''), (8, Next), (9, Answer ''C''), (10, Next), (11, Answer ''A''),
              (12, Next)];
       a = app_run env (app_mount 1 None (Events [])) evs
   in app_reachable env 12 a \<and> stage a = Results \<and>
      report_score (quizReport (quiz a) spmMathQuestions) =
        \<lparr>correct = 2, total = 5, percentage = JNum 40\<rparr>"
proof -
  define evs :: "(timestamp \<times> ui_event) list" where
    "evs = [(2, Start), (3, Answer ''C''), (4, Next), (5, Answer ''A''), (6, Next),
            (7, Answer ''A''), (8, Next), (9, Answer ''C''), (10, Next), (11, Answer ''A''),
            (12, Next)]"
  have en: "run_enabled env (app_mount 1 None (Events [])) evs"
    by (simp add: evs_def app_step_def handleStart_def handleAnswerChange_def handleNext_def
        Let_def initialState_def currentQuestionData_def canGoNext_def isLastQuestion_def
        on_quiz_screen_def spmMathQuestions_def completion_effect_def toast_def dispatch_def)
  have "app_reachable env (run_end 1 evs) (app_run env (app_mount 1 None (Events [])) evs)"
    by (rule app_run_reachable [OF app_reachable.first_mount en]) (simp_all add: evs_def)
  moreover have "run_end 1 evs = 12" by (simp add: evs_def)
  moreover have q: "quiz (app_run env (app_mount 1 None (Events [])) evs) =
      dispatch_all initialState
        (map (Pair 0) (START_QUIZ # answer_walk 1 [''C'', ''A'', ''A'', ''C'', ''A''])) \<lparr>
          startTime := 2, endTime := Some 12\<rparr>"
    by (simp add: evs_def app_step_def handleStart_def handleAnswerChange_def handleNext_def
        Let_def initialState_def currentQuestionData_def isLastQuestion_def
        spmMathQuestions_def completion_effect_def toast_def dispatch_def fun_upd_twist)
  moreover have "stage (app_run env (app_mount 1 None (Events [])) evs) = Results"
    by (simp add: evs_def app_step_def handleStart_def handleAnswerChange_def handleNext_def
        Let_def initialState_def currentQuestionData_def isLastQuestion_def
        spmMathQuestions_def completion_effect_def toast_def dispatch_def)
  moreover have "answers (quiz (app_run env (app_mount 1 None (Events [])) evs)) = [4 \<mapsto> ''C'', 5 \<mapsto> ''A'']"
    unfolding q using answer_walk_final_answers [of 0 "''C''" "''A''" "''A''" "''C''" "''A''"]
    by simp
  ultimately show ?thesis
    by (simp add: evs_def [symmetric] quizReport_def Let_def calculateScore_def is_correct_def
        spmMathQuestions_def)
qed

subsection \<open>Active time across attempts\<close>

text \<open>
  C16: \<open>START_QUIZ\<close> resets the start time but not the paused total. A session
  started at 1, paused from 2 to 5002, started again at 5002 and completed at 5003 is
  reachable and complete, and its report shows an active time of -5 seconds, printed
  \<open>-1m -5s\<close>.
\<close>

theorem negative_total_time_reachable:
  "reachable 5003 (dispatch_all initialState
     [(1, START_QUIZ), (2, PAUSE_QUIZ), (5002, RESUME_QUIZ), (5002, START_QUIZ), (5003, COMPLETE_QUIZ)]) \<and>
   isComplete (dispatch_all initialState
     [(1, START_QUIZ), (2, PAUSE_QUIZ), (5002, RESUME_QUIZ), (5002, START_QUIZ), (5003, COMPLETE_QUIZ)]) \<and>
   calculateTotalTime (dispatch_all initialState
     [(1, START_QUIZ), (2, PAUSE_QUIZ), (5002, RESUME_QUIZ), (5002, START_QUIZ), (5003, COMPLETE_QUIZ)]) = -5 \<and>
   formatTime (calculateTotalTime (dispatch_all initialState
     [(1, START_QUIZ), (2, PAUSE_QUIZ), (5002, RESUME_QUIZ), (5002, START_QUIZ), (5003, COMPLETE_QUIZ)])) =
     ''-1m -5s''"
proof -
  let ?s1 = "quizReducer 1 initialState START_QUIZ"
  let ?s2 = "quizReducer 2 ?s1 PAUSE_QUIZ"
  let ?s3 = "quizReducer 5002 ?s2 RESUME_QUIZ"
  let ?s4 = "quizReducer 5002 ?s3 START_QUIZ"
  let ?s5 = "quizReducer 5003 ?s4 COMPLETE_QUIZ"
  have r1: "reachable 1 ?s1" by (rule reachable.step [OF reachable.init]) simp_all
  have r2: "reachable 2 ?s2" by (rule reachable.step [OF reachable.tick [OF r1]]) simp_all
  have r3: "reachable 5002 ?s3" by (rule reachable.step [OF reachable.tick [OF r2]]) simp_all
  have r4: "reachable 5002 ?s4" by (rule reachable.step [OF r3]) simp
  have r5: "reachable 5003 ?s5" by (rule reachable.step [OF reachable.tick [OF r4]]) simp_all
  have run: "dispatch_all initialState
     [(1, START_QUIZ), (2, PAUSE_QUIZ), (5002, RESUME_QUIZ), (5002, START_QUIZ), (5003, COMPLETE_QUIZ)] = ?s5"
    by simp
  have fields: "endTime ?s5 = Some 5003" "startTime ?s5 = 5002" "totalPausedTime ?s5 = 5000"
    "isComplete ?s5"
    by (simp_all add: initialState_def)
  have "js_round (of_int (5003 - 5002 - 5000) / 1000) = -5"
    using js_round_div_int [of 1000 "5003 - 5002 - 5000"] by simp
  then have t: "calculateTotalTime ?s5 = -5"
    by (simp add: calculateTotalTime_def initialState_def)
  have f: "formatTime (-5) = ''-1m -5s''"
    by code_simp
  show ?thesis using r5 fields(4) t f by (simp only: run)
qed

text \<open>
  C27: the pause overlay blocks the mouse but not the keyboard, so a paused session can be
  answered and finished. Starting at 1000, reaching the last question at 9000, pausing at
  10000 and finishing by keyboard at 71000 is a run of enabled events; the session ends
  complete and still paused, and the results view reports 70 seconds, counting the minute
  of pause as active time.
\<close>

theorem finish_while_paused_counts_pause:
  "let evs = [(1000, Start), (2000, Answer ''C''), (3000, Next), (4000, Answer ''A''),
              (5000, Next), (6000, Answer ''A''), (7000, Next), (8000, Answer ''C''),
              (9000, Next), (10000, PauseToggle), (70000, Answer ''A''), (71000, Next)];
       a = app_run env (app_mount 1 None (Events [])) evs
   in app_reachable env 71000 a \<and> stage a = Results \<and> isComplete (quiz a) \<and>
      isPaused (quiz a) \<and> calculateTotalTime (quiz a) = 70"
proof -
  define evs :: "(timestamp \<times> ui_event) list" where
    "evs = [(1000, Start), (2000, Answer ''C''), (3000, Next), (4000, Answer ''A''),
            (5000, Next), (6000, Answer ''A''), (7000, Next), (8000, Answer ''C''),
            (9000, Next), (10000, PauseToggle), (70000, Answer ''A''), (71000, Next)]"
  have en: "run_enabled env (app_mount 1 None (Events [])) evs"
    by (simp add: evs_def app_step_def handleStart_def handleAnswerChange_def handleNext_def
        handlePause_def Let_def initialState_def currentQuestionData_def canGoNext_def
        isLastQuestion_def on_quiz_screen_def spmMathQuestions_def completion_effect_def
        toast_def dispatch_def)
  have "app_reachable env (run_end 1 evs) (app_run env (app_mount 1 None (Events [])) evs)"
    by (rule app_run_reachable [OF app_reachable.first_mount en]) (simp_all add: evs_def)
  moreover have "run_end 1 evs = 71000" by (simp add: evs_def)
  moreover have q: "stage (app_run env (app_mount 1 None (Events [])) evs) = Results \<and>
      isComplete (quiz (app_run env (app_mount 1 None (Events [])) evs)) \<and>
      isPaused (quiz (app_run env (app_mount 1 None (Events [])) evs)) \<and>
      endTime (quiz (app_run env (app_mount 1 None (Events [])) evs)) = Some 71000 \<and>
      startTime (quiz (app_run env (app_mount 1 None (Events [])) evs)) = 1000 \<and>
      totalPausedTime (quiz (app_run env (app_mount 1 None (Events [])) evs)) = 0"
    by (simp add: evs_def app_step_def handleStart_def handleAnswerChange_def handleNext_def
        handlePause_def Let_def initialState_def currentQuestionData_def isLastQuestion_def
        spmMathQuestions_def completion_effect_def toast_def dispatch_def)
  moreover have "js_round (of_int (71000 - 1000 - 0) / 1000) = 70"
    using js_round_div_int [of 1000 "71000 - 1000 - 0"] by simp
  ultimately show ?thesis
    by (simp add: evs_def [symmetric] calculateTotalTime_def)
qed

subsection \<open>Time in the analytics events\<close>

text \<open>
  C14: the specification's pause-then-abandon scenario. Starting at \<open>t0\<close>, pausing at
  \<open>t1\<close> and leaving the page at \<open>t2\<close> is a run of enabled events; the abandonment
  event reports \<open>Math.round((t2 - t0) / 1000)\<close> seconds: the open pause from \<open>t1\<close> to
  \<open>t2\<close> is counted, since \<open>handleBeforeUnload\<close> subtracts only the paused total of
  completed pauses. The specification requires the indefinite pause gap to be excluded.
\<close>

theorem pause_then_abandon:
  assumes "t0 \<le> t1" "t1 \<le> t2"
  shows "let evs = [(t0, Start), (t1, PauseToggle), (t2, Unload)];
             a = app_run env (app_mount t0 None (Events [])) evs
         in run_enabled env (app_mount t0 None (Events [])) evs \<and> timely t0 evs \<and>
            isPaused (quiz a) \<and> pausedAt (quiz a) = Some t1 \<and>
            (\<exists>es e. analytics a = Events (es @ [e]) \<and> event e = ''quiz_abandoned'' \<and>
               map_of (properties e) ''time_spent_seconds'' =
                 Some (PNum (js_round (of_int (t2 - t0) / 1000))))"
  using assms
  by (simp add: app_step_def handleStart_def handlePause_def handleBeforeUnload_def Let_def
      initialState_def currentQuestionData_def on_quiz_screen_def completion_effect_def
      toast_def dispatch_def track_def trackQuizStart_def trackQuizPause_def
      trackQuizAbandonment_def trackEvent_def make_event_def update_conv' js_index_def)

theorem pause_then_abandon_witness:
  "let a = app_run \<lparr>userAgent = ''UA'', url = ''u''\<rparr> (app_mount 0 None (Events []))
             [(0, Start), (5000, PauseToggle), (60000, Unload)]
   in \<exists>es e. analytics a = Events (es @ [e]) \<and> event e = ''quiz_abandoned'' \<and>
        map_of (properties e) ''time_spent_seconds'' = Some (PNum 60)"
proof -
  have "(0::int) \<le> 5000" "(5000::int) \<le> 60000" by simp_all
  note p = pause_then_abandon [OF this, of "\<lparr>userAgent = ''UA'', url = ''u''\<rparr>"]
  have "js_round (of_int (60000 - 0) / 1000) = 60"
    using js_round_div_int [of 1000 "60000 - 0"] by simp
  with p show ?thesis by (simp only: Let_def)
qed

text \<open>
  C15: the time an answer event reports is measured from the last start, move or
  resume. Starting at \<open>t0\<close>, pausing at a time \<open>t1 > 0\<close>, resuming at \<open>t2\<close> and answering
  the first question at \<open>t3\<close> is a run of enabled events, and the
  \<open>question_answered\<close> event reports \<open>Math.round((t3 - t2) / 1000)\<close> seconds:
  \<open>handleResume\<close> resets the question timer, so the time spent on the question before
  the pause is dropped along with the pause, while the session's paused total is
  exactly the pause.
\<close>

theorem answer_time_after_resume:
  assumes "t0 \<le> t1" "0 < t1" "t1 \<le> t2" "t2 \<le> t3"
  shows "let evs = [(t0, Start), (t1, PauseToggle), (t2, PauseToggle), (t3, Answer ''C'')];
             a = app_run env (app_mount t0 None (Events [])) evs
         in run_enabled env (app_mount t0 None (Events [])) evs \<and> timely t0 evs \<and>
            totalPausedTime (quiz a) = t2 - t1 \<and>
            (\<exists>es e. analytics a = Events (es @ [e]) \<and> event e = ''question_answered'' \<and>
               map_of (properties e) ''time_spent_seconds'' =
                 Some (PNum (js_round (of_int (t3 - t2) / 1000))))"
  using assms
  by (simp add: app_step_def handleStart_def handlePause_def handleResume_def
      handleAnswerChange_def Let_def initialState_def currentQuestionData_def on_quiz_screen_def
      completion_effect_def toast_def dispatch_def track_def trackQuizStart_def
      trackQuizPause_def trackQuizResume_def trackQuestionAnswer_def trackEvent_def
      make_event_def update_conv' js_index_def spmMathQuestions_def)

theorem answer_time_after_resume_witness:
  "let a = app_run \<lparr>userAgent = ''UA'', url = ''u''\<rparr> (app_mount 0 None (Events []))
             [(0, Start), (10000, PauseToggle), (20000, PauseToggle), (25000, Answer ''C'')]
   in totalPausedTime (quiz a) = 10000 \<and>
      (\<exists>es e. analytics a = Events (es @ [e]) \<and> event e = ''question_answered'' \<and>
        map_of (properties e) ''time_spent_seconds'' = Some (PNum 5))"
proof -
  have "(0::int) \<le> 10000" "(0::int) < 10000" "(10000::int) \<le> 20000" "(20000::int) \<le> 25000"
    by simp_all
  note p = answer_time_after_resume [OF this, of "\<lparr>userAgent = ''UA'', url = ''u''\<rparr>"]
  have "js_round (of_int (25000 - 20000) / 1000) = 5"
    using js_round_div_int [of 1000 "25000 - 20000"] by simp
  with p show ?thesis by (simp only: Let_def) simp
qed

end
